theory Spec2Isabelle
  imports Main "HOL-Library.AList"
begin

section \<open>Python values used by \<open>ib_historical.py\<close>\<close>

text \<open>
  The exceptions the module can meet. Every \<^verbatim>\<open>raise\<close> of the source is a value
  \<open>Inl e\<close> of a result type \<open>exn + 'a\<close>.
\<close>

datatype exn = IndexError | ValueError | KeyError string | TypeError

definition bind_exn :: "exn + 'a \<Rightarrow> ('a \<Rightarrow> exn + 'b) \<Rightarrow> exn + 'b" where
  "bind_exn m f = (case m of Inl e \<Rightarrow> Inl e | Inr x \<Rightarrow> f x)"

fun map_exn :: "('a \<Rightarrow> exn + 'b) \<Rightarrow> 'a list \<Rightarrow> exn + 'b list" where
  "map_exn f [] = Inr []"
| "map_exn f (x # xs) =
     (case f x of
        Inl e \<Rightarrow> Inl e
      | Inr y \<Rightarrow> (case map_exn f xs of Inl e \<Rightarrow> Inl e | Inr ys \<Rightarrow> Inr (y # ys)))"

subsection \<open>Strings\<close>

text \<open>
  A Python \<^verbatim>\<open>str\<close> is modelled as a \<open>string\<close> whose characters are the code points
  below 256. \<open>isspace\<close> is \<^verbatim>\<open>str.isspace\<close> on one such character.
\<close>

definition isspace :: "char \<Rightarrow> bool" where
  "isspace c = ((of_char c :: nat) \<in> {9, 10, 11, 12, 13, 28, 29, 30, 31, 32, 133, 160})"

definition isdigit :: "char \<Rightarrow> bool" where
  "isdigit c = (48 \<le> (of_char c :: nat) \<and> (of_char c :: nat) \<le> 57)"

definition digit_val :: "char \<Rightarrow> int" where
  "digit_val c = int (of_char c) - 48"

text \<open>\<^verbatim>\<open>s.strip()\<close>: leading and trailing whitespace removed.\<close>

definition strip :: "string \<Rightarrow> string" where
  "strip s = rev (dropWhile isspace (rev (dropWhile isspace s)))"

text \<open>
  \<^verbatim>\<open>s.split(" ")\<close>: a cut at every single occurrence of the separator. Two adjacent
  separators give an empty token, and the empty string gives one empty token.
\<close>

fun split_on :: "char \<Rightarrow> string \<Rightarrow> string list" where
  "split_on sep [] = [[]]"
| "split_on sep (c # cs) =
     (if c = sep then [] # split_on sep cs
      else (case split_on sep cs of
              [] \<Rightarrow> [[c]]
            | p # ps \<Rightarrow> (c # p) # ps))"

text \<open>\<^verbatim>\<open>s[a:b]\<close> for literal bounds \<open>0 \<le> a \<le> b\<close>; a slice never raises.\<close>

definition slice :: "nat \<Rightarrow> nat \<Rightarrow> 'a list \<Rightarrow> 'a list" where
  "slice a b s = take (b - a) (drop a s)"

text \<open>\<^verbatim>\<open>xs[i]\<close> for a literal index \<open>i \<ge> 0\<close>: IndexError out of range.\<close>

definition index_at :: "'a list \<Rightarrow> nat \<Rightarrow> exn + 'a" where
  "index_at xs i = (if i < length xs then Inr (xs ! i) else Inl IndexError)"

text \<open>
  \<^verbatim>\<open>int(s)\<close> in base ten: surrounding whitespace is dropped, one sign is allowed, and
  the digits may be separated by single underscores. Anything else is a ValueError.
\<close>

fun int_digits :: "int \<Rightarrow> string \<Rightarrow> int option" where
  "int_digits acc [] = Some acc"
| "int_digits acc [c] = (if isdigit c then Some (acc * 10 + digit_val c) else None)"
| "int_digits acc (c # d # cs) =
     (if isdigit c then int_digits (acc * 10 + digit_val c) (d # cs)
      else if c = CHR ''_'' \<and> isdigit d then int_digits acc (d # cs)
      else None)"

definition py_int :: "string \<Rightarrow> exn + int" where
  "py_int s =
     (case strip s of
        [] \<Rightarrow> Inl ValueError
      | c # cs \<Rightarrow>
          (let sgn = (if c = CHR ''-'' then - 1 else 1);
               body = (if c = CHR ''-'' \<or> c = CHR ''+'' then cs else c # cs)
           in case body of
                [] \<Rightarrow> Inl ValueError
              | d # ds \<Rightarrow>
                  if isdigit d
                  then (case int_digits 0 body of
                          None \<Rightarrow> Inl ValueError
                        | Some n \<Rightarrow> Inr (sgn * n))
                  else Inl ValueError))"

subsection \<open>Timestamps\<close>

text \<open>
  A \<^verbatim>\<open>pd.Timestamp\<close> without time zone, as its calendar fields. \<open>Timestamp_value\<close> is
  the integer pandas stores for it, the nanoseconds since 1970-01-01 00:00:00, and
  \<open>pd_Timestamp\<close> is the constructor called with keyword fields: it raises ValueError
  for a field outside the calendar or a value outside the 64-bit nanosecond range.
\<close>

record Timestamp =
  year :: int
  month :: int
  day :: int
  hour :: int
  minute :: int
  second :: int

definition is_leap :: "int \<Rightarrow> bool" where
  "is_leap y = (y mod 4 = 0 \<and> (y mod 100 \<noteq> 0 \<or> y mod 400 = 0))"

definition days_in_month :: "int \<Rightarrow> int \<Rightarrow> int" where
  "days_in_month y m =
     (if m = 2 then (if is_leap y then 29 else 28)
      else if m = 4 \<or> m = 6 \<or> m = 9 \<or> m = 11 then 30 else 31)"

definition days_from_civil :: "int \<Rightarrow> int \<Rightarrow> int \<Rightarrow> int" where
  "days_from_civil y m d =
     (let y' = (if m \<le> 2 then y - 1 else y);
          era = y' div 400;
          yoe = y' - era * 400;
          doy = (153 * (if m > 2 then m - 3 else m + 9) + 2) div 5 + d - 1;
          doe = yoe * 365 + yoe div 4 - yoe div 100 + doy
      in era * 146097 + doe - 719468)"

definition Timestamp_value :: "Timestamp \<Rightarrow> int" where
  "Timestamp_value t =
     (((days_from_civil (year t) (month t) (day t) * 24 + hour t) * 60 + minute t) * 60
        + second t) * 1000000000"

definition pd_Timestamp :: "int \<Rightarrow> int \<Rightarrow> int \<Rightarrow> int \<Rightarrow> int \<Rightarrow> int \<Rightarrow> exn + Timestamp" where
  "pd_Timestamp y m d h mi s =
     (let t = \<lparr>year = y, month = m, day = d, hour = h, minute = mi, second = s\<rparr>
      in if 1 \<le> m \<and> m \<le> 12 \<and> 1 \<le> d \<and> d \<le> days_in_month y m
            \<and> 0 \<le> h \<and> h \<le> 23 \<and> 0 \<le> mi \<and> mi \<le> 59 \<and> 0 \<le> s \<and> s \<le> 59
            \<and> - (2 ^ 63) < Timestamp_value t \<and> Timestamp_value t < 2 ^ 63
         then Inr t else Inl ValueError)"

subsection \<open>Tables\<close>

text \<open>
  A float is carried, never computed with: \<open>Float m e\<close> stands for the finite double
  \<open>m * 2 ^ e\<close>. A cell is a value a table of this module holds.
\<close>

datatype float = Float int int

datatype cell = CStr string | CInt int | CFloat float | CTime Timestamp

text \<open>
  A \<^verbatim>\<open>pd.DataFrame\<close>: the name of its index, and its rows in order, each with its index
  label and its named cells (the columns in order). All rows of a table built by this
  module have the same columns. \<^verbatim>\<open>pd.DataFrame()\<close> is the table with no row.
\<close>

type_synonym row = "(string \<times> cell) list"

record DataFrame =
  index_name :: "string option"
  rows :: "(cell \<times> row) list"

definition DataFrame_empty :: DataFrame where
  "DataFrame_empty = \<lparr>index_name = None, rows = []\<rparr>"

definition columns :: "DataFrame \<Rightarrow> string list" where
  "columns df = (case rows df of [] \<Rightarrow> [] | lr # _ \<Rightarrow> map fst (snd lr))"

text \<open>\<^verbatim>\<open>df.empty\<close>: an axis of length zero.\<close>

definition df_empty :: "DataFrame \<Rightarrow> bool" where
  "df_empty df = (rows df = [] \<or> columns df = [])"

text \<open>The default index: the labels 0, 1, 2, ...\<close>

fun label_from :: "int \<Rightarrow> row list \<Rightarrow> (cell \<times> row) list" where
  "label_from i [] = []"
| "label_from i (r # rs) = (CInt i, r) # label_from (i + 1) rs"

text \<open>\<^verbatim>\<open>df[name]\<close>: the column, or KeyError.\<close>

definition lookup_cell :: "string \<Rightarrow> row \<Rightarrow> exn + cell" where
  "lookup_cell name r = (case map_of r name of None \<Rightarrow> Inl (KeyError name) | Some v \<Rightarrow> Inr v)"

definition getitem :: "DataFrame \<Rightarrow> string \<Rightarrow> exn + cell list" where
  "getitem df name = map_exn (\<lambda>lr. lookup_cell name (snd lr)) (rows df)"

text \<open>
  \<^verbatim>\<open>df[name] = values\<close> (one value per row) and \<^verbatim>\<open>df[name] = scalar\<close>: an existing
  column is replaced where it stands, a new one is added last.
\<close>

definition setitem :: "DataFrame \<Rightarrow> string \<Rightarrow> cell list \<Rightarrow> DataFrame" where
  "setitem df name vals =
     df\<lparr>rows := map (\<lambda>(lr, v). (fst lr, AList.update name v (snd lr))) (zip (rows df) vals)\<rparr>"

definition setitem_scalar :: "DataFrame \<Rightarrow> string \<Rightarrow> cell \<Rightarrow> DataFrame" where
  "setitem_scalar df name v =
     df\<lparr>rows := map (\<lambda>lr. (fst lr, AList.update name v (snd lr))) (rows df)\<rparr>"

text \<open>\<^verbatim>\<open>df[[n1, n2, ...]]\<close>: the named columns in the order given, or KeyError.\<close>

definition select_row :: "string list \<Rightarrow> cell \<times> row \<Rightarrow> exn + cell \<times> row" where
  "select_row names lr =
     bind_exn (map_exn (\<lambda>n. bind_exn (lookup_cell n (snd lr)) (\<lambda>v. Inr (n, v))) names)
       (\<lambda>r. Inr (fst lr, r))"

definition select_columns :: "DataFrame \<Rightarrow> string list \<Rightarrow> exn + DataFrame" where
  "select_columns df names =
     bind_exn (map_exn (select_row names) (rows df)) (\<lambda>rs. Inr (df\<lparr>rows := rs\<rparr>))"

text \<open>
  \<^verbatim>\<open>df.reset_index()\<close>: the index becomes the first column, under the index's name
  (\<^verbatim>\<open>index\<close>, or \<^verbatim>\<open>level_0\<close>, for an index without a name), and the rows are labelled
  0, 1, 2, ... again. A column of that name already there is a ValueError.
\<close>

definition reset_index :: "DataFrame \<Rightarrow> exn + DataFrame" where
  "reset_index df =
     (let name = (case index_name df of
                    Some n \<Rightarrow> n
                  | None \<Rightarrow> if ''index'' \<in> set (columns df) then ''level_0'' else ''index'')
      in if name \<in> set (columns df) then Inl ValueError
         else Inr \<lparr>index_name = None,
                   rows = label_from 0 (map (\<lambda>lr. (name, fst lr) # snd lr) (rows df))\<rparr>)"

text \<open>
  \<^verbatim>\<open>series.astype(np.int64)\<close> on a column of timestamps gives their nanosecond values.
  The model covers that case, the one this module produces; any other column is a
  TypeError here.
\<close>

fun cell_time :: "cell \<Rightarrow> exn + int" where
  "cell_time (CTime t) = Inr (Timestamp_value t)"
| "cell_time _ = Inl TypeError"

definition astype_int64 :: "cell list \<Rightarrow> exn + int list" where
  "astype_int64 cs = map_exn cell_time cs"

text \<open>
  \<^verbatim>\<open>pd.concat(frames, axis=0, ignore_index=True)\<close> for tables with the same columns:
  the rows of the tables one after the other, labelled 0, 1, 2, ...; no table at all is
  a ValueError.
\<close>

definition pd_concat :: "DataFrame list \<Rightarrow> exn + DataFrame" where
  "pd_concat frames =
     (if frames = [] then Inl ValueError
      else Inr \<lparr>index_name = None,
                rows = label_from 0 (concat (map (\<lambda>df. map snd (rows df)) frames))\<rparr>)"

text \<open>
  \<^verbatim>\<open>df.sort_values([name], ascending=True)\<close> on a column of integers: the rows keep
  their labels. Rows with equal keys are kept in their order, which pandas' default sort
  does not promise; no statement below depends on it.
\<close>

fun cell_int :: "cell \<Rightarrow> exn + int" where
  "cell_int (CInt i) = Inr i"
| "cell_int _ = Inl TypeError"

definition sort_values :: "DataFrame \<Rightarrow> string \<Rightarrow> exn + DataFrame" where
  "sort_values df name =
     bind_exn (getitem df name) (\<lambda>cs.
     bind_exn (map_exn cell_int cs) (\<lambda>keys.
     Inr (df\<lparr>rows := map snd (sort_key fst (zip keys (rows df)))\<rparr>)))"

subsection \<open>Console\<close>

text \<open>
  What \<^verbatim>\<open>print\<close> writes is kept as a list of lines: the text of the message, without
  its pictograms, and the values put into it.
\<close>

datatype arg = AStr string | AInt int | AExn exn | ACell cell | ACells "cell list"
  | AFrame DataFrame

datatype line = Line string "arg list"

definition say :: "bool \<Rightarrow> line list \<Rightarrow> line list" where
  "say b ls = (if b then ls else [])"

text \<open>The values a statistics line shows: a column, its distinct values, its ends.\<close>

definition column_cells :: "DataFrame \<Rightarrow> string \<Rightarrow> cell list" where
  "column_cells df name = concat (map (\<lambda>lr. case map_of (snd lr) name of None \<Rightarrow> [] | Some v \<Rightarrow> [v]) (rows df))"

definition unique :: "cell list \<Rightarrow> cell list" where
  "unique cs = rev (remdups (rev cs))"

definition times_of :: "cell list \<Rightarrow> Timestamp list" where
  "times_of cs = concat (map (\<lambda>c. case c of CTime t \<Rightarrow> [t] | _ \<Rightarrow> []) cs)"

definition cells_min :: "cell list \<Rightarrow> cell list" where
  "cells_min cs = (case times_of cs of [] \<Rightarrow> [] | t # ts \<Rightarrow>
      [CTime (fold (\<lambda>a b. if Timestamp_value a < Timestamp_value b then a else b) ts t)])"

definition cells_max :: "cell list \<Rightarrow> cell list" where
  "cells_max cs = (case times_of cs of [] \<Rightarrow> [] | t # ts \<Rightarrow>
      [CTime (fold (\<lambda>a b. if Timestamp_value b < Timestamp_value a then a else b) ts t)])"

section \<open>Timestamp parser\<close>

text \<open>
  \<open>parse_ib_datetime\<close>, lines 344 to 385. The \<^verbatim>\<open>try\<close> block is
  \<open>parse_ib_datetime_try\<close>; the handler prints the error and raises it again, so the
  function returns the block's result together with what it printed.
\<close>

definition parse_ib_datetime_try :: "string \<Rightarrow> exn + Timestamp" where
  "parse_ib_datetime_try date_str0 =
     (let date_str = strip date_str0;
          parts0 = split_on CHR '' '' date_str;
          parts = (if length parts0 = 1 then parts0 @ ['''', ''00:00:00''] else parts0)
      in bind_exn (index_at parts 0) (\<lambda>date_part.
         bind_exn (index_at parts 2) (\<lambda>time_part.
         bind_exn (py_int (slice 0 4 date_part)) (\<lambda>year.
         bind_exn (py_int (slice 4 6 date_part)) (\<lambda>month.
         bind_exn (py_int (slice 6 8 date_part)) (\<lambda>day.
         bind_exn (py_int (slice 0 2 time_part)) (\<lambda>hour.
         bind_exn (py_int (slice 3 5 time_part)) (\<lambda>minute.
         bind_exn (py_int (slice 6 8 time_part)) (\<lambda>second.
         pd_Timestamp year month day hour minute second)))))))))"

definition parse_ib_datetime :: "string \<Rightarrow> (exn + Timestamp) \<times> line list" where
  "parse_ib_datetime date_str =
     (case parse_ib_datetime_try date_str of
        Inl e \<Rightarrow> (Inl e, [Line ''Error parsing date {date_str}: {e}'' [AStr (strip date_str), AExn e]])
      | Inr t \<Rightarrow> (Inr t, []))"

text \<open>
  \<open>parse_ib_timezone\<close>, lines 389 to 397. \<^verbatim>\<open>"-" in x\<close> on a one-character string is
  membership of the character, and \<^verbatim>\<open>parts[-1]\<close> is the last part (a split is never
  empty).
\<close>

definition parse_ib_timezone :: "string \<Rightarrow> string" where
  "parse_ib_timezone x =
     (let parts = split_on CHR '' '' x
      in if CHR ''-'' \<in> set x \<or> CHR ''+'' \<in> set x then ''US/Eastern''
         else if length parts \<ge> 3 \<and> CHR ''/'' \<in> set (last parts) then last parts
         else ''US/Eastern'')"

section \<open>Session client\<close>

text \<open>
  A bar as the gateway delivers it. \<^verbatim>\<open>historicalData\<close> stores a dict with the bar's six
  fields under the keys Date, Open, High, Low, Close and Volume; the model keeps the bar.
\<close>

record Bar =
  bar_date :: string
  bar_open :: float
  bar_high :: float
  bar_low :: float
  bar_close :: float
  bar_volume :: float

record Contract =
  c_symbol :: string
  c_secType :: string
  c_exchange :: string
  c_currency :: string

text \<open>
  The callbacks the background thread runs, as the events that trigger them, and the
  calls made to the gateway client.
\<close>

datatype event =
    Ev_error int int string
  | Ev_connectAck
  | Ev_nextValidId int
  | Ev_historicalData int Bar
  | Ev_historicalDataEnd int string string

datatype call =
    Connect string int int
  | Run
  | ReqHistoricalData int Contract string string
  | Disconnect

text \<open>
  \<open>MarketDataApp\<close>, lines 67 to 198. The field \<^verbatim>\<open>done\<close> is \<open>done_flags\<close>. \<open>inbox\<close> is
  the connection: the events the gateway sends on it that no callback has handled yet,
  each with its time of arrival in milliseconds. A callback takes the time it runs at,
  for the time stamp it prints, and returns the lines it prints.
\<close>

record MarketDataApp =
  data :: "int \<rightharpoonup> Bar list"
  done_flags :: "int \<rightharpoonup> bool"
  connected :: bool
  verbose :: int
  show_bars :: bool
  connection_tried :: bool
  inbox :: "(nat \<times> event) list"

definition MarketDataApp_init :: "int \<Rightarrow> bool \<Rightarrow> MarketDataApp \<times> line list" where
  "MarketDataApp_init vb sb =
     (\<lparr>data = Map.empty, done_flags = Map.empty, connected = False, verbose = vb,
       show_bars = sb, connection_tried = False, inbox = []\<rparr>,
      say (vb \<ge> 1) [Line ''API initialized'' []])"

text \<open>The list \<^verbatim>\<open>critical_errors\<close> of line 125: the codes that are always displayed.\<close>

definition critical_errors :: "int list" where
  "critical_errors = [504, 1100, 1101, 1102, 162, 200, 321]"

definition error :: "MarketDataApp \<Rightarrow> nat \<Rightarrow> int \<Rightarrow> int \<Rightarrow> string \<Rightarrow> MarketDataApp \<times> line list" where
  "error self current_time reqId errorCode errorString =
     (if errorCode \<in> set critical_errors \<or> verbose self \<ge> 1
         then if errorCode \<in> set [2104, 2106, 2158]
              then (self, say (verbose self \<ge> 2)
                            [Line ''[{current_time}] Data farm connection OK''
                               [AInt (int current_time)]])
              else if errorCode = 2176
              then (self, say (verbose self \<ge> 2)
                            [Line ''[{current_time}] API Version Warning - Fractional shares not supported''
                               [AInt (int current_time)]])
              else ((if errorCode \<in> set [504, 1100, 1101, 1102]
                     then self\<lparr>connected := False\<rparr> else self),
                    [Line ''[{current_time}] Error {errorCode}: {errorString}''
                       [AInt (int current_time), AInt errorCode, AStr errorString]])
         else (self, []))"

definition connectAck :: "MarketDataApp \<Rightarrow> nat \<Rightarrow> MarketDataApp \<times> line list" where
  "connectAck self current_time =
     (self\<lparr>connection_tried := True\<rparr>,
      say (verbose self \<ge> 1)
        [Line ''[{current_time}] Connection acknowledged'' [AInt (int current_time)]])"

definition nextValidId :: "MarketDataApp \<Rightarrow> nat \<Rightarrow> int \<Rightarrow> MarketDataApp \<times> line list" where
  "nextValidId self current_time orderId =
     (self\<lparr>connected := True\<rparr>,
      say (verbose self \<ge> 1)
        [Line ''[{current_time}] Connection established (orderId: {orderId})''
           [AInt (int current_time), AInt orderId]])"

definition historicalData :: "MarketDataApp \<Rightarrow> int \<Rightarrow> Bar \<Rightarrow> MarketDataApp \<times> line list" where
  "historicalData self reqId bar =
     (case data self reqId of
        None \<Rightarrow>
          (self\<lparr>data := (data self)(reqId \<mapsto> [bar])\<rparr>,
           say (verbose self \<ge> 1) [Line ''Starting data reception for reqId {reqId}'' [AInt reqId]]
           @ say (show_bars self) [Line ''Bar received: {bar.date}'' [AStr (bar_date bar)]])
      | Some bars \<Rightarrow>
          (self\<lparr>data := (data self)(reqId \<mapsto> bars @ [bar])\<rparr>,
           say (show_bars self) [Line ''Bar received: {bar.date}'' [AStr (bar_date bar)]]))"

definition historicalDataEnd :: "MarketDataApp \<Rightarrow> int \<Rightarrow> string \<Rightarrow> string \<Rightarrow> MarketDataApp \<times> line list" where
  "historicalDataEnd self reqId start end' =
     (self\<lparr>done_flags := (done_flags self)(reqId \<mapsto> True)\<rparr>,
      say (verbose self \<ge> 1) [Line ''Data reception completed for reqId {reqId}'' [AInt reqId]])"

text \<open>The background thread: one event, handled by its callback at its time of arrival.\<close>

fun dispatch :: "MarketDataApp \<Rightarrow> nat \<times> event \<Rightarrow> MarketDataApp \<times> line list" where
  "dispatch self (t, Ev_error reqId errorCode errorString) = error self t reqId errorCode errorString"
| "dispatch self (t, Ev_connectAck) = connectAck self t"
| "dispatch self (t, Ev_nextValidId orderId) = nextValidId self t orderId"
| "dispatch self (t, Ev_historicalData reqId bar) = historicalData self reqId bar"
| "dispatch self (t, Ev_historicalDataEnd reqId start end') = historicalDataEnd self reqId start end'"

fun deliver :: "(nat \<times> event) list \<Rightarrow> MarketDataApp \<Rightarrow> MarketDataApp \<times> line list" where
  "deliver [] self = (self, [])"
| "deliver (ev # evs) self =
     (case dispatch self ev of
        (self', out) \<Rightarrow> (case deliver evs self' of (self'', out') \<Rightarrow> (self'', out @ out')))"

section \<open>The world around the program\<close>

text \<open>
  The clock in milliseconds, the event streams of the connections that will be opened
  (the first stream is the next connection's; arrival times count from the moment the
  connection is opened), the calls made to the gateway client so far, and the console.
\<close>

record world =
  clock :: nat
  feeds :: "(nat \<times> event) list list"
  calls :: "call list"
  console :: "line list"

definition emit :: "line list \<Rightarrow> world \<Rightarrow> world" where
  "emit ls w = w\<lparr>console := console w @ ls\<rparr>"

text \<open>
  \<^verbatim>\<open>app.connect(host, port, clientId)\<close> opens the next connection, \<^verbatim>\<open>app.run()\<close> in its
  thread starts the callbacks, \<^verbatim>\<open>app.disconnect()\<close> closes.
\<close>

definition connect :: "string \<Rightarrow> int \<Rightarrow> int \<Rightarrow> MarketDataApp \<Rightarrow> world \<Rightarrow> MarketDataApp \<times> world" where
  "connect host port clientId app w =
     (app\<lparr>inbox := map (\<lambda>(t, ev). (clock w + t, ev)) (case feeds w of [] \<Rightarrow> [] | f # _ \<Rightarrow> f)\<rparr>,
      w\<lparr>feeds := tl (feeds w), calls := calls w @ [Connect host port clientId]\<rparr>)"

definition start_thread :: "world \<Rightarrow> world" where
  "start_thread w = w\<lparr>calls := calls w @ [Run]\<rparr>"

definition disconnect :: "MarketDataApp \<Rightarrow> world \<Rightarrow> MarketDataApp \<times> world" where
  "disconnect app w = (app\<lparr>inbox := []\<rparr>, w\<lparr>calls := calls w @ [Disconnect]\<rparr>)"

definition reqHistoricalData :: "int \<Rightarrow> Contract \<Rightarrow> string \<Rightarrow> string \<Rightarrow> world \<Rightarrow> world" where
  "reqHistoricalData reqId contract durationStr barSizeSetting w =
     w\<lparr>calls := calls w @ [ReqHistoricalData reqId contract durationStr barSizeSetting]\<rparr>"

text \<open>
  \<^verbatim>\<open>time.sleep\<close>, in milliseconds: the clock advances, and meanwhile the background
  thread handles, in order, the events that have arrived by the new time. The caller's
  own statements take no time.
\<close>

definition sleep :: "nat \<Rightarrow> MarketDataApp \<Rightarrow> world \<Rightarrow> MarketDataApp \<times> world" where
  "sleep d app w =
     (let t = clock w + d;
          due = takeWhile (\<lambda>tev. fst tev \<le> t) (inbox app);
          rest = dropWhile (\<lambda>tev. fst tev \<le> t) (inbox app)
      in case deliver due (app\<lparr>inbox := rest\<rparr>) of
           (app', out) \<Rightarrow> (app', w\<lparr>clock := t, console := console w @ out\<rparr>))"

section \<open>Historical data retriever\<close>

text \<open>\<^verbatim>\<open>app.done.get(reqId, False)\<close>.\<close>

definition done_get :: "MarketDataApp \<Rightarrow> int \<Rightarrow> bool" where
  "done_get app reqId = (case done_flags app reqId of None \<Rightarrow> False | Some b \<Rightarrow> b)"

text \<open>
  The wait of lines 443 to 446: \<^verbatim>\<open>timeout = 30\<close> seconds is 30000 here and
  \<^verbatim>\<open>time.sleep(0.1)\<close> is \<open>sleep 100\<close>.
\<close>

function wait_done :: "int \<Rightarrow> nat \<Rightarrow> nat \<Rightarrow> MarketDataApp \<Rightarrow> world \<Rightarrow> MarketDataApp \<times> world" where
  "wait_done reqId start_time timeout app w =
     (if \<not> done_get app reqId \<and> clock w - start_time < timeout
      then (case sleep 100 app w of (app', w') \<Rightarrow> wait_done reqId start_time timeout app' w')
      else (app, w))"
  by pat_completeness auto
termination
  by (relation "measure (\<lambda>(reqId, start_time, timeout, app, w). start_time + timeout - clock w)")
     (auto simp: sleep_def Let_def split: prod.splits)

declare wait_done.simps [simp del]

text \<open>
  Lines 449 to 454: the table of the bars of one request. The Timezone column is
  computed first, then every date is parsed, in row order, and the first date that does
  not parse raises; then the dates become the index.
\<close>

fun apply_parse_ib_datetime :: "string list \<Rightarrow> (exn + Timestamp list) \<times> line list" where
  "apply_parse_ib_datetime [] = (Inr [], [])"
| "apply_parse_ib_datetime (s # ss) =
     (case parse_ib_datetime s of
        (Inl e, out) \<Rightarrow> (Inl e, out)
      | (Inr t, out) \<Rightarrow>
          (case apply_parse_ib_datetime ss of
             (Inl e, out') \<Rightarrow> (Inl e, out @ out')
           | (Inr ts, out') \<Rightarrow> (Inr (t # ts), out @ out')))"

definition bar_cells :: "Bar \<Rightarrow> row" where
  "bar_cells bar =
     [(''Open'', CFloat (bar_open bar)), (''High'', CFloat (bar_high bar)),
      (''Low'', CFloat (bar_low bar)), (''Close'', CFloat (bar_close bar)),
      (''Volume'', CFloat (bar_volume bar)),
      (''Timezone'', CStr (parse_ib_timezone (bar_date bar)))]"

definition bars_frame :: "Bar list \<Rightarrow> (exn + DataFrame) \<times> line list" where
  "bars_frame bars =
     (case apply_parse_ib_datetime (map bar_date bars) of
        (Inl e, out) \<Rightarrow> (Inl e, out)
      | (Inr ts, out) \<Rightarrow>
          (Inr \<lparr>index_name = Some ''Date'',
                rows = map (\<lambda>(b, t). (CTime t, bar_cells b)) (zip bars ts)\<rparr>, out))"

text \<open>
  One turn of the loop of lines 423 to 461, for the request with index \<open>idx\<close>:
  \<open>issue_request\<close> is lines 424 to 441 (the completion flag of the request id is set to
  false, then the request is sent), \<open>await_request\<close> adds the wait of lines 443 to 446,
  and \<open>retrieve_one\<close> the rest. Its result is the dict of tables so far, or the
  exception that leaves the loop.
\<close>

definition issue_request ::
  "Contract \<Rightarrow> nat \<Rightarrow> string \<times> string \<Rightarrow> MarketDataApp \<Rightarrow> world \<Rightarrow> MarketDataApp \<times> world" where
  "issue_request contract idx cfg app w =
     (case cfg of (duration, bar_size) \<Rightarrow>
        let w1 = emit (say (verbose app \<ge> 1)
                   [Line ''--- Retrieving {bar_size} data ---'' [AStr bar_size]]) w;
            reqId = int idx + 1;
            app1 = app\<lparr>done_flags := (done_flags app)(reqId \<mapsto> False)\<rparr>
        in (app1, reqHistoricalData reqId contract duration bar_size w1))"

definition await_request ::
  "Contract \<Rightarrow> nat \<Rightarrow> string \<times> string \<Rightarrow> MarketDataApp \<Rightarrow> world \<Rightarrow> MarketDataApp \<times> world" where
  "await_request contract idx cfg app w =
     (case issue_request contract idx cfg app w of (app1, w2) \<Rightarrow>
        let reqId = int idx + 1;
            timeout = 30000;
            start_time = clock w2
        in wait_done reqId start_time timeout app1 w2)"

definition retrieve_one ::
  "Contract \<Rightarrow> nat \<Rightarrow> string \<times> string \<Rightarrow> (string \<times> DataFrame) list \<Rightarrow> MarketDataApp \<Rightarrow> world
     \<Rightarrow> (exn + (string \<times> DataFrame) list) \<times> MarketDataApp \<times> world" where
  "retrieve_one contract idx cfg dataframes app w =
     (case cfg of (duration, bar_size) \<Rightarrow>
        let reqId = int idx + 1
        in case await_request contract idx cfg app w of (app2, w3) \<Rightarrow>
             (case data app2 reqId of
                None \<Rightarrow> (case sleep 1000 app2 w3 of (app3, w4) \<Rightarrow> (Inr dataframes, app3, w4))
              | Some [] \<Rightarrow> (case sleep 1000 app2 w3 of (app3, w4) \<Rightarrow> (Inr dataframes, app3, w4))
              | Some (b # bs) \<Rightarrow>
                  (case bars_frame (b # bs) of
                     (Inl e, out) \<Rightarrow> (Inl e, app2, emit out w3)
                   | (Inr df, out) \<Rightarrow>
                       let w4 = emit (out @ say (verbose app2 \<ge> 1)
                                  [Line ''{bar_size} data retrieved ({len(df)} bars)''
                                     [AStr bar_size, AInt (int (length (rows df)))],
                                   Line ''Date range: {df.index.min()} to {df.index.max()}''
                                     [ACells (cells_min (map fst (rows df))),
                                      ACells (cells_max (map fst (rows df)))],
                                   Line ''Timezones found: {df[Timezone].unique()}''
                                     [ACells (unique (column_cells df ''Timezone''))]]) w3
                       in case sleep 1000 app2 w4 of (app3, w5) \<Rightarrow>
                            (Inr (AList.update bar_size df dataframes), app3, w5))))"

fun retrieve_loop ::
  "Contract \<Rightarrow> nat \<Rightarrow> (string \<times> string) list \<Rightarrow> (string \<times> DataFrame) list \<Rightarrow> MarketDataApp \<Rightarrow> world
     \<Rightarrow> (exn + (string \<times> DataFrame) list) \<times> MarketDataApp \<times> world" where
  "retrieve_loop contract idx [] dataframes app w = (Inr dataframes, app, w)"
| "retrieve_loop contract idx (cfg # cfgs) dataframes app w =
     (case retrieve_one contract idx cfg dataframes app w of
        (Inl e, app', w') \<Rightarrow> (Inl e, app', w')
      | (Inr dataframes', app', w') \<Rightarrow> retrieve_loop contract (Suc idx) cfgs dataframes' app' w')"

text \<open>
  \<open>get_historical_data\<close>, lines 400 to 469: the dict of tables, or \<^verbatim>\<open>None\<close> after an
  exception, which the handler prints. \<open>stock_contract\<close> is the contract of lines 415
  to 419.
\<close>

definition stock_contract :: "string \<Rightarrow> Contract" where
  "stock_contract symbol =
     \<lparr>c_symbol = symbol, c_secType = ''STK'', c_exchange = ''SMART'', c_currency = ''USD''\<rparr>"

definition get_historical_data ::
  "string \<Rightarrow> (string \<times> string) list \<Rightarrow> MarketDataApp \<Rightarrow> world
     \<Rightarrow> (string \<times> DataFrame) list option \<times> MarketDataApp \<times> world" where
  "get_historical_data symbol timeframe_configs app w =
     (let contract = stock_contract symbol
      in case retrieve_loop contract 0 timeframe_configs [] app w of
           (Inr dataframes, app', w') \<Rightarrow> (Some dataframes, app', w')
         | (Inl e, app', w') \<Rightarrow>
             (None, app',
              emit (Line ''Error during data retrieval: {e}'' [AExn e]
                    # say (verbose app' \<ge> 2) [Line ''Stack trace: {sys.exc_info()}'' [AExn e]]) w'))"


section \<open>Formatter\<close>

text \<open>Lines 231 to 250: one table of the dict, reshaped to the output columns.\<close>

definition format_one :: "string \<Rightarrow> string \<Rightarrow> DataFrame \<Rightarrow> exn + DataFrame" where
  "format_one symbol timeframe df0 =
     bind_exn (reset_index df0) (\<lambda>df.
     bind_exn (getitem df ''Date'') (\<lambda>dates.
     bind_exn (astype_int64 dates) (\<lambda>ns.
       let df1 = setitem df ''Timestamp'' (map (\<lambda>n. CInt (n div 10 ^ 6)) ns);
           df2 = setitem_scalar df1 ''Ticker'' (CStr symbol);
           df3 = setitem_scalar df2 ''Timeframe'' (CStr timeframe)
       in select_columns df3
            [''Ticker'', ''Timeframe'', ''Timestamp'', ''Date'', ''Timezone'',
             ''Open'', ''High'', ''Low'', ''Close'', ''Volume''])))"

text \<open>
  The loop of lines 223 to 255 over \<^verbatim>\<open>dfs.items()\<close>: the dict is the list of its items in
  iteration order, and an item's table may be \<^verbatim>\<open>None\<close>.
\<close>

fun format_loop ::
  "int \<Rightarrow> string \<Rightarrow> (string \<times> DataFrame option) list \<Rightarrow> DataFrame list
     \<Rightarrow> (exn + DataFrame list) \<times> line list" where
  "format_loop vb symbol [] formatted_dfs = (Inr formatted_dfs, [])"
| "format_loop vb symbol ((timeframe, dfo) # items) formatted_dfs =
     (let out1 = say (vb \<ge> 2) [Line ''Processing timeframe {timeframe}'' [AStr timeframe]]
      in case dfo of
           None \<Rightarrow>
             (case format_loop vb symbol items formatted_dfs of (r, out) \<Rightarrow> (r, out1 @ out))
         | Some df0 \<Rightarrow>
             if df_empty df0
             then (case format_loop vb symbol items formatted_dfs of (r, out) \<Rightarrow> (r, out1 @ out))
             else
               let out2 = say (vb \<ge> 2)
                            [Line ''Data found: {len(df)} bars'' [AInt (int (length (rows df0)))]]
               in case format_one symbol timeframe df0 of
                    Inl e \<Rightarrow> (Inl e, out1 @ out2)
                  | Inr df \<Rightarrow>
                      let out3 = say (vb \<ge> 2)
                                   [Line ''Timeframe {timeframe} processed successfully'' [AStr timeframe],
                                    Line ''Timezone: {df[Timezone].iloc[0]}''
                                      [ACells (take 1 (column_cells df ''Timezone''))]]
                      in case format_loop vb symbol items (formatted_dfs @ [df]) of
                           (r, out) \<Rightarrow> (r, out1 @ out2 @ out3 @ out))"

text \<open>
  \<open>format_historical_data\<close>, lines 201 to 268. \<open>format_historical_data_try\<close> is the
  \<^verbatim>\<open>try\<close> block, and the handler of lines 264 to 268 turns its exception into the empty
  table.
\<close>

definition format_historical_data_try ::
  "(string \<times> DataFrame option) list \<Rightarrow> string \<Rightarrow> string \<Rightarrow> int \<Rightarrow> (exn + DataFrame) \<times> line list" where
  "format_historical_data_try dfs symbol selected_timeframe vb =
     (case format_loop vb symbol dfs [] of
        (Inl e, out) \<Rightarrow> (Inl e, out)
      | (Inr formatted_dfs, out) \<Rightarrow>
          if formatted_dfs \<noteq> []
          then (case pd_concat formatted_dfs of
                  Inl e \<Rightarrow> (Inl e, out)
                | Inr final_df \<Rightarrow>
                    (Inr final_df,
                     out @ say (vb \<ge> 2)
                       [Line ''Timezones in dataset: {final_df[Timezone].unique()}''
                          [ACells (unique (column_cells final_df ''Timezone''))]]))
          else (Inr DataFrame_empty, out))"

definition format_historical_data ::
  "(string \<times> DataFrame option) list \<Rightarrow> string \<Rightarrow> string \<Rightarrow> int \<Rightarrow> DataFrame \<times> line list" where
  "format_historical_data dfs symbol selected_timeframe vb =
     (let out0 = say (vb \<ge> 1) [Line ''=== Starting data formatting ==='' []]
      in case format_historical_data_try dfs symbol selected_timeframe vb of
           (Inr df, out) \<Rightarrow> (df, out0 @ out)
         | (Inl e, out) \<Rightarrow>
             (DataFrame_empty,
              out0 @ out @ [Line ''Error during formatting: {e}'' [AExn e]]
              @ say (vb \<ge> 2) [Line ''Stack trace: {sys.exc_info()}'' [AExn e]]))"

text \<open>\<open>add_index\<close>, lines 472 to 483: the column Index counts the rows from 1.\<close>

definition add_index :: "DataFrame \<Rightarrow> DataFrame" where
  "add_index df = setitem df ''Index'' (map CInt [1..int (length (rows df))])"

section \<open>Orchestrator\<close>

text \<open>
  The module's constants of lines 55 to 64, read from the environment when the module is
  imported: a value that is not a number makes the import fail.
\<close>

record config =
  IB_HOST :: string
  IB_PORT :: int
  IB_CLIENT_ID :: int

definition getenv :: "(string \<rightharpoonup> string) \<Rightarrow> string \<Rightarrow> string \<Rightarrow> string" where
  "getenv env name dflt = (case env name of None \<Rightarrow> dflt | Some v \<Rightarrow> v)"

definition DEFAULT_CONFIG :: "string \<Rightarrow> string" where
  "DEFAULT_CONFIG key =
     (if key = ''IB_HOST'' then ''127.0.0.1''
      else if key = ''IB_PORT'' then ''4001''
      else if key = ''IB_CLIENT_ID'' then ''123'' else [])"

definition import_config :: "(string \<rightharpoonup> string) \<Rightarrow> exn + config" where
  "import_config env =
     bind_exn (py_int (getenv env ''IB_PORT'' (DEFAULT_CONFIG ''IB_PORT''))) (\<lambda>port.
     bind_exn (py_int (getenv env ''IB_CLIENT_ID'' (DEFAULT_CONFIG ''IB_CLIENT_ID''))) (\<lambda>client_id.
     Inr \<lparr>IB_HOST = getenv env ''IB_HOST'' (DEFAULT_CONFIG ''IB_HOST''),
          IB_PORT = port, IB_CLIENT_ID = client_id\<rparr>))"

text \<open>The wait of lines 546 to 549 for the connection, ten seconds at most.\<close>

function wait_connected :: "nat \<Rightarrow> nat \<Rightarrow> MarketDataApp \<Rightarrow> world \<Rightarrow> MarketDataApp \<times> world" where
  "wait_connected start_time timeout app w =
     (if \<not> connected app \<and> clock w - start_time < timeout
      then (case sleep 100 app w of (app', w') \<Rightarrow> wait_connected start_time timeout app' w')
      else (app, w))"
  by pat_completeness auto
termination
  by (relation "measure (\<lambda>(start_time, timeout, app, w). start_time + timeout - clock w)")
     (auto simp: sleep_def Let_def split: prod.splits)

declare wait_connected.simps [simp del]

text \<open>
  \<open>get_ib_ticks\<close>, lines 486 to 594. \<open>get_ib_ticks_try\<close> is the \<^verbatim>\<open>try\<close> block with the
  connection parameters already resolved; it returns the application object for the
  \<^verbatim>\<open>finally\<close> clause. \<open>open_connection\<close> is lines 522 to 549 (the application object,
  the connection, its thread and the wait for it), and \<open>retrieve_and_format\<close> is lines
  557 to 582. No callee of the block raises in this model, so the handler of lines 584
  to 588 has no case here.
\<close>

definition open_connection ::
  "string \<Rightarrow> string \<Rightarrow> string \<Rightarrow> int \<Rightarrow> bool \<Rightarrow> string \<Rightarrow> int \<Rightarrow> int \<Rightarrow> world
     \<Rightarrow> MarketDataApp \<times> world" where
  "open_connection symbol duration barsize vb sb host port client_id w =
     (let current_time = clock w;
          w1 = emit (say (vb \<ge> 1)
                 [Line ''=== [{current_time}] Starting data retrieval for {symbol} ===''
                    [AInt (int current_time), AStr symbol],
                  Line ''Configuration:'' [],
                  Line ''Symbol: {symbol}'' [AStr symbol],
                  Line ''Duration: {duration}'' [AStr duration],
                  Line ''Bar size: {barsize}'' [AStr barsize],
                  Line ''Connection: {host}:{port} (Client ID: {client_id})''
                    [AStr host, AInt port, AInt client_id]]) w
      in case MarketDataApp_init vb sb of (app, out) \<Rightarrow>
         let w2 = emit (out @ say (vb \<ge> 1)
                    [Line ''[{current_time}] Connecting to IB ({host}:{port})''
                       [AInt (int current_time), AStr host, AInt port]]) w1
         in case connect host port client_id app w2 of (app1, w3) \<Rightarrow>
            let w4 = start_thread w3;
                timeout = 10000;
                start_time = clock w4
            in wait_connected start_time timeout app1 w4)"

definition retrieve_and_format ::
  "string \<Rightarrow> string \<Rightarrow> string \<Rightarrow> int \<Rightarrow> MarketDataApp \<Rightarrow> world
     \<Rightarrow> DataFrame option \<times> MarketDataApp \<times> world" where
  "retrieve_and_format symbol duration barsize vb app w =
     (let timeframe_configs = [(duration, barsize)]
      in case get_historical_data symbol timeframe_configs app w of (dfs, app3, w6) \<Rightarrow>
           (case dfs of
              None \<Rightarrow> (None, app3, emit [Line ''Data retrieval failed'' []] w6)
            | Some [] \<Rightarrow> (None, app3, emit [Line ''Data retrieval failed'' []] w6)
            | Some (d # ds) \<Rightarrow>
                (case format_historical_data (map (\<lambda>(k, t). (k, Some t)) (d # ds))
                        symbol barsize vb of
                   (df0, out') \<Rightarrow>
                     let df = add_index df0;
                         w7 = emit out' w6
                     in if \<not> df_empty df
                        then (Some df, app3,
                              emit (say (vb \<ge> 1)
                                      [Line ''Statistics:'' [],
                                       Line ''Bars: {len(df)}'' [AInt (int (length (rows df)))],
                                       Line ''Period: {df[Date].min()} to {df[Date].max()}''
                                         [ACells (cells_min (column_cells df ''Date'')),
                                          ACells (cells_max (column_cells df ''Date''))]]
                                    @ say (vb \<ge> 2)
                                      [Line ''First rows:'' [],
                                       Line ''{df.head()}'' [AFrame (df\<lparr>rows := take 5 (rows df)\<rparr>)],
                                       Line ''Last rows:'' [],
                                       Line ''{df.tail()}''
                                         [AFrame (df\<lparr>rows := drop (length (rows df) - 5) (rows df)\<rparr>)]])
                                w7)
                        else (None, app3, emit [Line ''No data available'' []] w7))))"

definition get_ib_ticks_try ::
  "string \<Rightarrow> string \<Rightarrow> string \<Rightarrow> int \<Rightarrow> bool \<Rightarrow> string \<Rightarrow> int \<Rightarrow> int \<Rightarrow> world
     \<Rightarrow> DataFrame option \<times> MarketDataApp \<times> world" where
  "get_ib_ticks_try symbol duration barsize vb sb host port client_id w =
     (case open_connection symbol duration barsize vb sb host port client_id w of
        (app2, w5) \<Rightarrow>
          if \<not> connected app2
          then (None, app2,
                emit [Line ''Connection closed (could bien be due to timeout or failed request)'' []] w5)
          else retrieve_and_format symbol duration barsize vb app2 w5)"

text \<open>
  Lines 517 to 519: \<^verbatim>\<open>host or IB_HOST\<close> takes the module's constant for a parameter
  that is \<^verbatim>\<open>None\<close>, an empty string or zero.
\<close>

definition resolve_host :: "config \<Rightarrow> string option \<Rightarrow> string" where
  "resolve_host cfg host =
     (case host of None \<Rightarrow> IB_HOST cfg | Some h \<Rightarrow> if h = [] then IB_HOST cfg else h)"

definition resolve_port :: "config \<Rightarrow> int option \<Rightarrow> int" where
  "resolve_port cfg port =
     (case port of None \<Rightarrow> IB_PORT cfg | Some p \<Rightarrow> if p = 0 then IB_PORT cfg else p)"

definition resolve_client_id :: "config \<Rightarrow> int option \<Rightarrow> int" where
  "resolve_client_id cfg client_id =
     (case client_id of None \<Rightarrow> IB_CLIENT_ID cfg | Some c \<Rightarrow> if c = 0 then IB_CLIENT_ID cfg else c)"

definition get_ib_ticks ::
  "config \<Rightarrow> string \<Rightarrow> string \<Rightarrow> string \<Rightarrow> int \<Rightarrow> bool \<Rightarrow> string option \<Rightarrow> int option \<Rightarrow> int option
     \<Rightarrow> world \<Rightarrow> DataFrame option \<times> world" where
  "get_ib_ticks cfg symbol duration barsize vb sb host port client_id w =
     (let host = resolve_host cfg host;
          port = resolve_port cfg port;
          client_id = resolve_client_id cfg client_id
      in case get_ib_ticks_try symbol duration barsize vb sb host port client_id w of
           (result, app, w') \<Rightarrow>
             (case disconnect app w' of
                (app', w'') \<Rightarrow> (result, emit (say (vb \<ge> 1) [Line ''Disconnected'' []]) w'')))"

text \<open>
  \<open>get_ib_ticks_multiple\<close>, lines 597 to 686. The two loops of lines 636 to 659 are
  \<open>ticks_timeframes\<close> and \<open>ticks_symbols\<close>; the dict \<^verbatim>\<open>results\<close> is written and never
  read, and is left out.
\<close>

fun ticks_timeframes ::
  "config \<Rightarrow> string \<Rightarrow> (string \<times> string) list \<Rightarrow> int \<Rightarrow> bool \<Rightarrow> string option \<Rightarrow> int option
     \<Rightarrow> int option \<Rightarrow> DataFrame list \<Rightarrow> world \<Rightarrow> DataFrame list \<times> world" where
  "ticks_timeframes cfg symbol [] vb sb host port client_id all_dfs w = (all_dfs, w)"
| "ticks_timeframes cfg symbol ((duration, barsize) # timeframes) vb sb host port client_id all_dfs w =
     (let w1 = emit (say (vb \<ge> 1)
                 [Line ''Processing {symbol} - {barsize} ({duration})''
                    [AStr symbol, AStr barsize, AStr duration]]) w
      in case get_ib_ticks cfg symbol duration barsize vb sb host port client_id w1 of
           (None, w2) \<Rightarrow>
             ticks_timeframes cfg symbol timeframes vb sb host port client_id all_dfs w2
         | (Some df, w2) \<Rightarrow>
             ticks_timeframes cfg symbol timeframes vb sb host port client_id (all_dfs @ [df])
               (emit (say (vb \<ge> 1)
                  [Line ''Added {key} to results: {len(df)} bars''
                     [AStr (symbol @ ''_'' @ barsize), AInt (int (length (rows df)))]]) w2))"

fun ticks_symbols ::
  "config \<Rightarrow> string list \<Rightarrow> (string \<times> string) list \<Rightarrow> int \<Rightarrow> bool \<Rightarrow> string option \<Rightarrow> int option
     \<Rightarrow> int option \<Rightarrow> DataFrame list \<Rightarrow> world \<Rightarrow> DataFrame list \<times> world" where
  "ticks_symbols cfg [] timeframes vb sb host port client_id all_dfs w = (all_dfs, w)"
| "ticks_symbols cfg (symbol # symbols) timeframes vb sb host port client_id all_dfs w =
     (case ticks_timeframes cfg symbol timeframes vb sb host port client_id all_dfs w of
        (all_dfs', w') \<Rightarrow>
          ticks_symbols cfg symbols timeframes vb sb host port client_id all_dfs' w')"

text \<open>The \<^verbatim>\<open>try\<close> block of lines 632 to 680.\<close>

definition get_ib_ticks_multiple_try ::
  "config \<Rightarrow> string list \<Rightarrow> (string \<times> string) list \<Rightarrow> int \<Rightarrow> bool \<Rightarrow> string option \<Rightarrow> int option
     \<Rightarrow> int option \<Rightarrow> world \<Rightarrow> (exn + DataFrame option) \<times> world" where
  "get_ib_ticks_multiple_try cfg symbols timeframes vb sb host port client_id w =
     (case ticks_symbols cfg symbols timeframes vb sb host port client_id [] w of
        (all_dfs, w1) \<Rightarrow>
          if all_dfs \<noteq> []
          then (case bind_exn (pd_concat all_dfs) (\<lambda>final_df. sort_values final_df ''Timestamp'') of
                  Inl e \<Rightarrow> (Inl e, w1)
                | Inr final_df \<Rightarrow>
                    (Inr (Some final_df),
                     emit (say (vb \<ge> 1)
                        [Line ''=== Final Dataset Statistics ==='' [],
                         Line ''Total bars: {len(final_df)}'' [AInt (int (length (rows final_df)))],
                         Line ''Symbols: {final_df[Ticker].unique()}''
                           [ACells (unique (column_cells final_df ''Ticker''))],
                         Line ''Timeframes: {final_df[Timeframe].unique()}''
                           [ACells (unique (column_cells final_df ''Timeframe''))],
                         Line ''Date range: {final_df[Date].min()} to {final_df[Date].max()}''
                           [ACells (cells_min (column_cells final_df ''Date'')),
                            ACells (cells_max (column_cells final_df ''Date''))]]) w1))
          else (Inr None, emit [Line ''No data retrieved'' []] w1))"

text \<open>
  Lines 621 to 630 resolve a parameter left out only when \<open>verbose \<ge> 1\<close>, from the
  environment as it is at the call; the conversion of the port or the client id raises
  out of the function, before its \<^verbatim>\<open>try\<close>. The result is \<open>Inl e\<close> for an exception
  that leaves the function, and otherwise the table or \<^verbatim>\<open>None\<close>.
\<close>

definition get_ib_ticks_multiple ::
  "config \<Rightarrow> (string \<rightharpoonup> string) \<Rightarrow> string list \<Rightarrow> (string \<times> string) list \<Rightarrow> int \<Rightarrow> bool
     \<Rightarrow> string option \<Rightarrow> int option \<Rightarrow> int option \<Rightarrow> world \<Rightarrow> (exn + DataFrame option) \<times> world" where
  "get_ib_ticks_multiple cfg env symbols timeframes vb sb host port client_id w =
     (case (if host = None \<and> vb \<ge> 1
            then (let h = getenv env ''IB_HOST'' (DEFAULT_CONFIG ''IB_HOST'')
                  in (Some h, emit [Line ''Host: {host}'' [AStr h]] w))
            else (host, w)) of
        (host, w1) \<Rightarrow>
     (case (if port = None \<and> vb \<ge> 1
            then (case py_int (getenv env ''IB_PORT'' (DEFAULT_CONFIG ''IB_PORT'')) of
                    Inl e \<Rightarrow> Inl e
                  | Inr p \<Rightarrow> Inr (Some p, emit [Line ''Port: {port}'' [AInt p]] w1))
            else Inr (port, w1)) of
        Inl e \<Rightarrow> (Inl e, w1)
      | Inr (port, w2) \<Rightarrow>
     (case (if client_id = None \<and> vb \<ge> 1
            then (case py_int (getenv env ''IB_CLIENT_ID'' (DEFAULT_CONFIG ''IB_CLIENT_ID'')) of
                    Inl e \<Rightarrow> Inl e
                  | Inr c \<Rightarrow> Inr (Some c, emit [Line ''Client ID: {client_id}'' [AInt c]] w2))
            else Inr (client_id, w2)) of
        Inl e \<Rightarrow> (Inl e, w2)
      | Inr (client_id, w3) \<Rightarrow>
          (case get_ib_ticks_multiple_try cfg symbols timeframes vb sb host port client_id w3 of
             (Inr result, w4) \<Rightarrow> (Inr result, w4)
           | (Inl e, w4) \<Rightarrow>
               (Inr None,
                emit (Line ''Error in multi-symbol retrieval: {e}'' [AExn e]
                      # say (vb \<ge> 2) [Line ''Stack trace: {sys.exc_info()}'' [AExn e]]) w4)))))"


section \<open>Raw tables and formatted rows\<close>

text \<open>
  A raw table is a table as the retriever builds it: the index is named Date and holds
  timestamps, and every row has the columns Timezone, Open, High, Low, Close and Volume
  and no column Date. \<open>spec_format_row\<close> is the output row the specification asks for:
  the symbol, the timeframe label, the epoch in milliseconds, the timestamp, the time
  zone and the five values of the bar.
\<close>

definition is_time :: "cell \<Rightarrow> bool" where
  "is_time c = (case c of CTime t \<Rightarrow> True | _ \<Rightarrow> False)"

definition raw_row :: "cell \<times> row \<Rightarrow> bool" where
  "raw_row lr =
     (is_time (fst lr)
      \<and> list_all (\<lambda>n. n \<in> set (map fst (snd lr)))
           [''Timezone'', ''Open'', ''High'', ''Low'', ''Close'', ''Volume'']
      \<and> ''Date'' \<notin> set (map fst (snd lr)))"

definition raw_table :: "DataFrame \<Rightarrow> bool" where
  "raw_table df = (index_name df = Some ''Date'' \<and> list_all raw_row (rows df))"

definition spec_format_row :: "string \<Rightarrow> string \<Rightarrow> cell \<times> row \<Rightarrow> row" where
  "spec_format_row symbol timeframe lr =
     [(''Ticker'', CStr symbol), (''Timeframe'', CStr timeframe),
      (''Timestamp'', (case fst lr of CTime t \<Rightarrow> CInt (Timestamp_value t div 1000000) | c \<Rightarrow> c)),
      (''Date'', fst lr),
      (''Timezone'', the (map_of (snd lr) ''Timezone'')),
      (''Open'', the (map_of (snd lr) ''Open'')),
      (''High'', the (map_of (snd lr) ''High'')),
      (''Low'', the (map_of (snd lr) ''Low'')),
      (''Close'', the (map_of (snd lr) ''Close'')),
      (''Volume'', the (map_of (snd lr) ''Volume''))]"

definition raw_item :: "string \<times> DataFrame option \<Rightarrow> bool" where
  "raw_item item = (case snd item of None \<Rightarrow> False | Some df \<Rightarrow> raw_table df \<and> rows df \<noteq> [])"

text \<open>Two raw tables of one and two bars, and a table without its Timezone column.\<close>

definition example_ts :: "int \<Rightarrow> Timestamp" where
  "example_ts d = \<lparr>year = 2024, month = 10, day = d, hour = 0, minute = 0, second = 0\<rparr>"

definition example_raw_row :: "int \<Rightarrow> int \<Rightarrow> cell \<times> row" where
  "example_raw_row d p =
     (CTime (example_ts d),
      [(''Open'', CFloat (Float p 0)), (''High'', CFloat (Float (p + 2) 0)),
       (''Low'', CFloat (Float (p - 1) 0)), (''Close'', CFloat (Float (p + 1) 0)),
       (''Volume'', CFloat (Float 1000 0)), (''Timezone'', CStr ''US/Eastern'')])"

definition example_dfs :: "(string \<times> DataFrame option) list" where
  "example_dfs =
     [(''1 day'', Some \<lparr>index_name = Some ''Date'',
                        rows = [example_raw_row 24 570, example_raw_row 25 572]\<rparr>),
      (''1 week'', Some \<lparr>index_name = Some ''Date'', rows = [example_raw_row 21 565]\<rparr>)]"

definition example_bad_dfs :: "(string \<times> DataFrame option) list" where
  "example_bad_dfs =
     [(''1 day'', Some \<lparr>index_name = Some ''Date'',
                        rows = [(CTime (example_ts 24), [(''Open'', CFloat (Float 570 0))])]\<rparr>)]"

section \<open>The bars of a request\<close>

text \<open>
  \<open>data_get\<close> reads the bars stored for a request id (none when the id has no entry),
  \<open>bars_of\<close> picks the bars of a request id out of a stretch of the event stream, in
  order of arrival, and \<open>request_bars\<close> is what has been appended for the id once the
  events that arrive by time \<open>t\<close> are handled. \<open>is_end\<close> recognises the end-of-stream
  event of a request id. \<open>parses\<close> says that a date string is parsed without error, and
  \<open>bar_table\<close> is the table with one row per bar, in order, under its parsed date.
\<close>

definition data_get :: "MarketDataApp \<Rightarrow> int \<Rightarrow> Bar list" where
  "data_get app reqId = (case data app reqId of None \<Rightarrow> [] | Some bars \<Rightarrow> bars)"



fun is_end :: "int \<Rightarrow> nat \<times> event \<Rightarrow> bool" where
  "is_end reqId (t, Ev_historicalDataEnd r start end') = (r = reqId)"
| "is_end reqId ev = False"

definition parses :: "string \<Rightarrow> bool" where
  "parses s = (case parse_ib_datetime_try s of Inl e \<Rightarrow> False | Inr t \<Rightarrow> True)"

definition bar_table :: "Bar list \<Rightarrow> DataFrame" where
  "bar_table bars =
     \<lparr>index_name = Some ''Date'',
      rows = map (\<lambda>b. (CTime (projr (parse_ib_datetime_try (bar_date b))), bar_cells b)) bars\<rparr>"

text \<open>
  A session for the examples: a connected application object of verbosity 0 with the
  given events to come, at time 0, and a bar with the given date string.
\<close>

definition example_app :: "(nat \<times> event) list \<Rightarrow> MarketDataApp" where
  "example_app evs =
     \<lparr>data = Map.empty, done_flags = Map.empty, connected = True, verbose = 0,
      show_bars = False, connection_tried = True, inbox = evs\<rparr>"

definition example_world :: world where
  "example_world = \<lparr>clock = 0, feeds = [], calls = [], console = []\<rparr>"

definition example_bar :: "string \<Rightarrow> Bar" where
  "example_bar d =
     \<lparr>bar_date = d, bar_open = Float 570 0, bar_high = Float 572 0, bar_low = Float 569 0,
      bar_close = Float 571 0, bar_volume = Float 1000 0\<rparr>"

section \<open>Sessions and runs that differ in verbosity only\<close>

text \<open>
  \<open>session_calls\<close> is what one call of \<open>get_ib_ticks\<close> asks of the gateway client: it
  opens a connection, starts its thread, sends the one request of the call when the
  connection came up, and disconnects.
\<close>

definition session_calls ::
  "string \<Rightarrow> int \<Rightarrow> int \<Rightarrow> string \<Rightarrow> string \<Rightarrow> string \<Rightarrow> bool \<Rightarrow> call list" where
  "session_calls host port client_id symbol duration barsize requested =
     [Connect host port client_id, Run]
     @ (if requested then [ReqHistoricalData 1 (stock_contract symbol) duration barsize] else [])
     @ [Disconnect]"

fun is_session :: "string \<Rightarrow> int \<Rightarrow> int \<Rightarrow> string \<times> string \<times> string \<Rightarrow> call list \<Rightarrow> bool" where
  "is_session host port client_id (symbol, duration, barsize) cs =
     (cs = session_calls host port client_id symbol duration barsize False
      \<or> cs = session_calls host port client_id symbol duration barsize True)"

fun is_connect :: "call \<Rightarrow> bool" where
  "is_connect (Connect host port client_id) = True"
| "is_connect c = False"

text \<open>
  Two application objects, or two worlds, that agree on everything but the verbosity
  level and what has been printed.
\<close>

definition same_app :: "MarketDataApp \<Rightarrow> MarketDataApp \<Rightarrow> bool" where
  "same_app a b =
     (data a = data b \<and> done_flags a = done_flags b \<and> connected a = connected b
      \<and> show_bars a = show_bars b \<and> connection_tried a = connection_tried b
      \<and> inbox a = inbox b)"

definition same_world :: "world \<Rightarrow> world \<Rightarrow> bool" where
  "same_world w u = (clock w = clock u \<and> feeds w = feeds u \<and> calls w = calls u)"

text \<open>The module's constants when no variable of the environment is set.\<close>

definition example_config :: config where
  "example_config = \<lparr>IB_HOST = ''127.0.0.1'', IB_PORT = 4001, IB_CLIENT_ID = 123\<rparr>"

section \<open>The sessions of a run\<close>

text \<open>
  \<open>session_list\<close> is the list of sessions a run over the given pairs of a symbol and a
  (duration, barSize) configuration asks of the gateway client, from the world \<open>w\<close> on:
  the session of the first pair sends its request exactly when the connection that
  \<open>open_connection\<close> opens in \<open>w\<close> came up (the flag \<open>connected\<close> is true after the wait
  for it), and the sessions of the other pairs start from the world that \<open>get_ib_ticks\<close>
  on the first pair has left. \<open>world_after\<close> is the world that the sessions of all the
  pairs have left.
\<close>

fun session_list ::
  "config \<Rightarrow> int \<Rightarrow> bool \<Rightarrow> string option \<Rightarrow> int option \<Rightarrow> int option
     \<Rightarrow> (string \<times> string \<times> string) list \<Rightarrow> world \<Rightarrow> call list list" where
  "session_list cfg vb sb host port client_id [] w = []"
| "session_list cfg vb sb host port client_id ((symbol, duration, barsize) # pairs) w =
     session_calls (resolve_host cfg host) (resolve_port cfg port) (resolve_client_id cfg client_id)
       symbol duration barsize
       (connected (fst (open_connection symbol duration barsize vb sb (resolve_host cfg host)
                          (resolve_port cfg port) (resolve_client_id cfg client_id) w)))
     # session_list cfg vb sb host port client_id pairs
         (snd (get_ib_ticks cfg symbol duration barsize vb sb host port client_id w))"

fun world_after ::
  "config \<Rightarrow> int \<Rightarrow> bool \<Rightarrow> string option \<Rightarrow> int option \<Rightarrow> int option
     \<Rightarrow> (string \<times> string \<times> string) list \<Rightarrow> world \<Rightarrow> world" where
  "world_after cfg vb sb host port client_id [] w = w"
| "world_after cfg vb sb host port client_id ((symbol, duration, barsize) # pairs) w =
     world_after cfg vb sb host port client_id pairs
       (snd (get_ib_ticks cfg symbol duration barsize vb sb host port client_id w))"

text \<open>
  A world for the examples, at time 0: the gateway answers the first connection (it
  acknowledges after 200 ms, sends the next valid id after 300 ms, then a bar and the end
  of the stream of request 1) and sends nothing on the second.
\<close>

definition example_gateway :: world where
  "example_gateway =
     \<lparr>clock = 0,
      feeds = [[(200, Ev_connectAck), (300, Ev_nextValidId 1),
                (800, Ev_historicalData 1 (example_bar ''20241024'')),
                (900, Ev_historicalDataEnd 1 ''20240924  00:00:00'' ''20241024  00:00:00'')],
               []],
      calls = [], console = []\<rparr>"

text \<open>
  Events for the examples, on a connection that is up: a bar of request id 1 after 50 ms,
  an end of stream for the id after 31.5 seconds, which is after the wait of a request
  issued at time 0 has timed out, and another end of stream for the id after 40.1
  seconds. The two end-of-stream events carry the date ranges of a request of one month
  and of a request of one year.
\<close>

definition example_late_end :: "(nat \<times> event) list" where
  "example_late_end =
     [(50, Ev_historicalData 1 (example_bar ''20241024'')),
      (31500, Ev_historicalDataEnd 1 ''20240924  00:00:00'' ''20241024  00:00:00''),
      (40100, Ev_historicalDataEnd 1 ''20231024  00:00:00'' ''20241024  00:00:00'')]"

section \<open>The timezone rule over whitespace tokens\<close>

text \<open>
  \<open>whitespace_tokens\<close> is the split of a string at whitespace, \<^verbatim>\<open>x.split()\<close>: the tokens
  are the maximal runs of characters that are not whitespace, so that leading, trailing
  and repeated whitespace gives no empty token. \<open>infer_timezone_claimed\<close> is the rule for
  the timezone stated over these tokens; it is not the code, which is
  \<open>parse_ib_timezone\<close>.
\<close>

fun whitespace_tokens :: "string \<Rightarrow> string list" where
  "whitespace_tokens [] = []"
| "whitespace_tokens (c # cs) =
     (if isspace c then whitespace_tokens cs
      else (case cs of
              [] \<Rightarrow> [[c]]
            | d # ds \<Rightarrow>
                if isspace d then [c] # whitespace_tokens cs
                else (case whitespace_tokens cs of
                        [] \<Rightarrow> [[c]]
                      | p # ps \<Rightarrow> (c # p) # ps)))"

definition infer_timezone_claimed :: "string \<Rightarrow> string" where
  "infer_timezone_claimed x =
     (if CHR ''+'' \<in> set x \<or> CHR ''-'' \<in> set x then ''US/Eastern''
      else if 3 \<le> length (whitespace_tokens x) \<and> CHR ''/'' \<in> set (last (whitespace_tokens x))
           then last (whitespace_tokens x)
      else ''US/Eastern'')"

section \<open>Properties of the timestamp parser\<close>

lemma split_on_not_Nil: "split_on sep s \<noteq> []"
  by (induction s) (auto split: list.splits)

lemma split_on_no_sep: "p \<in> set (split_on sep s) \<Longrightarrow> sep \<notin> set p"
  by (induction s arbitrary: p) (auto split: list.splits if_splits)

lemma parse_two_parts_raises:
  "length (split_on CHR '' '' (strip s)) = 2 \<Longrightarrow> parse_ib_datetime_try s = Inl IndexError"
  by (simp add: parse_ib_datetime_try_def Let_def index_at_def bind_exn_def)

text \<open>
  C1. The claim: \<open>parse_ib_datetime\<close> turns a date of either shape into the timestamp of
  its fields, and the two-token shape "20241024 15:30:00" in particular. On that
  string the split at the single space has two parts, the time is read from the part of
  index 2, and the function raises IndexError: the theorem evaluates the function there.
\<close>

theorem parse_ib_datetime_single_space_raises:
  "fst (parse_ib_datetime ''20241024 15:30:00'') = Inl IndexError"
  by (simp add: parse_ib_datetime_def parse_ib_datetime_try_def strip_def isspace_def
      index_at_def bind_exn_def)

text \<open>
  C2, as amended. The claim splits the string at whitespace; the code cuts it at every
  single space character, so that two adjacent spaces, or a space at either end, give an
  empty part, and no other whitespace character separates. Over that split:
  \<open>parse_ib_timezone\<close> returns US/Eastern for every string that holds a plus or a minus
  sign, whatever follows; for a string without them whose split at the space character
  has at least three parts, the last of which holds a slash, it returns that last part;
  and for every other string it returns US/Eastern.
\<close>

theorem parse_ib_timezone_cases:
  "(CHR ''+'' \<in> set x \<or> CHR ''-'' \<in> set x \<longrightarrow> parse_ib_timezone x = ''US/Eastern'')
   \<and> (CHR ''+'' \<notin> set x \<and> CHR ''-'' \<notin> set x \<and> 3 \<le> length (split_on CHR '' '' x)
        \<and> CHR ''/'' \<in> set (last (split_on CHR '' '' x))
        \<longrightarrow> parse_ib_timezone x = last (split_on CHR '' '' x))
   \<and> (CHR ''+'' \<notin> set x \<and> CHR ''-'' \<notin> set x
        \<and> \<not> (3 \<le> length (split_on CHR '' '' x) \<and> CHR ''/'' \<in> set (last (split_on CHR '' '' x)))
        \<longrightarrow> parse_ib_timezone x = ''US/Eastern'')"
  by (auto simp add: parse_ib_timezone_def Let_def)

theorem parse_ib_timezone_cases_witness:
  "parse_ib_timezone ''20241024 15:30:00-05:00 Europe/Paris'' = ''US/Eastern''
   \<and> parse_ib_timezone ''20241024 15:30:00 Europe/Paris'' = ''Europe/Paris''
   \<and> parse_ib_timezone ''20241024'' = ''US/Eastern''"
  using parse_ib_timezone_cases[of "''20241024 15:30:00-05:00 Europe/Paris''"]
        parse_ib_timezone_cases[of "''20241024 15:30:00 Europe/Paris''"]
        parse_ib_timezone_cases[of "''20241024''"]
  by simp

text \<open>
  The claim C2 fails over the whitespace split. A date and a zone name two spaces apart
  are two tokens, for which the claim gives US/Eastern, and the code returns the zone
  name, its split having an empty part in the middle; and after a space at the end the
  three tokens end with the zone name, which the claim gives, and the code returns
  US/Eastern, its split ending with an empty part.
\<close>

theorem parse_ib_timezone_not_whitespace:
  "whitespace_tokens ''20241024  Europe/Paris'' = [''20241024'', ''Europe/Paris'']
   \<and> infer_timezone_claimed ''20241024  Europe/Paris'' = ''US/Eastern''
   \<and> parse_ib_timezone ''20241024  Europe/Paris'' = ''Europe/Paris''
   \<and> whitespace_tokens ''20241024 15:30:00 Europe/Paris '' = [''20241024'', ''15:30:00'', ''Europe/Paris'']
   \<and> infer_timezone_claimed ''20241024 15:30:00 Europe/Paris '' = ''Europe/Paris''
   \<and> parse_ib_timezone ''20241024 15:30:00 Europe/Paris '' = ''US/Eastern''"
  by (simp add: infer_timezone_claimed_def parse_ib_timezone_def isspace_def Let_def)

section \<open>Properties of the session client\<close>

text \<open>
  C3, as amended. The claim: every code of the critical list leaves the connected flag
  false. The callback clears the flag for the codes 504, 1100, 1101 and 1102 only, at
  every verbosity; the codes 162, 200 and 321 of the list are always displayed and leave
  the flag as it was.
\<close>

theorem error_connection_codes:
  "(errorCode \<in> set [504, 1100, 1101, 1102]
      \<longrightarrow> \<not> connected (fst (error self t reqId errorCode errorString)))
   \<and> (errorCode \<in> set [162, 200, 321]
      \<longrightarrow> connected (fst (error self t reqId errorCode errorString)) = connected self)"
  by (auto simp: error_def critical_errors_def)

theorem error_connection_codes_witness:
  "\<not> connected (fst (error \<lparr>data = Map.empty, done_flags = Map.empty, connected = True,
        verbose = 0, show_bars = False, connection_tried = True, inbox = []\<rparr>
        0 (- 1) 1100 ''Connectivity between IB and TWS has been lost''))
   \<and> connected (fst (error \<lparr>data = Map.empty, done_flags = Map.empty, connected = True,
        verbose = 2, show_bars = False, connection_tried = True, inbox = []\<rparr>
        0 1 200 ''No security definition has been found for the request''))"
  using error_connection_codes[of 1100 "\<lparr>data = Map.empty, done_flags = Map.empty,
        connected = True, verbose = 0, show_bars = False, connection_tried = True, inbox = []\<rparr>"
        0 "- 1" "''Connectivity between IB and TWS has been lost''"]
     error_connection_codes[of 200 "\<lparr>data = Map.empty, done_flags = Map.empty,
        connected = True, verbose = 2, show_bars = False, connection_tried = True, inbox = []\<rparr>"
        0 1 "''No security definition has been found for the request''"]
  by simp

text \<open>
  The claim fails at the code 162 of the critical list: a connected session at
  verbosity 0 is still connected after the callback.
\<close>

theorem error_162_keeps_connected:
  "162 \<in> set critical_errors
   \<and> connected (fst (error \<lparr>data = Map.empty, done_flags = Map.empty, connected = True,
        verbose = 0, show_bars = False, connection_tried = True, inbox = []\<rparr>
        0 1 162 ''Historical Market Data Service error message''))"
  by (simp add: error_def critical_errors_def)

section \<open>Properties of the formatter\<close>

lemma lookup_cell_in: "n \<in> fst ` set r \<Longrightarrow> lookup_cell n r = Inr (the (map_of r n))"
  by (auto simp: lookup_cell_def map_of_eq_None_iff split: option.splits)

lemma select_row_formatted:
  assumes "raw_row (l, r)"
  shows "select_row [''Ticker'', ''Timeframe'', ''Timestamp'', ''Date'', ''Timezone'',
             ''Open'', ''High'', ''Low'', ''Close'', ''Volume'']
           (lbl, AList.update ''Timeframe'' (CStr tf) (AList.update ''Ticker'' (CStr symbol)
                   (AList.update ''Timestamp'' ts ((''Date'', l) # r))))
         = Inr (lbl, [(''Ticker'', CStr symbol), (''Timeframe'', CStr tf), (''Timestamp'', ts),
                 (''Date'', l),
      (''Timezone'', the (map_of r ''Timezone'')),
      (''Open'', the (map_of r ''Open'')),
      (''High'', the (map_of r ''High'')),
      (''Low'', the (map_of r ''Low'')),
      (''Close'', the (map_of r ''Close'')),
      (''Volume'', the (map_of r ''Volume''))])"
proof -
  have in_r: "lookup_cell n r = Inr (the (map_of r n))"
    if "n \<in> set [''Timezone'', ''Open'', ''High'', ''Low'', ''Close'', ''Volume'']" for n
    using assms that by (intro lookup_cell_in) (auto simp: raw_row_def)
  have upd: "lookup_cell n (AList.update k v al) = (if n = k then Inr v else lookup_cell n al)" for n k v al
    by (simp add: lookup_cell_def update_conv')
  have cons: "lookup_cell n ((k, v) # al) = (if n = k then Inr v else lookup_cell n al)" for n k v al
    by (simp add: lookup_cell_def)
  show ?thesis
    by (simp add: select_row_def bind_exn_def upd cons in_r)
qed

lemma format_rows_raw:
  "list_all raw_row rs \<Longrightarrow>
   map_exn (select_row [''Ticker'', ''Timeframe'', ''Timestamp'', ''Date'', ''Timezone'',
             ''Open'', ''High'', ''Low'', ''Close'', ''Volume''])
     (map (\<lambda>lr. (fst lr, AList.update ''Timeframe'' (CStr tf) (snd lr)))
       (map (\<lambda>lr. (fst lr, AList.update ''Ticker'' (CStr symbol) (snd lr)))
         (map (\<lambda>(lr, v). (fst lr, AList.update ''Timestamp'' v (snd lr)))
           (zip (label_from i (map (\<lambda>lr. (''Date'', fst lr) # snd lr) rs))
                (map (\<lambda>n. CInt (n div 1000000)) (map (\<lambda>lr. case fst lr of CTime t \<Rightarrow> Timestamp_value t | _ \<Rightarrow> 0) rs))))))
   = Inr (label_from i (map (spec_format_row symbol tf) rs))"
proof (induction rs arbitrary: i)
  case Nil
  then show ?case by simp
next
  case (Cons lr rs)
  obtain l r where lr: "lr = (l, r)" by (cases lr)
  from Cons.prems have raw: "raw_row (l, r)" and rest: "list_all raw_row rs" by (simp_all add: lr)
  from raw obtain t where l: "l = CTime t" by (cases l) (auto simp: raw_row_def is_time_def)
  show ?case
    using Cons.IH[OF rest, of "i + 1"] select_row_formatted[OF raw]
    by (simp add: lr l spec_format_row_def)
qed

lemma getitem_Date_reset:
  "map_exn (\<lambda>lr. lookup_cell ''Date'' (snd lr)) (label_from i (map (\<lambda>lr. (''Date'', fst lr) # snd lr) rs))
   = Inr (map fst rs)"
  by (induction rs arbitrary: i) (auto simp: lookup_cell_def)

lemma astype_times:
  "list_all raw_row rs \<Longrightarrow>
   astype_int64 (map fst rs) = Inr (map (\<lambda>lr. case fst lr of CTime t \<Rightarrow> Timestamp_value t | _ \<Rightarrow> 0) rs)"
  unfolding astype_int64_def
  by (induction rs) (auto simp: raw_row_def is_time_def split: cell.splits)

lemma raw_table_no_Date: "raw_table df \<Longrightarrow> ''Date'' \<notin> set (columns df)"
  by (cases "rows df") (auto simp: raw_table_def columns_def raw_row_def)

lemma format_one_raw:
  assumes "raw_table df"
  shows "format_one symbol tf df
         = Inr \<lparr>index_name = None, rows = label_from 0 (map (spec_format_row symbol tf) (rows df))\<rparr>"
proof -
  from assms have rs: "list_all raw_row (rows df)" and nm: "index_name df = Some ''Date''"
    by (simp_all add: raw_table_def)
  have r1: "reset_index df = Inr \<lparr>index_name = None,
              rows = label_from 0 (map (\<lambda>lr. (''Date'', fst lr) # snd lr) (rows df))\<rparr>"
    using raw_table_no_Date[OF assms] by (simp add: reset_index_def nm)
  note r2 = format_rows_raw[OF rs, of tf symbol 0]
  show ?thesis
    unfolding format_one_def r1 bind_exn_def getitem_def select_columns_def setitem_def
      setitem_scalar_def Let_def
    by (simp add: getitem_Date_reset astype_times[OF rs] r2 del: map_map)
qed


lemma raw_item_not_empty: "raw_table df \<Longrightarrow> rows df \<noteq> [] \<Longrightarrow> \<not> df_empty df"
  by (cases "rows df") (auto simp: df_empty_def columns_def raw_table_def raw_row_def)

lemma snd_label_from: "map snd (label_from i rs) = rs"
  by (induction rs arbitrary: i) auto

lemma length_label_from: "length (label_from i rs) = length rs"
  by (induction rs arbitrary: i) auto

lemma format_loop_raw:
  "list_all raw_item dfs \<Longrightarrow>
   fst (format_loop vb symbol dfs acc)
   = Inr (acc @ map (\<lambda>item. \<lparr>index_name = None,
                      rows = label_from 0 (map (spec_format_row symbol (fst item))
                                             (rows (the (snd item))))\<rparr>) dfs)"
proof (induction dfs arbitrary: acc)
  case Nil
  then show ?case by simp
next
  case (Cons item dfs)
  obtain tf dfo where item: "item = (tf, dfo)" by (cases item)
  from Cons.prems have hd: "raw_item (tf, dfo)" and rest: "list_all raw_item dfs"
    by (simp_all add: item)
  from hd obtain df where dfo: "dfo = Some df" and raw: "raw_table df" and ne: "rows df \<noteq> []"
    by (cases dfo) (auto simp: raw_item_def)
  let ?d = "\<lparr>index_name = None, rows = label_from 0 (map (spec_format_row symbol tf) (rows df))\<rparr>"
  have IH: "fst (format_loop vb symbol dfs (acc @ [?d]))
            = Inr ((acc @ [?d]) @ map (\<lambda>item. \<lparr>index_name = None,
                      rows = label_from 0 (map (spec_format_row symbol (fst item))
                                             (rows (the (snd item))))\<rparr>) dfs)"
    by (rule Cons.IH[OF rest])
  show ?case
    using IH raw_item_not_empty[OF raw ne]
    by (cases "format_loop vb symbol dfs (acc @ [?d])")
       (simp add: item dfo format_one_raw[OF raw] Let_def)
qed

lemma format_try_raw:
  assumes "list_all raw_item dfs"
  shows "fst (format_historical_data_try dfs symbol sel vb)
         = Inr \<lparr>index_name = None,
                rows = label_from 0 (concat (map (\<lambda>item. map (spec_format_row symbol (fst item))
                                                          (rows (the (snd item)))) dfs))\<rparr>"
proof -
  have "fst (format_loop vb symbol dfs []) = Inr (map (\<lambda>item. \<lparr>index_name = None,
                      rows = label_from 0 (map (spec_format_row symbol (fst item))
                                             (rows (the (snd item))))\<rparr>) dfs)"
    using format_loop_raw[OF assms, of vb symbol "[]"] by simp
  then show ?thesis
    by (cases "format_loop vb symbol dfs []")
       (auto simp: format_historical_data_try_def pd_concat_def DataFrame_empty_def
          snd_label_from comp_def)
qed

lemma format_raw:
  assumes "list_all raw_item dfs"
  shows "fst (format_historical_data dfs symbol sel vb)
         = \<lparr>index_name = None,
            rows = label_from 0 (concat (map (\<lambda>item. map (spec_format_row symbol (fst item))
                                                          (rows (the (snd item)))) dfs))\<rparr>"
  using format_try_raw[OF assms, of symbol sel vb]
  by (cases "format_historical_data_try dfs symbol sel vb")
     (auto simp: format_historical_data_def Let_def)

text \<open>
  C6. For every dict of raw tables, each with at least one row (two or more tables
  included), \<open>format_historical_data\<close> returns a table that has as many rows as the
  input tables together, whose rows are the formatted rows of the first table in their
  order, then those of the second, and so on in the order of the dict, and in which
  every row from a table carries the symbol as Ticker and that table's key as Timeframe.
\<close>

theorem format_historical_data_combines:
  assumes "list_all raw_item dfs"
  shows "length (rows (fst (format_historical_data dfs symbol sel vb)))
           = sum_list (map (\<lambda>item. length (rows (the (snd item)))) dfs)
         \<and> map snd (rows (fst (format_historical_data dfs symbol sel vb)))
           = concat (map (\<lambda>item. map (spec_format_row symbol (fst item)) (rows (the (snd item)))) dfs)
         \<and> map (\<lambda>lr. (map_of (snd lr) ''Ticker'', map_of (snd lr) ''Timeframe''))
              (rows (fst (format_historical_data dfs symbol sel vb)))
           = concat (map (\<lambda>item. replicate (length (rows (the (snd item))))
                                   (Some (CStr symbol), Some (CStr (fst item)))) dfs)"
proof -
  let ?R = "rows (fst (format_historical_data dfs symbol sel vb))"
  have b: "map snd ?R = concat (map (\<lambda>item. map (spec_format_row symbol (fst item))
                                         (rows (the (snd item)))) dfs)"
    by (simp add: format_raw[OF assms] snd_label_from)
  have a: "length ?R = sum_list (map (\<lambda>item. length (rows (the (snd item)))) dfs)"
    by (simp add: format_raw[OF assms] length_label_from length_concat comp_def)
  have "map (\<lambda>lr. (map_of (snd lr) ''Ticker'', map_of (snd lr) ''Timeframe'')) ?R
        = map (\<lambda>r. (map_of r ''Ticker'', map_of r ''Timeframe'')) (map snd ?R)"
    by (simp add: comp_def)
  also have "\<dots> = concat (map (\<lambda>item. replicate (length (rows (the (snd item))))
                                   (Some (CStr symbol), Some (CStr (fst item)))) dfs)"
    unfolding b by (simp add: map_concat comp_def spec_format_row_def map_replicate_const)
  finally show ?thesis using a b by simp
qed

theorem format_historical_data_combines_witness:
  "list_all raw_item example_dfs
   \<and> length (rows (fst (format_historical_data example_dfs ''SPY'' ''1 day'' 1))) = 3
   \<and> map (\<lambda>lr. (map_of (snd lr) ''Ticker'', map_of (snd lr) ''Timeframe''))
        (rows (fst (format_historical_data example_dfs ''SPY'' ''1 day'' 1)))
     = [(Some (CStr ''SPY''), Some (CStr ''1 day'')),
        (Some (CStr ''SPY''), Some (CStr ''1 day'')),
        (Some (CStr ''SPY''), Some (CStr ''1 week''))]"
proof -
  have h: "list_all raw_item example_dfs"
    by (simp add: example_dfs_def raw_item_def raw_table_def raw_row_def example_raw_row_def
        is_time_def)
  note t = format_historical_data_combines[OF h, of "''SPY''" "''1 day''" 1]
  have e1: "sum_list (map (\<lambda>item. length (rows (the (snd item)))) example_dfs) = 3"
    by (simp add: example_dfs_def)
  have e2: "concat (map (\<lambda>item. replicate (length (rows (the (snd item))))
                                   (Some (CStr ''SPY''), Some (CStr (fst item)))) example_dfs)
            = [(Some (CStr ''SPY''), Some (CStr ''1 day'')),
               (Some (CStr ''SPY''), Some (CStr ''1 day'')),
               (Some (CStr ''SPY''), Some (CStr ''1 week''))]"
    by (simp add: example_dfs_def)
  from t e1 e2 h show ?thesis by (simp only: simp_thms)
qed

text \<open>
  C7. Whenever the \<^verbatim>\<open>try\<close> block of \<open>format_historical_data\<close> raises, at whatever
  step, the function returns the empty table; its result type has no exception.
\<close>

theorem format_historical_data_swallows:
  "fst (format_historical_data_try dfs symbol sel vb) = Inl e
   \<Longrightarrow> fst (format_historical_data dfs symbol sel vb) = DataFrame_empty"
  by (cases "format_historical_data_try dfs symbol sel vb")
     (auto simp: format_historical_data_def Let_def)

theorem format_historical_data_swallows_witness:
  "fst (format_historical_data_try example_bad_dfs ''SPY'' ''1 day'' 1) = Inl (KeyError ''Timezone'')
   \<and> fst (format_historical_data example_bad_dfs ''SPY'' ''1 day'' 1) = DataFrame_empty"
proof -
  have h: "fst (format_historical_data_try example_bad_dfs ''SPY'' ''1 day'' 1)
           = Inl (KeyError ''Timezone'')"
    by (simp add: format_historical_data_try_def example_bad_dfs_def df_empty_def columns_def
        format_one_def reset_index_def bind_exn_def getitem_def lookup_cell_def astype_int64_def
        setitem_def setitem_scalar_def select_columns_def select_row_def say_def)
  from format_historical_data_swallows[OF h] h show ?thesis by simp
qed

section \<open>Properties of the retriever\<close>

lemma takeWhile_mono_split:
  "(\<And>x. P x \<Longrightarrow> Q x) \<Longrightarrow> takeWhile Q xs = takeWhile P xs @ takeWhile Q (dropWhile P xs)"
  by (induction xs) auto

lemma dropWhile_mono_absorb:
  "(\<And>x. P x \<Longrightarrow> Q x) \<Longrightarrow> dropWhile Q (dropWhile P xs) = dropWhile Q xs"
  by (induction xs) auto

lemma dispatch_inbox_upd:
  "dispatch (a\<lparr>inbox := x\<rparr>) ev = (case dispatch a ev of (a', out) \<Rightarrow> (a'\<lparr>inbox := x\<rparr>, out))"
  by (cases "(a, ev)" rule: dispatch.cases)
     (auto simp: error_def connectAck_def nextValidId_def historicalData_def
        historicalDataEnd_def split: option.splits)

lemma deliver_inbox_upd:
  "deliver evs (a\<lparr>inbox := x\<rparr>) = (case deliver evs a of (a', out) \<Rightarrow> (a'\<lparr>inbox := x\<rparr>, out))"
  by (induction evs arbitrary: a) (auto simp: dispatch_inbox_upd split: prod.splits)

lemma inbox_dispatch: "inbox (fst (dispatch a ev)) = inbox a"
  by (cases "(a, ev)" rule: dispatch.cases)
     (auto simp: error_def connectAck_def nextValidId_def historicalData_def
        historicalDataEnd_def split: option.splits)

lemma inbox_deliver: "inbox (fst (deliver evs a)) = inbox a"
proof (induction evs arbitrary: a)
  case Nil
  then show ?case by simp
next
  case (Cons ev evs)
  obtain a' out where d: "dispatch a ev = (a', out)" by (cases "dispatch a ev")
  with inbox_dispatch[of a ev] have "inbox a' = inbox a" by simp
  with Cons.IH[of a'] d show ?case by (cases "deliver evs a'") simp
qed

lemma deliver_append:
  "deliver (xs @ ys) a =
     (case deliver xs a of (a', out) \<Rightarrow>
        (case deliver ys a' of (a'', out') \<Rightarrow> (a'', out @ out')))"
  by (induction xs arbitrary: a) (auto split: prod.splits)

lemma clock_sleep: "clock (snd (sleep d a w)) = clock w + d"
  by (simp add: sleep_def Let_def split: prod.splits)

lemma inbox_sleep:
  "inbox (fst (sleep d a w)) = dropWhile (\<lambda>tev. fst tev \<le> clock w + d) (inbox a)"
proof -
  let ?due = "takeWhile (\<lambda>tev. fst tev \<le> clock w + d) (inbox a)"
  let ?a = "a\<lparr>inbox := dropWhile (\<lambda>tev. fst tev \<le> clock w + d) (inbox a)\<rparr>"
  obtain a' out where d: "deliver ?due ?a = (a', out)" by (cases "deliver ?due ?a")
  with inbox_deliver[of ?due ?a] show ?thesis by (simp add: sleep_def Let_def)
qed

lemma sleep_add:
  "sleep d2 (fst (sleep d1 a w)) (snd (sleep d1 a w)) = sleep (d1 + d2) a w"
proof -
  let ?P1 = "\<lambda>tev::nat \<times> event. fst tev \<le> clock w + d1"
  let ?P2 = "\<lambda>tev::nat \<times> event. fst tev \<le> clock w + (d1 + d2)"
  have tk: "takeWhile ?P2 (inbox a) = takeWhile ?P1 (inbox a) @ takeWhile ?P2 (dropWhile ?P1 (inbox a))"
    by (rule takeWhile_mono_split) simp
  have dr: "dropWhile ?P2 (dropWhile ?P1 (inbox a)) = dropWhile ?P2 (inbox a)"
    by (rule dropWhile_mono_absorb) simp
  obtain a1 o1 where d1: "deliver (takeWhile ?P1 (inbox a)) a = (a1, o1)"
    by (cases "deliver (takeWhile ?P1 (inbox a)) a")
  obtain a2 o2 where d2: "deliver (takeWhile ?P2 (dropWhile ?P1 (inbox a))) a1 = (a2, o2)"
    by (cases "deliver (takeWhile ?P2 (dropWhile ?P1 (inbox a))) a1")
  have s1: "sleep d1 a w = (a1\<lparr>inbox := dropWhile ?P1 (inbox a)\<rparr>,
                            w\<lparr>clock := clock w + d1, console := console w @ o1\<rparr>)"
    by (simp add: sleep_def Let_def deliver_inbox_upd d1)
  have s2: "sleep (d1 + d2) a w = (a2\<lparr>inbox := dropWhile ?P2 (inbox a)\<rparr>,
                            w\<lparr>clock := clock w + (d1 + d2), console := console w @ o1 @ o2\<rparr>)"
    by (simp add: sleep_def Let_def deliver_inbox_upd tk deliver_append d1 d2)
  have s3: "sleep d2 (a1\<lparr>inbox := dropWhile ?P1 (inbox a)\<rparr>)
              (w\<lparr>clock := clock w + d1, console := console w @ o1\<rparr>)
            = (a2\<lparr>inbox := dropWhile ?P2 (inbox a)\<rparr>,
               w\<lparr>clock := clock w + (d1 + d2), console := console w @ o1 @ o2\<rparr>)"
    using inbox_deliver[of "takeWhile ?P1 (inbox a)" a]
    by (simp add: sleep_def Let_def deliver_inbox_upd add.assoc dr d2 d1)
  show ?thesis by (simp add: s1 s2 s3)
qed


lemma data_get_inbox_upd [simp]: "data_get (a\<lparr>inbox := x\<rparr>) r = data_get a r"
  by (simp add: data_get_def)

lemma done_get_inbox_upd [simp]: "done_get (a\<lparr>inbox := x\<rparr>) r = done_get a r"
  by (simp add: done_get_def)




lemma done_get_dispatch: "done_get (fst (dispatch a ev)) r = (done_get a r \<or> is_end r ev)"
  by (cases "(a, ev)" rule: dispatch.cases)
     (auto simp: done_get_def error_def connectAck_def nextValidId_def historicalData_def
        historicalDataEnd_def split: option.splits)

lemma done_get_deliver:
  "done_get (fst (deliver evs a)) r = (done_get a r \<or> list_ex (is_end r) evs)"
proof (induction evs arbitrary: a)
  case Nil
  then show ?case by simp
next
  case (Cons ev evs)
  obtain a' out where d: "dispatch a ev = (a', out)" by (cases "dispatch a ev")
  with done_get_dispatch[of a ev r] have "done_get a' r = (done_get a r \<or> is_end r ev)" by simp
  with Cons.IH[of a'] d show ?case
    by (cases "deliver evs a'") auto
qed


lemma done_get_sleep:
  "done_get (fst (sleep d a w)) r
   = (done_get a r \<or> list_ex (is_end r) (takeWhile (\<lambda>tev. fst tev \<le> clock w + d) (inbox a)))"
proof -
  let ?due = "takeWhile (\<lambda>tev. fst tev \<le> clock w + d) (inbox a)"
  let ?a = "a\<lparr>inbox := dropWhile (\<lambda>tev. fst tev \<le> clock w + d) (inbox a)\<rparr>"
  obtain a' out where d: "deliver ?due ?a = (a', out)" by (cases "deliver ?due ?a")
  with done_get_deliver[of ?due ?a r] show ?thesis
    by (simp add: sleep_def Let_def)
qed

lemma wait_done_stop:
  "done_get a r \<or> \<not> clock w - st < tmo \<Longrightarrow> wait_done r st tmo a w = (a, w)"
  by (subst wait_done.simps) auto

lemma wait_done_step:
  "\<not> done_get a r \<Longrightarrow> clock w - st < tmo \<Longrightarrow>
   wait_done r st tmo a w = wait_done r st tmo (fst (sleep 100 a w)) (snd (sleep 100 a w))"
  by (subst wait_done.simps) (simp split: prod.splits)

lemma wait_done_sleep:
  "\<not> done_get a r \<Longrightarrow> clock w - st < tmo \<Longrightarrow>
   \<exists>k. wait_done r st tmo a w = sleep (100 * Suc k) a w
       \<and> (\<forall>j<k. \<not> done_get (fst (sleep (100 * Suc j) a w)) r \<and> clock w + 100 * Suc j - st < tmo)
       \<and> (done_get (fst (sleep (100 * Suc k) a w)) r \<or> \<not> clock w + 100 * Suc k - st < tmo)"
proof (induction r st tmo a w rule: wait_done.induct)
  case (1 r st tmo a w)
  let ?a = "fst (sleep 100 a w)" and ?w = "snd (sleep 100 a w)"
  have step: "wait_done r st tmo a w = wait_done r st tmo ?a ?w"
    using "1.prems" by (rule wait_done_step)
  have cw: "clock ?w = clock w + 100" by (rule clock_sleep)
  show ?case
  proof (cases "done_get ?a r \<or> \<not> clock ?w - st < tmo")
    case True
    then have "wait_done r st tmo ?a ?w = (?a, ?w)" by (rule wait_done_stop)
    with step True cw show ?thesis
      by (intro exI[of _ 0]) simp
  next
    case False
    then have nd: "\<not> done_get ?a r" and tm: "clock ?w - st < tmo" by simp_all
    from "1.prems" have c: "\<not> done_get a r \<and> clock w - st < tmo" by simp
    have e: "(?a, ?w) = sleep 100 a w" by simp
    from "1.IH"[OF c e nd tm]
    obtain k where k: "wait_done r st tmo ?a ?w = sleep (100 * Suc k) ?a ?w"
      and before: "\<forall>j<k. \<not> done_get (fst (sleep (100 * Suc j) ?a ?w)) r
                        \<and> clock ?w + 100 * Suc j - st < tmo"
      and at: "done_get (fst (sleep (100 * Suc k) ?a ?w)) r \<or> \<not> clock ?w + 100 * Suc k - st < tmo"
      by auto
    have shift: "sleep (100 * Suc j) ?a ?w = sleep (100 * Suc (Suc j)) a w" for j
      using sleep_add[of "100 * Suc j" 100 a w] by (simp add: add.commute)
    have "\<forall>j<Suc k. \<not> done_get (fst (sleep (100 * Suc j) a w)) r \<and> clock w + 100 * Suc j - st < tmo"
    proof (intro allI impI)
      fix j assume "j < Suc k"
      show "\<not> done_get (fst (sleep (100 * Suc j) a w)) r \<and> clock w + 100 * Suc j - st < tmo"
      proof (cases j)
        case 0
        with nd tm cw show ?thesis by simp
      next
        case (Suc j')
        with \<open>j < Suc k\<close> before have "\<not> done_get (fst (sleep (100 * Suc j') ?a ?w)) r
                        \<and> clock ?w + 100 * Suc j' - st < tmo" by simp
        with Suc shift[of j'] cw show ?thesis by (simp add: add.assoc)
      qed
    qed
    moreover from at shift[of k] cw
    have "done_get (fst (sleep (100 * Suc (Suc k)) a w)) r \<or> \<not> clock w + 100 * Suc (Suc k) - st < tmo"
      by (simp add: add.assoc)
    moreover from step k shift[of k]
    have "wait_done r st tmo a w = sleep (100 * Suc (Suc k)) a w" by simp
    ultimately show ?thesis by (intro exI[of _ "Suc k"]) simp
  qed
qed

lemma issue_request_fst:
  "fst (issue_request contract idx cfg app w)
   = app\<lparr>done_flags := (done_flags app)(int idx + 1 \<mapsto> False)\<rparr>"
  by (simp add: issue_request_def Let_def split: prod.splits)

lemma issue_request_clock: "clock (snd (issue_request contract idx cfg app w)) = clock w"
  by (simp add: issue_request_def Let_def reqHistoricalData_def emit_def split: prod.splits)

lemma issue_request_not_done:
  "\<not> done_get (fst (issue_request contract idx cfg app w)) (int idx + 1)"
  by (simp add: issue_request_fst done_get_def)


lemma issue_request_inbox: "inbox (fst (issue_request contract idx cfg app w)) = inbox app"
  by (simp add: issue_request_fst)

lemma await_request_wait:
  "await_request contract idx cfg app w
   = wait_done (int idx + 1) (clock w) 30000 (fst (issue_request contract idx cfg app w))
       (snd (issue_request contract idx cfg app w))"
  using issue_request_clock[of contract idx cfg app w]
  by (cases "issue_request contract idx cfg app w") (simp add: await_request_def Let_def)

lemma await_request_shape:
  "\<exists>k. await_request contract idx cfg app w
         = sleep (100 * Suc k) (fst (issue_request contract idx cfg app w))
             (snd (issue_request contract idx cfg app w))
       \<and> (\<forall>j<k. \<not> list_ex (is_end (int idx + 1))
                      (takeWhile (\<lambda>tev. fst tev \<le> clock w + 100 * Suc j) (inbox app)))
       \<and> (list_ex (is_end (int idx + 1))
             (takeWhile (\<lambda>tev. fst tev \<le> clock w + 100 * Suc k) (inbox app))
           \<or> 30000 \<le> 100 * Suc k)
       \<and> 100 * k < 30000"
proof -
  let ?a = "fst (issue_request contract idx cfg app w)"
  let ?w = "snd (issue_request contract idx cfg app w)"
  let ?r = "int idx + 1"
  have nd: "\<not> done_get ?a ?r" by (rule issue_request_not_done)
  have cw: "clock ?w = clock w" by (rule issue_request_clock)
  have tm: "clock ?w - clock w < 30000" by (simp add: cw)
  have dg: "done_get (fst (sleep d ?a ?w)) ?r
            = list_ex (is_end ?r) (takeWhile (\<lambda>tev. fst tev \<le> clock w + d) (inbox app))" for d
    using nd by (simp add: done_get_sleep cw issue_request_inbox)
  from wait_done_sleep[OF nd tm] obtain k where
    k: "wait_done ?r (clock w) 30000 ?a ?w = sleep (100 * Suc k) ?a ?w"
    and before: "\<forall>j<k. \<not> done_get (fst (sleep (100 * Suc j) ?a ?w)) ?r
                       \<and> clock ?w + 100 * Suc j - clock w < 30000"
    and at: "done_get (fst (sleep (100 * Suc k) ?a ?w)) ?r
             \<or> \<not> clock ?w + 100 * Suc k - clock w < 30000"
    by blast
  have "100 * k < 30000"
  proof (cases k)
    case 0
    then show ?thesis by simp
  next
    case (Suc j)
    with before have "clock ?w + 100 * Suc j - clock w < 30000" by simp
    with Suc cw show ?thesis by simp
  qed
  moreover from before have "\<forall>j<k. \<not> list_ex (is_end ?r)
                      (takeWhile (\<lambda>tev. fst tev \<le> clock w + 100 * Suc j) (inbox app))"
    by (simp add: dg)
  moreover from at have "list_ex (is_end ?r)
             (takeWhile (\<lambda>tev. fst tev \<le> clock w + 100 * Suc k) (inbox app))
           \<or> 30000 \<le> 100 * Suc k"
    by (simp add: dg cw) linarith
  ultimately show ?thesis using k by (intro exI[of _ k]) (simp add: await_request_wait)
qed


lemma await_request_done:
  "done_get (fst (await_request contract idx cfg app w)) (int idx + 1)
   = list_ex (is_end (int idx + 1))
       (takeWhile (\<lambda>tev. fst tev \<le> clock (snd (await_request contract idx cfg app w))) (inbox app))"
proof -
  from await_request_shape[of contract idx cfg app w] obtain k where
    k: "await_request contract idx cfg app w
         = sleep (100 * Suc k) (fst (issue_request contract idx cfg app w))
             (snd (issue_request contract idx cfg app w))" by blast
  show ?thesis
    using issue_request_not_done[of contract idx cfg app w]
    by (simp add: k done_get_sleep clock_sleep issue_request_clock issue_request_inbox)
qed




lemma apply_parse_ok:
  "list_all parses ss \<Longrightarrow>
   apply_parse_ib_datetime ss = (Inr (map (\<lambda>s. projr (parse_ib_datetime_try s)) ss), [])"
  by (induction ss)
     (auto simp: parses_def parse_ib_datetime_def split: sum.splits)











text \<open>
  C10, as amended. The claim: the wait can end before the timeout only if the
  end-of-stream callback of the current request has run. The flag is kept by request id,
  so this holds of the id and not of the request: whatever the flag of the request id
  was before, it is false once the request is issued, so that a flag left true by an
  earlier request cannot end the wait; the wait can end before the timeout only with the
  flag true; and the flag is true at the end of the wait only if an end-of-stream event
  carrying the id was handled during this wait, be it the answer to this request or to
  an earlier one with the same id.
\<close>

theorem request_resets_flag:
  "\<not> done_get (fst (issue_request contract idx cfg app w)) (int idx + 1)
   \<and> (clock (snd (await_request contract idx cfg app w)) - clock w < 30000
        \<longrightarrow> done_get (fst (await_request contract idx cfg app w)) (int idx + 1))
   \<and> (done_get (fst (await_request contract idx cfg app w)) (int idx + 1)
        \<longrightarrow> list_ex (is_end (int idx + 1))
              (takeWhile (\<lambda>tev. fst tev \<le> clock (snd (await_request contract idx cfg app w)))
                 (inbox app)))"
proof -
  from await_request_shape[of contract idx cfg app w] obtain k where
    k: "await_request contract idx cfg app w
         = sleep (100 * Suc k) (fst (issue_request contract idx cfg app w))
             (snd (issue_request contract idx cfg app w))"
    and at: "list_ex (is_end (int idx + 1))
             (takeWhile (\<lambda>tev. fst tev \<le> clock w + 100 * Suc k) (inbox app))
           \<or> 30000 \<le> 100 * Suc k" by blast
  have c: "clock (snd (await_request contract idx cfg app w)) = clock w + 100 * Suc k"
    by (simp add: k clock_sleep issue_request_clock)
  have "clock (snd (await_request contract idx cfg app w)) - clock w < 30000
        \<longrightarrow> done_get (fst (await_request contract idx cfg app w)) (int idx + 1)"
    using at by (auto simp: await_request_done c)
  then show ?thesis
    using issue_request_not_done[of contract idx cfg app w]
    by (simp add: await_request_done)
qed

lemmas eval_session =
  await_request_def issue_request_def example_app_def example_world_def wait_done_step
  wait_done_stop sleep_def emit_def say_def reqHistoricalData_def done_get_def
  historicalData_def historicalDataEnd_def Let_def

lemmas eval_parse =
  parses_def parse_ib_datetime_try_def strip_def isspace_def index_at_def bind_exn_def
  slice_def py_int_def isdigit_def digit_val_def pd_Timestamp_def days_in_month_def
  is_leap_def Timestamp_value_def days_from_civil_def Let_def example_bar_def

lemma parses_20241024: "parses ''20241024''"
  by (simp add: eval_parse)







theorem request_resets_flag_witness:
  "done_get ((example_app [(250, Ev_historicalDataEnd 7 [] []), (420, Ev_historicalDataEnd 1 [] [])])
               \<lparr>done_flags := [1 \<mapsto> True]\<rparr>) 1
   \<and> clock (snd (await_request (stock_contract ''SPY'') 0 (''1 M'', ''1 day'')
         ((example_app [(250, Ev_historicalDataEnd 7 [] []), (420, Ev_historicalDataEnd 1 [] [])])
            \<lparr>done_flags := [1 \<mapsto> True]\<rparr>) example_world)) = 500
   \<and> done_get (fst (await_request (stock_contract ''SPY'') 0 (''1 M'', ''1 day'')
         ((example_app [(250, Ev_historicalDataEnd 7 [] []), (420, Ev_historicalDataEnd 1 [] [])])
            \<lparr>done_flags := [1 \<mapsto> True]\<rparr>) example_world)) 1
   \<and> list_ex (is_end 1)
        (takeWhile (\<lambda>tev. fst tev \<le> 500)
           [(250, Ev_historicalDataEnd 7 [] []), (420, Ev_historicalDataEnd 1 [] [])])"
proof -
  let ?app = "(example_app [(250, Ev_historicalDataEnd 7 [] []), (420, Ev_historicalDataEnd 1 [] [])])
            \<lparr>done_flags := [1 \<mapsto> True]\<rparr>"
  let ?aw = "await_request (stock_contract ''SPY'') 0 (''1 M'', ''1 day'') ?app example_world"
  have s: "done_get ?app 1"
    by (simp add: done_get_def example_app_def)
  have c: "clock (snd ?aw) = 500"
    by (simp add: eval_session)
  have w: "clock example_world = 0" by (simp add: example_world_def)
  have i: "inbox ?app = [(250, Ev_historicalDataEnd 7 [] []), (420, Ev_historicalDataEnd 1 [] [])]"
    by (simp add: example_app_def)
  from request_resets_flag[of "stock_contract ''SPY''" 0 "(''1 M'', ''1 day'')" ?app example_world]
    s c w i show ?thesis
    by simp
qed

lemma list_ex_takeWhile_mono:
  "(\<And>x. Q x \<Longrightarrow> Q' x) \<Longrightarrow> list_ex P (takeWhile Q xs) \<Longrightarrow> list_ex P (takeWhile Q' xs)"
  by (induction xs) (auto split: if_splits)

lemma await_request_timeout_by:
  assumes "\<not> list_ex (is_end (int idx + 1))
             (takeWhile (\<lambda>tev. fst tev \<le> clock w + 30000) (inbox app))"
  shows "await_request contract idx cfg app w
         = sleep 30000 (fst (issue_request contract idx cfg app w))
             (snd (issue_request contract idx cfg app w))"
proof -
  from await_request_shape[of contract idx cfg app w] obtain k where
    k: "await_request contract idx cfg app w
         = sleep (100 * Suc k) (fst (issue_request contract idx cfg app w))
             (snd (issue_request contract idx cfg app w))"
    and at: "list_ex (is_end (int idx + 1))
             (takeWhile (\<lambda>tev. fst tev \<le> clock w + 100 * Suc k) (inbox app))
           \<or> 30000 \<le> 100 * Suc k"
    and lt: "100 * k < 30000" by blast
  have "30000 \<le> 100 * Suc k"
  proof (rule ccontr)
    assume n: "\<not> 30000 \<le> 100 * Suc k"
    with at have e: "list_ex (is_end (int idx + 1))
             (takeWhile (\<lambda>tev. fst tev \<le> clock w + 100 * Suc k) (inbox app))" by simp
    have "list_ex (is_end (int idx + 1))
             (takeWhile (\<lambda>tev. fst tev \<le> clock w + 30000) (inbox app))"
      by (rule list_ex_takeWhile_mono[OF _ e]) (use n in simp)
    with assms show False by simp
  qed
  with lt have "100 * Suc k = 30000" by presburger
  with k show ?thesis by simp
qed

lemma bars_frame_parsed:
  "list_all (\<lambda>b. parses (bar_date b)) bars \<Longrightarrow> bars_frame bars = (Inr (bar_table bars), [])"
proof -
  assume "list_all (\<lambda>b. parses (bar_date b)) bars"
  then have "list_all parses (map bar_date bars)" by (simp add: list_all_iff)
  from apply_parse_ok[OF this] show ?thesis
    by (simp add: bars_frame_def bar_table_def zip_map2 comp_def zip_same_conv_map)
qed

lemma late_end_first_wait:
  "await_request (stock_contract ''SPY'') 0 (''1 M'', ''1 day'') (example_app example_late_end)
     example_world
   = (\<lparr>data = [1 \<mapsto> [example_bar ''20241024'']], done_flags = [1 \<mapsto> False],
       connected = True, verbose = 0, show_bars = False, connection_tried = True,
       inbox = [(31500, Ev_historicalDataEnd 1 ''20240924  00:00:00'' ''20241024  00:00:00''),
               (40100, Ev_historicalDataEnd 1 ''20231024  00:00:00'' ''20241024  00:00:00'')]\<rparr>,
      \<lparr>clock = 30000, feeds = [],
        calls = [ReqHistoricalData 1 (stock_contract ''SPY'') ''1 M'' ''1 day''], console = []\<rparr>)"
proof -
  have n: "\<not> list_ex (is_end (int 0 + 1))
             (takeWhile (\<lambda>tev. fst tev \<le> clock example_world + 30000)
                (inbox (example_app example_late_end)))"
    by (simp add: example_app_def example_late_end_def example_world_def)
  show ?thesis
    by (simp add: await_request_timeout_by[OF n])
       (simp add: issue_request_def example_app_def example_world_def example_late_end_def
          sleep_def emit_def say_def reqHistoricalData_def historicalData_def Let_def)
qed

lemma late_end_first_run:
  "get_historical_data ''SPY'' [(''1 M'', ''1 day'')] (example_app example_late_end) example_world
   = (Some [(''1 day'', bar_table [example_bar ''20241024''])],
      \<lparr>data = [1 \<mapsto> [example_bar ''20241024'']], done_flags = [1 \<mapsto> False],
       connected = True, verbose = 0, show_bars = False, connection_tried = True,
       inbox = [(31500, Ev_historicalDataEnd 1 ''20240924  00:00:00'' ''20241024  00:00:00''),
               (40100, Ev_historicalDataEnd 1 ''20231024  00:00:00'' ''20241024  00:00:00'')]\<rparr>,
      \<lparr>clock = 31000, feeds = [],
        calls = [ReqHistoricalData 1 (stock_contract ''SPY'') ''1 M'' ''1 day''], console = []\<rparr>)"
proof -
  have p: "list_all (\<lambda>b. parses (bar_date b)) [example_bar ''20241024'']"
    using parses_20241024 by (simp add: example_bar_def)
  show ?thesis
    by (simp add: get_historical_data_def retrieve_one_def late_end_first_wait bars_frame_parsed[OF p]
        Let_def)
       (simp add: sleep_def emit_def say_def example_late_end_def Let_def)
qed

lemma late_end_second_wait:
  "await_request (stock_contract ''SPY'') 0 (''1 Y'', ''1 week'')
     \<lparr>data = [1 \<mapsto> [example_bar ''20241024'']], done_flags = [1 \<mapsto> False],
       connected = True, verbose = 0, show_bars = False, connection_tried = True,
       inbox = [(31500, Ev_historicalDataEnd 1 ''20240924  00:00:00'' ''20241024  00:00:00''),
               (40100, Ev_historicalDataEnd 1 ''20231024  00:00:00'' ''20241024  00:00:00'')]\<rparr>
     \<lparr>clock = 31000, feeds = [],
       calls = [ReqHistoricalData 1 (stock_contract ''SPY'') ''1 M'' ''1 day''], console = []\<rparr>
   = (\<lparr>data = [1 \<mapsto> [example_bar ''20241024'']], done_flags = [1 \<mapsto> True],
       connected = True, verbose = 0, show_bars = False, connection_tried = True,
       inbox = [(40100, Ev_historicalDataEnd 1 ''20231024  00:00:00'' ''20241024  00:00:00'')]\<rparr>,
      \<lparr>clock = 31500, feeds = [],
        calls = [ReqHistoricalData 1 (stock_contract ''SPY'') ''1 M'' ''1 day'',
                 ReqHistoricalData 1 (stock_contract ''SPY'') ''1 Y'' ''1 week''],
        console = []\<rparr>)"
  by (simp add: await_request_def issue_request_def wait_done_step wait_done_stop sleep_def
      emit_def say_def reqHistoricalData_def done_get_def historicalDataEnd_def Let_def
      example_late_end_def)

text \<open>
  The claim C10 fails when the answer to an earlier request with the same id comes
  late. A first run of the retriever on the connection issues request 1 at time 0; its
  wait times out, with the flag false, and the run returns the bar received, at 31
  seconds. A second request with id 1 is issued then, on the same connection. The end of
  stream of the first request arrives at 31.5 seconds: the wait of the second request ends
  there, 0.5 seconds after the request was issued, with the flag true, while the end of
  stream of the second request, due at 40.1 seconds, has not been handled.
\<close>

theorem late_end_of_stream_ends_next_wait:
  "fst (get_historical_data ''SPY'' [(''1 M'', ''1 day'')] (example_app example_late_end)
          example_world)
     = Some [(''1 day'', bar_table [example_bar ''20241024''])]
   \<and> \<not> done_get (fst (snd (get_historical_data ''SPY'' [(''1 M'', ''1 day'')]
                              (example_app example_late_end) example_world))) 1
   \<and> clock (snd (snd (get_historical_data ''SPY'' [(''1 M'', ''1 day'')]
                        (example_app example_late_end) example_world))) = 31000
   \<and> inbox (fst (snd (get_historical_data ''SPY'' [(''1 M'', ''1 day'')]
                        (example_app example_late_end) example_world)))
       = [(31500, Ev_historicalDataEnd 1 ''20240924  00:00:00'' ''20241024  00:00:00''),
          (40100, Ev_historicalDataEnd 1 ''20231024  00:00:00'' ''20241024  00:00:00'')]
   \<and> clock (snd (await_request (stock_contract ''SPY'') 0 (''1 Y'', ''1 week'')
         (fst (snd (get_historical_data ''SPY'' [(''1 M'', ''1 day'')]
                      (example_app example_late_end) example_world)))
         (snd (snd (get_historical_data ''SPY'' [(''1 M'', ''1 day'')]
                      (example_app example_late_end) example_world))))) = 31500
   \<and> done_get (fst (await_request (stock_contract ''SPY'') 0 (''1 Y'', ''1 week'')
         (fst (snd (get_historical_data ''SPY'' [(''1 M'', ''1 day'')]
                      (example_app example_late_end) example_world)))
         (snd (snd (get_historical_data ''SPY'' [(''1 M'', ''1 day'')]
                      (example_app example_late_end) example_world))))) 1
   \<and> inbox (fst (await_request (stock_contract ''SPY'') 0 (''1 Y'', ''1 week'')
         (fst (snd (get_historical_data ''SPY'' [(''1 M'', ''1 day'')]
                      (example_app example_late_end) example_world)))
         (snd (snd (get_historical_data ''SPY'' [(''1 M'', ''1 day'')]
                      (example_app example_late_end) example_world)))))
       = [(40100, Ev_historicalDataEnd 1 ''20231024  00:00:00'' ''20241024  00:00:00'')]"
  by (simp add: late_end_first_run late_end_second_wait)
     (simp add: done_get_def example_late_end_def)

section \<open>Properties of the orchestrator\<close>

subsection \<open>The calls made to the gateway client\<close>

lemma calls_sleep: "calls (snd (sleep d a w)) = calls w"
  by (cases "deliver (takeWhile (\<lambda>tev. fst tev \<le> clock w + d) (inbox a))
               (a\<lparr>inbox := dropWhile (\<lambda>tev. fst tev \<le> clock w + d) (inbox a)\<rparr>)")
     (simp add: sleep_def Let_def)

lemma calls_emit: "calls (emit ls w) = calls w"
  by (simp add: emit_def)

lemma calls_wait_done: "calls (snd (wait_done r st tmo a w)) = calls w"
proof (induction r st tmo a w rule: wait_done.induct)
  case (1 r st tmo a w)
  show ?case
  proof (cases "\<not> done_get a r \<and> clock w - st < tmo")
    case True
    then have "wait_done r st tmo a w
               = wait_done r st tmo (fst (sleep 100 a w)) (snd (sleep 100 a w))"
      by (simp add: wait_done_step)
    moreover have "(fst (sleep 100 a w), snd (sleep 100 a w)) = sleep 100 a w" by simp
    ultimately show ?thesis
      using "1.IH"[OF True, of "fst (sleep 100 a w)" "snd (sleep 100 a w)"]
      by (simp add: calls_sleep)
  next
    case False
    then show ?thesis by (simp add: wait_done_stop)
  qed
qed

lemma wait_connected_stop:
  "connected a \<or> \<not> clock w - st < tmo \<Longrightarrow> wait_connected st tmo a w = (a, w)"
  by (subst wait_connected.simps) auto

lemma wait_connected_step:
  "\<not> connected a \<Longrightarrow> clock w - st < tmo \<Longrightarrow>
   wait_connected st tmo a w = wait_connected st tmo (fst (sleep 100 a w)) (snd (sleep 100 a w))"
  by (subst wait_connected.simps) (simp split: prod.splits)

lemma calls_wait_connected: "calls (snd (wait_connected st tmo a w)) = calls w"
proof (induction st tmo a w rule: wait_connected.induct)
  case (1 st tmo a w)
  show ?case
  proof (cases "\<not> connected a \<and> clock w - st < tmo")
    case True
    then have "wait_connected st tmo a w
               = wait_connected st tmo (fst (sleep 100 a w)) (snd (sleep 100 a w))"
      by (simp add: wait_connected_step)
    moreover have "(fst (sleep 100 a w), snd (sleep 100 a w)) = sleep 100 a w" by simp
    ultimately show ?thesis
      using "1.IH"[OF True, of "fst (sleep 100 a w)" "snd (sleep 100 a w)"]
      by (simp add: calls_sleep)
  next
    case False
    then show ?thesis by (simp add: wait_connected_stop)
  qed
qed

lemma calls_issue_request:
  "calls (snd (issue_request contract idx cfg app w))
   = calls w @ [ReqHistoricalData (int idx + 1) contract (fst cfg) (snd cfg)]"
  by (cases cfg) (simp add: issue_request_def Let_def reqHistoricalData_def emit_def)

lemma calls_await_request:
  "calls (snd (await_request contract idx cfg app w))
   = calls w @ [ReqHistoricalData (int idx + 1) contract (fst cfg) (snd cfg)]"
  by (simp add: await_request_wait calls_wait_done calls_issue_request)

lemma calls_retrieve_one:
  "calls (snd (snd (retrieve_one contract idx cfg dataframes app w)))
   = calls w @ [ReqHistoricalData (int idx + 1) contract (fst cfg) (snd cfg)]"
proof -
  obtain duration bar_size where cfg: "cfg = (duration, bar_size)" by (cases cfg)
  obtain a2 w3 where aw: "await_request contract idx (duration, bar_size) app w = (a2, w3)"
    by (cases "await_request contract idx (duration, bar_size) app w")
  with calls_await_request[of contract idx "(duration, bar_size)" app w]
  have c: "calls w3 = calls w @ [ReqHistoricalData (int idx + 1) contract duration bar_size]"
    by simp
  show ?thesis
    unfolding cfg retrieve_one_def
    by (simp add: aw Let_def calls_emit calls_sleep c split_beta
          split: option.splits list.splits sum.splits)
qed

lemma calls_get_historical_data:
  "calls (snd (snd (get_historical_data symbol [(duration, barsize)] app w)))
   = calls w @ [ReqHistoricalData 1 (stock_contract symbol) duration barsize]"
  using calls_retrieve_one[of "stock_contract symbol" 0 "(duration, barsize)" "[]" app w]
  by (simp add: get_historical_data_def Let_def calls_emit split_beta split: sum.splits)

lemma calls_open_connection:
  "calls (snd (open_connection symbol duration barsize vb sb host port client_id w))
   = calls w @ [Connect host port client_id, Run]"
  by (simp add: open_connection_def Let_def split_beta calls_wait_connected start_thread_def
      connect_def calls_emit)

lemma calls_retrieve_and_format:
  "calls (snd (snd (retrieve_and_format symbol duration barsize vb app w)))
   = calls w @ [ReqHistoricalData 1 (stock_contract symbol) duration barsize]"
  using calls_get_historical_data[of symbol duration barsize app w]
  by (simp add: retrieve_and_format_def Let_def split_beta calls_emit
      split: option.splits list.splits)

lemma calls_get_ib_ticks_try:
  "\<exists>requested. calls (snd (snd (get_ib_ticks_try symbol duration barsize vb sb host port client_id w)))
     = calls w @ [Connect host port client_id, Run]
       @ (if requested then [ReqHistoricalData 1 (stock_contract symbol) duration barsize] else [])"
proof -
  obtain app2 w5 where oc: "open_connection symbol duration barsize vb sb host port client_id w = (app2, w5)"
    by (cases "open_connection symbol duration barsize vb sb host port client_id w")
  with calls_open_connection[of symbol duration barsize vb sb host port client_id w]
  have c5: "calls w5 = calls w @ [Connect host port client_id, Run]" by simp
  show ?thesis
  proof (cases "connected app2")
    case False
    then show ?thesis
      by (intro exI[of _ False]) (simp add: get_ib_ticks_try_def oc calls_emit c5)
  next
    case True
    then show ?thesis
      by (intro exI[of _ True])
         (simp add: get_ib_ticks_try_def oc calls_retrieve_and_format c5)
  qed
qed

lemma calls_get_ib_ticks:
  "is_session (resolve_host cfg host) (resolve_port cfg port) (resolve_client_id cfg client_id)
     (symbol, duration, barsize)
     (drop (length (calls w))
        (calls (snd (get_ib_ticks cfg symbol duration barsize vb sb host port client_id w))))
   \<and> take (length (calls w))
        (calls (snd (get_ib_ticks cfg symbol duration barsize vb sb host port client_id w)))
      = calls w"
proof -
  from calls_get_ib_ticks_try[of symbol duration barsize vb sb "resolve_host cfg host"
      "resolve_port cfg port" "resolve_client_id cfg client_id" w]
  obtain requested where
    r: "calls (snd (snd (get_ib_ticks_try symbol duration barsize vb sb (resolve_host cfg host)
          (resolve_port cfg port) (resolve_client_id cfg client_id) w)))
        = calls w @ [Connect (resolve_host cfg host) (resolve_port cfg port)
                       (resolve_client_id cfg client_id), Run]
          @ (if requested then [ReqHistoricalData 1 (stock_contract symbol) duration barsize] else [])"
    by blast
  have "calls (snd (get_ib_ticks cfg symbol duration barsize vb sb host port client_id w))
        = calls w @ session_calls (resolve_host cfg host) (resolve_port cfg port)
                      (resolve_client_id cfg client_id) symbol duration barsize requested"
    by (simp add: get_ib_ticks_def Let_def split_beta disconnect_def calls_emit r session_calls_def)
  then show ?thesis by (cases requested) simp_all
qed

lemma calls_get_ib_ticks_session:
  "\<exists>cs. calls (snd (get_ib_ticks cfg symbol duration barsize vb sb host port client_id w))
          = calls w @ cs
        \<and> is_session (resolve_host cfg host) (resolve_port cfg port)
            (resolve_client_id cfg client_id) (symbol, duration, barsize) cs"
  using calls_get_ib_ticks[of cfg host port client_id symbol duration barsize w vb sb]
  by (metis append_take_drop_id)

lemma calls_ticks_timeframes:
  "\<exists>sessions. calls (snd (ticks_timeframes cfg symbol timeframes vb sb host port client_id all_dfs w))
          = calls w @ concat sessions
        \<and> list_all2 (is_session (resolve_host cfg host) (resolve_port cfg port)
                      (resolve_client_id cfg client_id))
            (map (Pair symbol) timeframes) sessions"
proof (induction timeframes arbitrary: all_dfs w)
  case Nil
  show ?case by (intro exI[of _ "[]"]) simp
next
  case (Cons tf timeframes)
  obtain duration barsize where tf: "tf = (duration, barsize)" by (cases tf)
  let ?w1 = "emit (say (vb \<ge> 1)
                 [Line ''Processing {symbol} - {barsize} ({duration})''
                    [AStr symbol, AStr barsize, AStr duration]]) w"
  obtain r w2 where g: "get_ib_ticks cfg symbol duration barsize vb sb host port client_id ?w1 = (r, w2)"
    by (cases "get_ib_ticks cfg symbol duration barsize vb sb host port client_id ?w1")
  from calls_get_ib_ticks_session[of cfg symbol duration barsize vb sb host port client_id ?w1] g
  obtain cs where cs: "calls w2 = calls w @ cs"
    and s: "is_session (resolve_host cfg host) (resolve_port cfg port)
              (resolve_client_id cfg client_id) (symbol, duration, barsize) cs"
    by (auto simp: calls_emit)
  show ?case
  proof (cases r)
    case None
    from Cons.IH[of all_dfs w2] obtain sessions where
      "calls (snd (ticks_timeframes cfg symbol timeframes vb sb host port client_id all_dfs w2))
          = calls w2 @ concat sessions"
      "list_all2 (is_session (resolve_host cfg host) (resolve_port cfg port)
                      (resolve_client_id cfg client_id))
            (map (Pair symbol) timeframes) sessions" by blast
    with None g cs s show ?thesis
      by (intro exI[of _ "cs # sessions"]) (simp add: tf Let_def)
  next
    case (Some df)
    let ?w3 = "emit (say (vb \<ge> 1)
                  [Line ''Added {key} to results: {len(df)} bars''
                     [AStr (symbol @ ''_'' @ barsize), AInt (int (length (rows df)))]]) w2"
    from Cons.IH[of "all_dfs @ [df]" ?w3] obtain sessions where
      "calls (snd (ticks_timeframes cfg symbol timeframes vb sb host port client_id (all_dfs @ [df]) ?w3))
          = calls ?w3 @ concat sessions"
      "list_all2 (is_session (resolve_host cfg host) (resolve_port cfg port)
                      (resolve_client_id cfg client_id))
            (map (Pair symbol) timeframes) sessions" by blast
    with Some g cs s show ?thesis
      by (intro exI[of _ "cs # sessions"]) (simp add: tf Let_def calls_emit)
  qed
qed

lemma calls_ticks_symbols:
  "\<exists>sessions. calls (snd (ticks_symbols cfg symbols timeframes vb sb host port client_id all_dfs w))
          = calls w @ concat sessions
        \<and> list_all2 (is_session (resolve_host cfg host) (resolve_port cfg port)
                      (resolve_client_id cfg client_id))
            (List.product symbols timeframes) sessions"
proof (induction symbols arbitrary: all_dfs w)
  case Nil
  show ?case by (intro exI[of _ "[]"]) simp
next
  case (Cons symbol symbols)
  obtain dfs' w' where t: "ticks_timeframes cfg symbol timeframes vb sb host port client_id all_dfs w = (dfs', w')"
    by (cases "ticks_timeframes cfg symbol timeframes vb sb host port client_id all_dfs w")
  from calls_ticks_timeframes[of cfg symbol timeframes vb sb host port client_id all_dfs w] t
  obtain s1 where s1: "calls w' = calls w @ concat s1"
    "list_all2 (is_session (resolve_host cfg host) (resolve_port cfg port)
                      (resolve_client_id cfg client_id))
            (map (Pair symbol) timeframes) s1" by auto
  from Cons.IH[of dfs' w'] obtain s2 where s2:
    "calls (snd (ticks_symbols cfg symbols timeframes vb sb host port client_id dfs' w'))
          = calls w' @ concat s2"
    "list_all2 (is_session (resolve_host cfg host) (resolve_port cfg port)
                      (resolve_client_id cfg client_id))
            (List.product symbols timeframes) s2" by blast
  from s1 s2 t show ?case
    by (intro exI[of _ "s1 @ s2"]) (simp add: list_all2_appendI)
qed

lemma calls_get_ib_ticks_multiple_try:
  "\<exists>sessions. calls (snd (get_ib_ticks_multiple_try cfg symbols timeframes vb sb host port client_id w))
          = calls w @ concat sessions
        \<and> list_all2 (is_session (resolve_host cfg host) (resolve_port cfg port)
                      (resolve_client_id cfg client_id))
            (List.product symbols timeframes) sessions"
  using calls_ticks_symbols[of cfg symbols timeframes vb sb host port client_id "[]" w]
  by (simp add: get_ib_ticks_multiple_try_def split_beta calls_emit split: sum.splits)

lemma connects_of_sessions:
  "list_all2 (is_session h p c) reqs sessions
   \<Longrightarrow> filter is_connect (concat sessions) = replicate (length reqs) (Connect h p c)"
proof (induction reqs sessions rule: list_all2_induct)
  case Nil
  then show ?case by simp
next
  case (Cons r rs s ss)
  obtain symbol duration barsize where r: "r = (symbol, duration, barsize)" by (cases r)
  from Cons show ?case by (auto simp: r session_calls_def)
qed

subsection \<open>Runs that differ in verbosity only\<close>

lemma same_app_refl: "same_app a a"
  by (simp add: same_app_def)

lemma same_world_refl: "same_world w w"
  by (simp add: same_world_def)

lemma same_world_emit: "same_world (emit ls w) (emit ms u) = same_world w u"
  by (simp add: same_world_def emit_def)

lemma same_world_emit_left: "same_world (emit ls w) u = same_world w u"
  by (simp add: same_world_def emit_def)

lemma same_world_emit_right: "same_world w (emit ms u) = same_world w u"
  by (simp add: same_world_def emit_def)

lemma fst_error:
  "fst (error self t reqId errorCode errorString)
   = (if errorCode \<in> set [504, 1100, 1101, 1102] then self\<lparr>connected := False\<rparr> else self)"
  by (simp add: error_def critical_errors_def)

lemma same_app_dispatch:
  "same_app a b \<Longrightarrow> same_app (fst (dispatch a ev)) (fst (dispatch b ev))"
proof (cases ev)
  case (Pair t e)
  assume s: "same_app a b"
  show ?thesis
  proof (cases e)
    case (Ev_error reqId errorCode errorString)
    with s Pair show ?thesis by (simp add: fst_error same_app_def)
  next
    case Ev_connectAck
    with s Pair show ?thesis by (simp add: connectAck_def same_app_def)
  next
    case (Ev_nextValidId orderId)
    with s Pair show ?thesis by (simp add: nextValidId_def same_app_def)
  next
    case (Ev_historicalData reqId bar)
    with s Pair show ?thesis
      by (cases "data b reqId") (simp_all add: historicalData_def same_app_def)
  next
    case (Ev_historicalDataEnd reqId start end')
    with s Pair show ?thesis by (simp add: historicalDataEnd_def same_app_def)
  qed
qed

lemma fst_deliver_Cons: "fst (deliver (ev # evs) a) = fst (deliver evs (fst (dispatch a ev)))"
  by (simp add: split_beta)

lemma same_app_deliver:
  "same_app a b \<Longrightarrow> same_app (fst (deliver evs a)) (fst (deliver evs b))"
proof (induction evs arbitrary: a b)
  case Nil
  then show ?case by simp
next
  case (Cons ev evs)
  from Cons.IH[OF same_app_dispatch[OF Cons.prems, of ev]] show ?case
    by (simp only: fst_deliver_Cons)
qed

lemma fst_sleep:
  "fst (sleep d a w)
   = fst (deliver (takeWhile (\<lambda>tev. fst tev \<le> clock w + d) (inbox a))
            (a\<lparr>inbox := dropWhile (\<lambda>tev. fst tev \<le> clock w + d) (inbox a)\<rparr>))"
  by (simp add: sleep_def Let_def split_beta)

lemma same_sleep:
  assumes "same_app a b" and "same_world w u"
  shows "same_app (fst (sleep d a w)) (fst (sleep d b u))"
    and "same_world (snd (sleep d a w)) (snd (sleep d b u))"
proof -
  from assms have i: "inbox a = inbox b" and c: "clock w = clock u"
    by (simp_all add: same_app_def same_world_def)
  let ?rest = "dropWhile (\<lambda>tev. fst tev \<le> clock u + d) (inbox b)"
  from assms(1) have "same_app (a\<lparr>inbox := ?rest\<rparr>) (b\<lparr>inbox := ?rest\<rparr>)"
    by (simp add: same_app_def)
  from same_app_deliver[OF this] show "same_app (fst (sleep d a w)) (fst (sleep d b u))"
    by (simp add: fst_sleep i c)
  from assms(2) show "same_world (snd (sleep d a w)) (snd (sleep d b u))"
    by (simp add: sleep_def Let_def split_beta same_world_def)
qed

lemma same_wait_done:
  "same_app a b \<Longrightarrow> same_world w u \<Longrightarrow>
   same_app (fst (wait_done r st tmo a w)) (fst (wait_done r st tmo b u))
   \<and> same_world (snd (wait_done r st tmo a w)) (snd (wait_done r st tmo b u))"
proof (induction r st tmo a w arbitrary: b u rule: wait_done.induct)
  case (1 r st tmo a w)
  from "1.prems" have d: "done_get b r = done_get a r" and c: "clock u = clock w"
    by (simp_all add: same_app_def same_world_def done_get_def)
  show ?case
  proof (cases "\<not> done_get a r \<and> clock w - st < tmo")
    case True
    have e: "(fst (sleep 100 a w), snd (sleep 100 a w)) = sleep 100 a w" by simp
    from True d c have
      "wait_done r st tmo a w = wait_done r st tmo (fst (sleep 100 a w)) (snd (sleep 100 a w))"
      "wait_done r st tmo b u = wait_done r st tmo (fst (sleep 100 b u)) (snd (sleep 100 b u))"
      by (simp_all add: wait_done_step)
    with "1.IH"[OF True e same_sleep[OF "1.prems", of 100]] show ?thesis by simp
  next
    case False
    with d c have "wait_done r st tmo a w = (a, w)" "wait_done r st tmo b u = (b, u)"
      by (auto simp: wait_done_stop)
    with "1.prems" show ?thesis by simp
  qed
qed

lemma same_wait_connected:
  "same_app a b \<Longrightarrow> same_world w u \<Longrightarrow>
   same_app (fst (wait_connected st tmo a w)) (fst (wait_connected st tmo b u))
   \<and> same_world (snd (wait_connected st tmo a w)) (snd (wait_connected st tmo b u))"
proof (induction st tmo a w arbitrary: b u rule: wait_connected.induct)
  case (1 st tmo a w)
  from "1.prems" have d: "connected b = connected a" and c: "clock u = clock w"
    by (simp_all add: same_app_def same_world_def)
  show ?case
  proof (cases "\<not> connected a \<and> clock w - st < tmo")
    case True
    have e: "(fst (sleep 100 a w), snd (sleep 100 a w)) = sleep 100 a w" by simp
    from True d c have
      "wait_connected st tmo a w = wait_connected st tmo (fst (sleep 100 a w)) (snd (sleep 100 a w))"
      "wait_connected st tmo b u = wait_connected st tmo (fst (sleep 100 b u)) (snd (sleep 100 b u))"
      by (simp_all add: wait_connected_step)
    with "1.IH"[OF True e same_sleep[OF "1.prems", of 100]] show ?thesis by simp
  next
    case False
    with d c have "wait_connected st tmo a w = (a, w)" "wait_connected st tmo b u = (b, u)"
      by (auto simp: wait_connected_stop)
    with "1.prems" show ?thesis by simp
  qed
qed

lemma same_issue_request:
  assumes "same_app a b" and "same_world w u"
  shows "same_app (fst (issue_request contract idx cfg a w)) (fst (issue_request contract idx cfg b u))"
    and "same_world (snd (issue_request contract idx cfg a w)) (snd (issue_request contract idx cfg b u))"
  using assms
  by (cases cfg; simp add: issue_request_def Let_def same_app_def same_world_def
        reqHistoricalData_def emit_def)+

lemma same_await_request:
  assumes "same_app a b" and "same_world w u"
  shows "same_app (fst (await_request contract idx cfg a w)) (fst (await_request contract idx cfg b u))"
    and "same_world (snd (await_request contract idx cfg a w)) (snd (await_request contract idx cfg b u))"
proof -
  from assms(2) have c: "clock w = clock u" by (simp add: same_world_def)
  from same_wait_done[OF same_issue_request[OF assms, of contract idx cfg], of "int idx + 1" "clock u" 30000]
  show "same_app (fst (await_request contract idx cfg a w)) (fst (await_request contract idx cfg b u))"
    and "same_world (snd (await_request contract idx cfg a w)) (snd (await_request contract idx cfg b u))"
    by (simp_all add: await_request_wait c)
qed

lemma same_retrieve_one:
  assumes "same_app a b" and "same_world w u"
  shows "fst (retrieve_one contract idx cfg dataframes a w)
         = fst (retrieve_one contract idx cfg dataframes b u)
       \<and> same_app (fst (snd (retrieve_one contract idx cfg dataframes a w)))
                  (fst (snd (retrieve_one contract idx cfg dataframes b u)))
       \<and> same_world (snd (snd (retrieve_one contract idx cfg dataframes a w)))
                    (snd (snd (retrieve_one contract idx cfg dataframes b u)))"
proof -
  obtain duration bar_size where cfg: "cfg = (duration, bar_size)" by (cases cfg)
  obtain a2 w3 where aw: "await_request contract idx (duration, bar_size) a w = (a2, w3)"
    by (cases "await_request contract idx (duration, bar_size) a w")
  obtain b2 u3 where bw: "await_request contract idx (duration, bar_size) b u = (b2, u3)"
    by (cases "await_request contract idx (duration, bar_size) b u")
  from same_await_request[OF assms, of contract idx "(duration, bar_size)"] aw bw
  have sa: "same_app a2 b2" and sw: "same_world w3 u3" by simp_all
  from sa have d: "data a2 = data b2" by (simp add: same_app_def)
  note sl = same_sleep[OF sa]
  show ?thesis
  proof (cases "data b2 (int idx + 1)")
    case None
    with d sl[OF sw, of 1000] show ?thesis
      by (simp add: cfg retrieve_one_def aw bw Let_def split_beta)
  next
    case (Some bars)
    show ?thesis
    proof (cases bars)
      case Nil
      with Some d sl[OF sw, of 1000] show ?thesis
        by (simp add: cfg retrieve_one_def aw bw Let_def split_beta)
    next
      case (Cons x xs)
      obtain r out where bf: "bars_frame (x # xs) = (r, out)" by (cases "bars_frame (x # xs)")
      show ?thesis
      proof (cases r)
        case (Inl e)
        with Some Cons d bf sa sw show ?thesis
          by (simp add: cfg retrieve_one_def aw bw Let_def same_world_emit)
      next
        case (Inr df)
        have "same_world (emit ls w3) (emit ms u3)" for ls ms
          using sw by (simp add: same_world_emit)
        from sl[OF this, of 1000] Some Cons d bf Inr show ?thesis
          by (simp add: cfg retrieve_one_def aw bw Let_def split_beta)
      qed
    qed
  qed
qed

lemma same_retrieve_loop:
  "same_app a b \<Longrightarrow> same_world w u \<Longrightarrow>
   fst (retrieve_loop contract idx cfgs dataframes a w)
     = fst (retrieve_loop contract idx cfgs dataframes b u)
   \<and> same_app (fst (snd (retrieve_loop contract idx cfgs dataframes a w)))
              (fst (snd (retrieve_loop contract idx cfgs dataframes b u)))
   \<and> same_world (snd (snd (retrieve_loop contract idx cfgs dataframes a w)))
                (snd (snd (retrieve_loop contract idx cfgs dataframes b u)))"
proof (induction cfgs arbitrary: idx dataframes a b w u)
  case Nil
  then show ?case by simp
next
  case (Cons cfg cfgs)
  obtain r1 a1 w1 where r1: "retrieve_one contract idx cfg dataframes a w = (r1, a1, w1)"
    by (cases "retrieve_one contract idx cfg dataframes a w")
  obtain r2 b1 u1 where r2: "retrieve_one contract idx cfg dataframes b u = (r2, b1, u1)"
    by (cases "retrieve_one contract idx cfg dataframes b u")
  from same_retrieve_one[OF Cons.prems, of contract idx cfg dataframes] r1 r2
  have e: "r1 = r2" and sa: "same_app a1 b1" and sw: "same_world w1 u1" by simp_all
  show ?case
  proof (cases r2)
    case (Inl x)
    with e sa sw r1 r2 show ?thesis by simp
  next
    case (Inr dfs')
    with e r1 r2 Cons.IH[OF sa sw, of "Suc idx" dfs'] show ?thesis by simp
  qed
qed

lemma same_get_historical_data:
  assumes "same_app a b" and "same_world w u"
  shows "fst (get_historical_data symbol cfgs a w) = fst (get_historical_data symbol cfgs b u)
       \<and> same_app (fst (snd (get_historical_data symbol cfgs a w)))
                  (fst (snd (get_historical_data symbol cfgs b u)))
       \<and> same_world (snd (snd (get_historical_data symbol cfgs a w)))
                    (snd (snd (get_historical_data symbol cfgs b u)))"
proof -
  obtain r1 a1 w1 where r1: "retrieve_loop (stock_contract symbol) 0 cfgs [] a w = (r1, a1, w1)"
    by (cases "retrieve_loop (stock_contract symbol) 0 cfgs [] a w")
  obtain r2 b1 u1 where r2: "retrieve_loop (stock_contract symbol) 0 cfgs [] b u = (r2, b1, u1)"
    by (cases "retrieve_loop (stock_contract symbol) 0 cfgs [] b u")
  from same_retrieve_loop[OF assms, of "stock_contract symbol" 0 cfgs "[]"] r1 r2
  have e: "r1 = r2" and sa: "same_app a1 b1" and sw: "same_world w1 u1" by simp_all
  show ?thesis
    using e sa sw
    by (cases r2) (simp_all add: get_historical_data_def Let_def r1 r2 same_world_emit)
qed

lemma same_format_loop:
  "fst (format_loop v1 symbol dfs acc) = fst (format_loop v2 symbol dfs acc)"
proof (induction dfs arbitrary: acc)
  case Nil
  then show ?case by simp
next
  case (Cons item dfs)
  obtain timeframe dfo where item: "item = (timeframe, dfo)" by (cases item)
  show ?case
  proof (cases dfo)
    case None
    with Cons.IH[of acc] show ?thesis by (simp add: item Let_def split_beta)
  next
    case (Some df0)
    show ?thesis
    proof (cases "df_empty df0")
      case True
      with Some Cons.IH[of acc] show ?thesis by (simp add: item Let_def split_beta)
    next
      case False
      show ?thesis
      proof (cases "format_one symbol timeframe df0")
        case (Inl e)
        with Some False show ?thesis by (simp add: item Let_def)
      next
        case (Inr df)
        with Some False Cons.IH[of "acc @ [df]"] show ?thesis
          by (simp add: item Let_def split_beta)
      qed
    qed
  qed
qed

lemma same_format_try:
  "fst (format_historical_data_try dfs symbol sel v1) = fst (format_historical_data_try dfs symbol sel v2)"
proof -
  obtain r1 o1 where r1: "format_loop v1 symbol dfs [] = (r1, o1)"
    by (cases "format_loop v1 symbol dfs []")
  obtain r2 o2 where r2: "format_loop v2 symbol dfs [] = (r2, o2)"
    by (cases "format_loop v2 symbol dfs []")
  from same_format_loop[of v1 symbol dfs "[]" v2] r1 r2 have e: "r1 = r2" by simp
  show ?thesis
    by (cases r2) (auto simp: format_historical_data_try_def r1 r2 e split: sum.splits)
qed

lemma same_format:
  "fst (format_historical_data dfs symbol sel v1) = fst (format_historical_data dfs symbol sel v2)"
proof -
  obtain r1 o1 where r1: "format_historical_data_try dfs symbol sel v1 = (r1, o1)"
    by (cases "format_historical_data_try dfs symbol sel v1")
  obtain r2 o2 where r2: "format_historical_data_try dfs symbol sel v2 = (r2, o2)"
    by (cases "format_historical_data_try dfs symbol sel v2")
  from same_format_try[of dfs symbol sel v1 v2] r1 r2 have e: "r1 = r2" by simp
  show ?thesis
    by (cases r2) (simp_all add: format_historical_data_def Let_def r1 r2 e)
qed

lemma open_connection_unfold:
  "open_connection symbol duration barsize vb sb host port client_id w
   = (let w2 = emit (snd (MarketDataApp_init vb sb) @ say (vb \<ge> 1)
                    [Line ''[{current_time}] Connecting to IB ({host}:{port})''
                       [AInt (int (clock w)), AStr host, AInt port]])
                 (emit (say (vb \<ge> 1)
                 [Line ''=== [{current_time}] Starting data retrieval for {symbol} ===''
                    [AInt (int (clock w)), AStr symbol],
                  Line ''Configuration:'' [],
                  Line ''Symbol: {symbol}'' [AStr symbol],
                  Line ''Duration: {duration}'' [AStr duration],
                  Line ''Bar size: {barsize}'' [AStr barsize],
                  Line ''Connection: {host}:{port} (Client ID: {client_id})''
                    [AStr host, AInt port, AInt client_id]]) w);
          c = connect host port client_id (fst (MarketDataApp_init vb sb)) w2
      in wait_connected (clock (start_thread (snd c))) 10000 (fst c) (start_thread (snd c)))"
  by (simp add: open_connection_def Let_def split_beta)

lemma same_connect:
  assumes "same_app a b" and "same_world w u"
  shows "same_app (fst (connect host port client_id a w)) (fst (connect host port client_id b u))"
    and "same_world (start_thread (snd (connect host port client_id a w)))
           (start_thread (snd (connect host port client_id b u)))"
  using assms by (simp_all add: connect_def same_app_def same_world_def start_thread_def)

lemma same_connect_wait:
  assumes "same_app a b" and "same_world w u"
  shows "same_app
           (fst (wait_connected (clock (start_thread (snd (connect host port client_id a w)))) 10000
                   (fst (connect host port client_id a w))
                   (start_thread (snd (connect host port client_id a w)))))
           (fst (wait_connected (clock (start_thread (snd (connect host port client_id b u)))) 10000
                   (fst (connect host port client_id b u))
                   (start_thread (snd (connect host port client_id b u)))))
       \<and> same_world
           (snd (wait_connected (clock (start_thread (snd (connect host port client_id a w)))) 10000
                   (fst (connect host port client_id a w))
                   (start_thread (snd (connect host port client_id a w)))))
           (snd (wait_connected (clock (start_thread (snd (connect host port client_id b u)))) 10000
                   (fst (connect host port client_id b u))
                   (start_thread (snd (connect host port client_id b u)))))"
proof -
  note sc = same_connect[OF assms, of host port client_id]
  from sc(2) have ck: "clock (start_thread (snd (connect host port client_id a w)))
                     = clock (start_thread (snd (connect host port client_id b u)))"
    by (simp add: same_world_def)
  show ?thesis
    unfolding ck by (rule same_wait_connected[OF sc])
qed

lemma same_open_connection:
  assumes "same_world w u"
  shows "same_app (fst (open_connection symbol duration barsize v1 sb host port client_id w))
                  (fst (open_connection symbol duration barsize v2 sb host port client_id u))
       \<and> same_world (snd (open_connection symbol duration barsize v1 sb host port client_id w))
                    (snd (open_connection symbol duration barsize v2 sb host port client_id u))"
proof -
  have s0: "same_app (fst (MarketDataApp_init v1 sb)) (fst (MarketDataApp_init v2 sb))"
    by (simp add: MarketDataApp_init_def same_app_def)
  have se: "same_world (emit ls (emit ms w)) (emit ls' (emit ms' u))" for ls ms ls' ms'
    using assms by (simp add: same_world_emit)
  show ?thesis
    unfolding open_connection_unfold Let_def
    by (rule same_connect_wait[OF s0 se])
qed

lemma same_retrieve_and_format:
  assumes "same_app a b" and "same_world w u"
  shows "fst (retrieve_and_format symbol duration barsize v1 a w)
         = fst (retrieve_and_format symbol duration barsize v2 b u)
       \<and> same_world (snd (snd (retrieve_and_format symbol duration barsize v1 a w)))
                    (snd (snd (retrieve_and_format symbol duration barsize v2 b u)))"
proof -
  obtain d1 a3 w6 where g1: "get_historical_data symbol [(duration, barsize)] a w = (d1, a3, w6)"
    by (cases "get_historical_data symbol [(duration, barsize)] a w")
  obtain d2 b3 u6 where g2: "get_historical_data symbol [(duration, barsize)] b u = (d2, b3, u6)"
    by (cases "get_historical_data symbol [(duration, barsize)] b u")
  from same_get_historical_data[OF assms, of symbol "[(duration, barsize)]"] g1 g2
  have e: "d1 = d2" and s6: "same_world w6 u6" by simp_all
  show ?thesis
  proof (cases d2)
    case None
    with e s6 show ?thesis by (simp add: retrieve_and_format_def g1 g2 same_world_emit)
  next
    case (Some dl)
    show ?thesis
    proof (cases dl)
      case Nil
      with Some e s6 show ?thesis by (simp add: retrieve_and_format_def g1 g2 same_world_emit)
    next
      case (Cons d ds)
      obtain f1 p1 where f1: "format_historical_data (map (\<lambda>(k, t). (k, Some t)) (d # ds))
                            symbol barsize v1 = (f1, p1)"
        by (cases "format_historical_data (map (\<lambda>(k, t). (k, Some t)) (d # ds)) symbol barsize v1")
      obtain f2 p2 where f2: "format_historical_data (map (\<lambda>(k, t). (k, Some t)) (d # ds))
                            symbol barsize v2 = (f2, p2)"
        by (cases "format_historical_data (map (\<lambda>(k, t). (k, Some t)) (d # ds)) symbol barsize v2")
      from same_format[of "map (\<lambda>(k, t). (k, Some t)) (d # ds)" symbol barsize v1 v2] f1 f2
      have ef: "f1 = f2" by simp
      from f1 f2 have f': "format_historical_data ((case d of (k, t) \<Rightarrow> (k, Some t))
                              # map (\<lambda>(k, t). (k, Some t)) ds) symbol barsize v1 = (f1, p1)"
          "format_historical_data ((case d of (k, t) \<Rightarrow> (k, Some t))
                              # map (\<lambda>(k, t). (k, Some t)) ds) symbol barsize v2 = (f2, p2)"
        by simp_all
      from Some Cons e s6 ef show ?thesis
        by (simp add: retrieve_and_format_def g1 g2 f' Let_def same_world_emit)
    qed
  qed
qed

lemma same_get_ib_ticks_try:
  assumes "same_world w u"
  shows "fst (get_ib_ticks_try symbol duration barsize v1 sb host port client_id w)
         = fst (get_ib_ticks_try symbol duration barsize v2 sb host port client_id u)
       \<and> same_world (snd (snd (get_ib_ticks_try symbol duration barsize v1 sb host port client_id w)))
                    (snd (snd (get_ib_ticks_try symbol duration barsize v2 sb host port client_id u)))"
proof -
  obtain a2 w5 where o1: "open_connection symbol duration barsize v1 sb host port client_id w = (a2, w5)"
    by (cases "open_connection symbol duration barsize v1 sb host port client_id w")
  obtain b2 u5 where o2: "open_connection symbol duration barsize v2 sb host port client_id u = (b2, u5)"
    by (cases "open_connection symbol duration barsize v2 sb host port client_id u")
  from same_open_connection[OF assms, of symbol duration barsize v1 sb host port client_id v2] o1 o2
  have s5: "same_app a2 b2" "same_world w5 u5" by simp_all
  then have cn: "connected a2 = connected b2" by (simp add: same_app_def)
  show ?thesis
    using cn s5 same_retrieve_and_format[OF s5, of symbol duration barsize v1 v2]
    by (simp add: get_ib_ticks_try_def o1 o2 same_world_emit)
qed

lemma same_get_ib_ticks:
  assumes "same_world w u"
    and "resolve_host cfg h1 = resolve_host cfg h2"
    and "resolve_port cfg p1 = resolve_port cfg p2"
    and "resolve_client_id cfg c1 = resolve_client_id cfg c2"
  shows "fst (get_ib_ticks cfg symbol duration barsize v1 sb h1 p1 c1 w)
         = fst (get_ib_ticks cfg symbol duration barsize v2 sb h2 p2 c2 u)
       \<and> same_world (snd (get_ib_ticks cfg symbol duration barsize v1 sb h1 p1 c1 w))
                    (snd (get_ib_ticks cfg symbol duration barsize v2 sb h2 p2 c2 u))"
  using same_get_ib_ticks_try[OF assms(1), of symbol duration barsize v1 sb
      "resolve_host cfg h2" "resolve_port cfg p2" "resolve_client_id cfg c2" v2]
  by (simp add: get_ib_ticks_def Let_def assms(2-4) split_beta disconnect_def same_world_def emit_def)

lemma same_ticks_timeframes:
  assumes "resolve_host cfg h1 = resolve_host cfg h2"
    and "resolve_port cfg p1 = resolve_port cfg p2"
    and "resolve_client_id cfg c1 = resolve_client_id cfg c2"
  shows "same_world w u \<Longrightarrow>
     fst (ticks_timeframes cfg symbol timeframes v1 sb h1 p1 c1 all_dfs w)
       = fst (ticks_timeframes cfg symbol timeframes v2 sb h2 p2 c2 all_dfs u)
     \<and> same_world (snd (ticks_timeframes cfg symbol timeframes v1 sb h1 p1 c1 all_dfs w))
                  (snd (ticks_timeframes cfg symbol timeframes v2 sb h2 p2 c2 all_dfs u))"
proof (induction timeframes arbitrary: all_dfs w u)
  case Nil
  then show ?case by simp
next
  case (Cons tf timeframes)
  obtain duration barsize where tf: "tf = (duration, barsize)" by (cases tf)
  let ?w1 = "emit (say (v1 \<ge> 1)
                 [Line ''Processing {symbol} - {barsize} ({duration})''
                    [AStr symbol, AStr barsize, AStr duration]]) w"
  let ?u1 = "emit (say (v2 \<ge> 1)
                 [Line ''Processing {symbol} - {barsize} ({duration})''
                    [AStr symbol, AStr barsize, AStr duration]]) u"
  from Cons.prems have s1: "same_world ?w1 ?u1" by (simp add: same_world_emit)
  obtain r1 w2 where g1: "get_ib_ticks cfg symbol duration barsize v1 sb h1 p1 c1 ?w1 = (r1, w2)"
    by (cases "get_ib_ticks cfg symbol duration barsize v1 sb h1 p1 c1 ?w1")
  obtain r2 u2 where g2: "get_ib_ticks cfg symbol duration barsize v2 sb h2 p2 c2 ?u1 = (r2, u2)"
    by (cases "get_ib_ticks cfg symbol duration barsize v2 sb h2 p2 c2 ?u1")
  from same_get_ib_ticks[OF s1 assms, where symbol = symbol and duration = duration
      and barsize = barsize and ?v1.0 = v1 and sb = sb and ?v2.0 = v2] g1 g2
  have e: "r1 = r2" and s2: "same_world w2 u2" by simp_all
  show ?case
  proof (cases r2)
    case None
    with e g1 g2 Cons.IH[OF s2, where all_dfs = all_dfs] show ?thesis by (simp add: tf Let_def)
  next
    case (Some df)
    have "same_world (emit ls w2) (emit ms u2)" for ls ms
      using s2 by (simp add: same_world_emit)
    from Cons.IH[OF this, where all_dfs = "all_dfs @ [df]"] Some e g1 g2 show ?thesis
      by (simp add: tf Let_def)
  qed
qed

lemma same_ticks_symbols:
  assumes "resolve_host cfg h1 = resolve_host cfg h2"
    and "resolve_port cfg p1 = resolve_port cfg p2"
    and "resolve_client_id cfg c1 = resolve_client_id cfg c2"
  shows "same_world w u \<Longrightarrow>
     fst (ticks_symbols cfg symbols timeframes v1 sb h1 p1 c1 all_dfs w)
       = fst (ticks_symbols cfg symbols timeframes v2 sb h2 p2 c2 all_dfs u)
     \<and> same_world (snd (ticks_symbols cfg symbols timeframes v1 sb h1 p1 c1 all_dfs w))
                  (snd (ticks_symbols cfg symbols timeframes v2 sb h2 p2 c2 all_dfs u))"
proof (induction symbols arbitrary: all_dfs w u)
  case Nil
  then show ?case by simp
next
  case (Cons symbol symbols)
  obtain d1 w1 where t1: "ticks_timeframes cfg symbol timeframes v1 sb h1 p1 c1 all_dfs w = (d1, w1)"
    by (cases "ticks_timeframes cfg symbol timeframes v1 sb h1 p1 c1 all_dfs w")
  obtain d2 u1 where t2: "ticks_timeframes cfg symbol timeframes v2 sb h2 p2 c2 all_dfs u = (d2, u1)"
    by (cases "ticks_timeframes cfg symbol timeframes v2 sb h2 p2 c2 all_dfs u")
  from same_ticks_timeframes[OF assms Cons.prems, where symbol = symbol
      and timeframes = timeframes and ?v1.0 = v1 and sb = sb and ?v2.0 = v2 and all_dfs = all_dfs] t1 t2
  have e: "d1 = d2" and s: "same_world w1 u1" by simp_all
  from Cons.IH[OF s, where all_dfs = d2] e t1 t2 show ?case by simp
qed

lemma same_get_ib_ticks_multiple_try:
  assumes "resolve_host cfg h1 = resolve_host cfg h2"
    and "resolve_port cfg p1 = resolve_port cfg p2"
    and "resolve_client_id cfg c1 = resolve_client_id cfg c2"
    and "same_world w u"
  shows "fst (get_ib_ticks_multiple_try cfg symbols timeframes v1 sb h1 p1 c1 w)
       = fst (get_ib_ticks_multiple_try cfg symbols timeframes v2 sb h2 p2 c2 u)
     \<and> same_world (snd (get_ib_ticks_multiple_try cfg symbols timeframes v1 sb h1 p1 c1 w))
                  (snd (get_ib_ticks_multiple_try cfg symbols timeframes v2 sb h2 p2 c2 u))"
proof -
  obtain d1 w1 where t1: "ticks_symbols cfg symbols timeframes v1 sb h1 p1 c1 [] w = (d1, w1)"
    by (cases "ticks_symbols cfg symbols timeframes v1 sb h1 p1 c1 [] w")
  obtain d2 u1 where t2: "ticks_symbols cfg symbols timeframes v2 sb h2 p2 c2 [] u = (d2, u1)"
    by (cases "ticks_symbols cfg symbols timeframes v2 sb h2 p2 c2 [] u")
  from same_ticks_symbols[OF assms, where symbols = symbols and timeframes = timeframes
      and ?v1.0 = v1 and sb = sb and ?v2.0 = v2 and all_dfs = "[]"] t1 t2
  have e: "d1 = d2" and s: "same_world w1 u1" by simp_all
  show ?thesis
    using s
    by (cases "bind_exn (pd_concat d2) (\<lambda>final_df. sort_values final_df ''Timestamp'')")
       (simp_all add: get_ib_ticks_multiple_try_def t1 t2 e same_world_emit)
qed

lemma import_config_fields:
  assumes "import_config env = Inr cfg"
  shows "IB_HOST cfg = getenv env ''IB_HOST'' (DEFAULT_CONFIG ''IB_HOST'')"
    and "py_int (getenv env ''IB_PORT'' (DEFAULT_CONFIG ''IB_PORT'')) = Inr (IB_PORT cfg)"
    and "py_int (getenv env ''IB_CLIENT_ID'' (DEFAULT_CONFIG ''IB_CLIENT_ID'')) = Inr (IB_CLIENT_ID cfg)"
  using assms
  by (auto simp: import_config_def bind_exn_def split: sum.splits)

lemma get_ib_ticks_multiple_quiet:
  assumes "vb < 1"
  shows "get_ib_ticks_multiple cfg env symbols timeframes vb sb host port client_id w
         = (case get_ib_ticks_multiple_try cfg symbols timeframes vb sb host port client_id w of
              (Inr result, w4) \<Rightarrow> (Inr result, w4)
            | (Inl e, w4) \<Rightarrow>
               (Inr None,
                emit (Line ''Error in multi-symbol retrieval: {e}'' [AExn e]
                      # say (vb \<ge> 2) [Line ''Stack trace: {sys.exc_info()}'' [AExn e]]) w4))"
  using assms by (simp add: get_ib_ticks_multiple_def)

lemma get_ib_ticks_multiple_loud:
  assumes "1 \<le> vb" and "import_config env = Inr cfg"
  shows "\<exists>h p c w3. get_ib_ticks_multiple cfg env symbols timeframes vb sb host port client_id w
         = (case get_ib_ticks_multiple_try cfg symbols timeframes vb sb h p c w3 of
              (Inr result, w4) \<Rightarrow> (Inr result, w4)
            | (Inl e, w4) \<Rightarrow>
               (Inr None,
                emit (Line ''Error in multi-symbol retrieval: {e}'' [AExn e]
                      # say (vb \<ge> 2) [Line ''Stack trace: {sys.exc_info()}'' [AExn e]]) w4))
           \<and> resolve_host cfg h = resolve_host cfg host
           \<and> resolve_port cfg p = resolve_port cfg port
           \<and> resolve_client_id cfg c = resolve_client_id cfg client_id
           \<and> same_world w3 w"
proof -
  note f = import_config_fields[OF assms(2)]
  let ?h = "if host = None then Some (getenv env ''IB_HOST'' (DEFAULT_CONFIG ''IB_HOST'')) else host"
  let ?p = "if port = None then Some (IB_PORT cfg) else port"
  let ?c = "if client_id = None then Some (IB_CLIENT_ID cfg) else client_id"
  let ?w1 = "if host = None then emit [Line ''Host: {host}''
                 [AStr (getenv env ''IB_HOST'' (DEFAULT_CONFIG ''IB_HOST''))]] w else w"
  let ?w2 = "if port = None then emit [Line ''Port: {port}'' [AInt (IB_PORT cfg)]] ?w1 else ?w1"
  let ?w3 = "if client_id = None then emit [Line ''Client ID: {client_id}''
                 [AInt (IB_CLIENT_ID cfg)]] ?w2 else ?w2"
  have "get_ib_ticks_multiple cfg env symbols timeframes vb sb host port client_id w
         = (case get_ib_ticks_multiple_try cfg symbols timeframes vb sb ?h ?p ?c ?w3 of
              (Inr result, w4) \<Rightarrow> (Inr result, w4)
            | (Inl e, w4) \<Rightarrow>
               (Inr None,
                emit (Line ''Error in multi-symbol retrieval: {e}'' [AExn e]
                      # say (vb \<ge> 2) [Line ''Stack trace: {sys.exc_info()}'' [AExn e]]) w4))"
    using assms(1) by (simp add: get_ib_ticks_multiple_def f(2,3) Let_def)
  moreover have "resolve_host cfg ?h = resolve_host cfg host"
    by (simp add: resolve_host_def f(1))
  moreover have "resolve_port cfg ?p = resolve_port cfg port"
    by (simp add: resolve_port_def)
  moreover have "resolve_client_id cfg ?c = resolve_client_id cfg client_id"
    by (simp add: resolve_client_id_def)
  moreover have "same_world ?w3 w"
    by (simp add: same_world_emit_left same_world_refl)
  ultimately show ?thesis by blast
qed

lemma wrapped_try:
  "fst (case X of (Inr result, w4) \<Rightarrow> (Inr result, w4)
               | (Inl e, w4) \<Rightarrow> (Inr None, emit (ls e) w4))
     = (case fst X of Inr result \<Rightarrow> Inr result | Inl e \<Rightarrow> Inr None)"
  "same_world (snd (case X of (Inr result, w4) \<Rightarrow> (Inr result, w4)
               | (Inl e, w4) \<Rightarrow> (Inr None, emit (ls e) w4))) u = same_world (snd X) u"
  "same_world u (snd (case X of (Inr result, w4) \<Rightarrow> (Inr result, w4)
               | (Inl e, w4) \<Rightarrow> (Inr None, emit (ls e) w4))) = same_world u (snd X)"
  "calls (snd (case X of (Inr result, w4) \<Rightarrow> (Inr result, w4)
               | (Inl e, w4) \<Rightarrow> (Inr None, emit (ls e) w4))) = calls (snd X)"
  by (cases X; cases "fst X"; simp add: same_world_emit_left same_world_emit_right calls_emit)+

lemma get_ib_ticks_multiple_resolved:
  assumes "import_config env = Inr cfg"
  shows "\<exists>h p c w3. fst (get_ib_ticks_multiple cfg env symbols timeframes vb sb host port client_id w)
           = (case fst (get_ib_ticks_multiple_try cfg symbols timeframes vb sb h p c w3) of
                Inr result \<Rightarrow> Inr result | Inl e \<Rightarrow> Inr None)
         \<and> (\<forall>u. same_world (snd (get_ib_ticks_multiple cfg env symbols timeframes vb sb host port
                                client_id w)) u
                = same_world (snd (get_ib_ticks_multiple_try cfg symbols timeframes vb sb h p c w3)) u)
         \<and> resolve_host cfg h = resolve_host cfg host
         \<and> resolve_port cfg p = resolve_port cfg port
         \<and> resolve_client_id cfg c = resolve_client_id cfg client_id
         \<and> same_world w3 w"
proof (cases "1 \<le> vb")
  case True
  from get_ib_ticks_multiple_loud[OF True assms, of symbols timeframes sb host port client_id w]
  obtain h p c w3 where
    g: "get_ib_ticks_multiple cfg env symbols timeframes vb sb host port client_id w
         = (case get_ib_ticks_multiple_try cfg symbols timeframes vb sb h p c w3 of
              (Inr result, w4) \<Rightarrow> (Inr result, w4)
            | (Inl e, w4) \<Rightarrow>
               (Inr None,
                emit (Line ''Error in multi-symbol retrieval: {e}'' [AExn e]
                      # say (vb \<ge> 2) [Line ''Stack trace: {sys.exc_info()}'' [AExn e]]) w4))"
    and r: "resolve_host cfg h = resolve_host cfg host" "resolve_port cfg p = resolve_port cfg port"
      "resolve_client_id cfg c = resolve_client_id cfg client_id" "same_world w3 w"
    by blast
  show ?thesis
    by (intro exI[of _ h] exI[of _ p] exI[of _ c] exI[of _ w3])
       (simp only: g wrapped_try r simp_thms)
next
  case False
  then have q: "vb < 1" by simp
  show ?thesis
    by (intro exI[of _ host] exI[of _ port] exI[of _ client_id] exI[of _ w])
       (simp only: get_ib_ticks_multiple_quiet[OF q] wrapped_try same_world_refl simp_thms)
qed

lemma same_world_sym: "same_world w u \<Longrightarrow> same_world u w"
  by (simp add: same_world_def)

lemma same_world_trans: "same_world w u \<Longrightarrow> same_world u x \<Longrightarrow> same_world w x"
  by (simp add: same_world_def)

lemma import_config_empty: "import_config Map.empty = Inr example_config"
  by (simp add: import_config_def getenv_def DEFAULT_CONFIG_def example_config_def bind_exn_def
      py_int_def strip_def isspace_def isdigit_def digit_val_def)

lemma connects_get_ib_ticks_multiple_try:
  "filter is_connect (calls (snd (get_ib_ticks_multiple_try cfg symbols timeframes vb sb host port client_id w)))
   = filter is_connect (calls w)
     @ replicate (length symbols * length timeframes)
         (Connect (resolve_host cfg host) (resolve_port cfg port) (resolve_client_id cfg client_id))"
proof -
  from calls_get_ib_ticks_multiple_try[of cfg symbols timeframes vb sb host port client_id w]
  obtain sessions where s:
    "calls (snd (get_ib_ticks_multiple_try cfg symbols timeframes vb sb host port client_id w))
        = calls w @ concat sessions"
    "list_all2 (is_session (resolve_host cfg host) (resolve_port cfg port)
                    (resolve_client_id cfg client_id))
          (List.product symbols timeframes) sessions" by blast
  from connects_of_sessions[OF s(2)] s(1) show ?thesis
    by (simp add: length_product)
qed

subsection \<open>The sessions of a run\<close>

lemma calls_get_ib_ticks_exact:
  "calls (snd (get_ib_ticks cfg symbol duration barsize vb sb host port client_id w))
   = calls w @ session_calls (resolve_host cfg host) (resolve_port cfg port)
                 (resolve_client_id cfg client_id) symbol duration barsize
                 (connected (fst (open_connection symbol duration barsize vb sb
                    (resolve_host cfg host) (resolve_port cfg port)
                    (resolve_client_id cfg client_id) w)))"
proof -
  let ?h = "resolve_host cfg host" and ?p = "resolve_port cfg port"
    and ?c = "resolve_client_id cfg client_id"
  obtain app2 w5 where oc: "open_connection symbol duration barsize vb sb ?h ?p ?c w = (app2, w5)"
    by (cases "open_connection symbol duration barsize vb sb ?h ?p ?c w")
  with calls_open_connection[of symbol duration barsize vb sb ?h ?p ?c w]
  have c5: "calls w5 = calls w @ [Connect ?h ?p ?c, Run]" by simp
  have t: "calls (snd (snd (get_ib_ticks_try symbol duration barsize vb sb ?h ?p ?c w)))
           = calls w @ [Connect ?h ?p ?c, Run]
             @ (if connected app2
                then [ReqHistoricalData 1 (stock_contract symbol) duration barsize] else [])"
    by (cases "connected app2")
       (simp_all add: get_ib_ticks_try_def oc calls_emit c5 calls_retrieve_and_format)
  show ?thesis
    by (simp add: get_ib_ticks_def Let_def split_beta disconnect_def calls_emit t
        session_calls_def oc)
qed

lemma connected_open_connection_same:
  assumes "same_world w u"
  shows "connected (fst (open_connection symbol duration barsize vb sb host port client_id w))
       = connected (fst (open_connection symbol duration barsize vb sb host port client_id u))"
  using same_open_connection[OF assms, of symbol duration barsize vb sb host port client_id vb]
  by (simp add: same_app_def)

lemma session_list_same:
  assumes "resolve_host cfg h1 = resolve_host cfg h2"
    and "resolve_port cfg p1 = resolve_port cfg p2"
    and "resolve_client_id cfg c1 = resolve_client_id cfg c2"
    and "same_world w u"
  shows "session_list cfg vb sb h1 p1 c1 pairs w = session_list cfg vb sb h2 p2 c2 pairs u"
  using assms(4)
proof (induction pairs arbitrary: w u)
  case Nil
  show ?case by simp
next
  case (Cons pr pairs)
  obtain symbol duration barsize where pr: "pr = (symbol, duration, barsize)" by (cases pr)
  note g = same_get_ib_ticks[OF Cons.prems assms(1-3), where symbol = symbol
      and duration = duration and barsize = barsize and ?v1.0 = vb and sb = sb and ?v2.0 = vb]
  from g have s: "same_world (snd (get_ib_ticks cfg symbol duration barsize vb sb h1 p1 c1 w))
                    (snd (get_ib_ticks cfg symbol duration barsize vb sb h2 p2 c2 u))" by simp
  show ?case
    using Cons.IH[OF s]
      connected_open_connection_same[OF Cons.prems, of symbol duration barsize vb sb
        "resolve_host cfg h2" "resolve_port cfg p2" "resolve_client_id cfg c2"]
    by (simp add: pr assms(1-3))
qed

lemma world_after_same:
  assumes "same_world w u"
  shows "same_world (world_after cfg vb sb host port client_id pairs w)
           (world_after cfg vb sb host port client_id pairs u)"
  using assms
proof (induction pairs arbitrary: w u)
  case Nil
  then show ?case by simp
next
  case (Cons pr pairs)
  obtain symbol duration barsize where pr: "pr = (symbol, duration, barsize)" by (cases pr)
  note g = same_get_ib_ticks[OF Cons.prems refl refl refl, where cfg = cfg and symbol = symbol
      and duration = duration and barsize = barsize and ?v1.0 = vb and sb = sb and ?v2.0 = vb
      and ?h1.0 = host and ?p1.0 = port and ?c1.0 = client_id]
  from g have s: "same_world (snd (get_ib_ticks cfg symbol duration barsize vb sb host port client_id w))
                    (snd (get_ib_ticks cfg symbol duration barsize vb sb host port client_id u))"
    by simp
  show ?case using Cons.IH[OF s] by (simp add: pr)
qed

lemma session_list_append:
  "session_list cfg vb sb host port client_id (xs @ ys) w
   = session_list cfg vb sb host port client_id xs w
     @ session_list cfg vb sb host port client_id ys
         (world_after cfg vb sb host port client_id xs w)"
proof (induction xs arbitrary: w)
  case Nil
  show ?case by simp
next
  case (Cons pr xs)
  obtain symbol duration barsize where pr: "pr = (symbol, duration, barsize)" by (cases pr)
  show ?case by (simp add: pr Cons.IH)
qed

lemma world_after_append:
  "world_after cfg vb sb host port client_id (xs @ ys) w
   = world_after cfg vb sb host port client_id ys (world_after cfg vb sb host port client_id xs w)"
proof (induction xs arbitrary: w)
  case Nil
  show ?case by simp
next
  case (Cons pr xs)
  obtain symbol duration barsize where pr: "pr = (symbol, duration, barsize)" by (cases pr)
  show ?case by (simp add: pr Cons.IH)
qed

lemma length_session_list:
  "length (session_list cfg vb sb host port client_id pairs w) = length pairs"
proof (induction pairs arbitrary: w)
  case Nil
  show ?case by simp
next
  case (Cons pr pairs)
  obtain symbol duration barsize where pr: "pr = (symbol, duration, barsize)" by (cases pr)
  show ?case by (simp add: pr Cons.IH)
qed

lemma connects_session_list:
  "filter is_connect (concat (session_list cfg vb sb host port client_id pairs w))
   = replicate (length pairs)
       (Connect (resolve_host cfg host) (resolve_port cfg port) (resolve_client_id cfg client_id))"
proof (induction pairs arbitrary: w)
  case Nil
  show ?case by simp
next
  case (Cons pr pairs)
  obtain symbol duration barsize where pr: "pr = (symbol, duration, barsize)" by (cases pr)
  show ?case by (simp add: pr Cons.IH session_calls_def)
qed

lemma ticks_timeframes_sessions:
  assumes "same_world w u"
  shows "calls (snd (ticks_timeframes cfg symbol timeframes vb sb host port client_id all_dfs w))
         = calls w @ concat (session_list cfg vb sb host port client_id (map (Pair symbol) timeframes) u)
       \<and> same_world (snd (ticks_timeframes cfg symbol timeframes vb sb host port client_id all_dfs w))
           (world_after cfg vb sb host port client_id (map (Pair symbol) timeframes) u)"
  using assms
proof (induction timeframes arbitrary: all_dfs w u)
  case Nil
  then show ?case by simp
next
  case (Cons tf timeframes)
  obtain duration barsize where tf: "tf = (duration, barsize)" by (cases tf)
  let ?w1 = "emit (say (vb \<ge> 1)
                 [Line ''Processing {symbol} - {barsize} ({duration})''
                    [AStr symbol, AStr barsize, AStr duration]]) w"
  let ?u2 = "snd (get_ib_ticks cfg symbol duration barsize vb sb host port client_id u)"
  let ?s = "session_calls (resolve_host cfg host) (resolve_port cfg port)
              (resolve_client_id cfg client_id) symbol duration barsize
              (connected (fst (open_connection symbol duration barsize vb sb (resolve_host cfg host)
                          (resolve_port cfg port) (resolve_client_id cfg client_id) u)))"
  obtain r w2 where g: "get_ib_ticks cfg symbol duration barsize vb sb host port client_id ?w1 = (r, w2)"
    by (cases "get_ib_ticks cfg symbol duration barsize vb sb host port client_id ?w1")
  have s1: "same_world ?w1 u" using Cons.prems by (simp add: same_world_emit_left)
  have c2: "calls w2 = calls w @ ?s"
    using calls_get_ib_ticks_exact[of cfg symbol duration barsize vb sb host port client_id ?w1] g
      connected_open_connection_same[OF s1, of symbol duration barsize vb sb
        "resolve_host cfg host" "resolve_port cfg port" "resolve_client_id cfg client_id"]
    by (simp add: calls_emit)
  have s2: "same_world w2 ?u2"
    using same_get_ib_ticks[OF s1 refl refl refl, where cfg = cfg and symbol = symbol
      and duration = duration and barsize = barsize and ?v1.0 = vb and sb = sb and ?v2.0 = vb
      and ?h1.0 = host and ?p1.0 = port and ?c1.0 = client_id] g
    by simp
  show ?case
  proof (cases r)
    case None
    from Cons.IH[OF s2, of all_dfs] None g c2 show ?thesis
      by (simp add: tf Let_def)
  next
    case (Some df)
    let ?w3 = "emit (say (vb \<ge> 1)
                  [Line ''Added {key} to results: {len(df)} bars''
                     [AStr (symbol @ ''_'' @ barsize), AInt (int (length (rows df)))]]) w2"
    have s3: "same_world ?w3 ?u2" using s2 by (simp add: same_world_emit_left)
    from Cons.IH[OF s3, of "all_dfs @ [df]"] Some g c2 show ?thesis
      by (simp add: tf Let_def calls_emit)
  qed
qed

lemma ticks_symbols_sessions:
  assumes "same_world w u"
  shows "calls (snd (ticks_symbols cfg symbols timeframes vb sb host port client_id all_dfs w))
         = calls w @ concat (session_list cfg vb sb host port client_id
                               (List.product symbols timeframes) u)"
  using assms
proof (induction symbols arbitrary: all_dfs w u)
  case Nil
  show ?case by simp
next
  case (Cons symbol symbols)
  obtain dfs' w' where t: "ticks_timeframes cfg symbol timeframes vb sb host port client_id all_dfs w = (dfs', w')"
    by (cases "ticks_timeframes cfg symbol timeframes vb sb host port client_id all_dfs w")
  from ticks_timeframes_sessions[OF Cons.prems, of cfg symbol timeframes vb sb host port client_id
      all_dfs] t
  have c: "calls w' = calls w @ concat (session_list cfg vb sb host port client_id
                                            (map (Pair symbol) timeframes) u)"
    and s: "same_world w' (world_after cfg vb sb host port client_id (map (Pair symbol) timeframes) u)"
    by simp_all
  from Cons.IH[OF s, of dfs'] c t show ?case
    by (simp add: session_list_append)
qed

lemma get_ib_ticks_multiple_try_sessions:
  "calls (snd (get_ib_ticks_multiple_try cfg symbols timeframes vb sb host port client_id w))
   = calls w @ concat (session_list cfg vb sb host port client_id
                         (List.product symbols timeframes) w)"
  using ticks_symbols_sessions[OF same_world_refl, of cfg symbols timeframes vb sb host port
      client_id "[]" w]
  by (simp add: get_ib_ticks_multiple_try_def split_beta calls_emit split: sum.splits)

lemma get_ib_ticks_multiple_sessions:
  assumes "import_config env = Inr cfg"
  shows "calls (snd (get_ib_ticks_multiple cfg env symbols timeframes vb sb host port client_id w))
         = calls w @ concat (session_list cfg vb sb host port client_id
                               (List.product symbols timeframes) w)"
proof -
  from get_ib_ticks_multiple_resolved[OF assms, of symbols timeframes vb sb host port client_id w]
  obtain h p c w3 where a:
    "\<And>u. same_world (snd (get_ib_ticks_multiple cfg env symbols timeframes vb sb host port
                                client_id w)) u
                = same_world (snd (get_ib_ticks_multiple_try cfg symbols timeframes vb sb h p c w3)) u"
    "resolve_host cfg h = resolve_host cfg host"
    "resolve_port cfg p = resolve_port cfg port"
    "resolve_client_id cfg c = resolve_client_id cfg client_id"
    "same_world w3 w" by blast
  have "same_world (snd (get_ib_ticks_multiple cfg env symbols timeframes vb sb host port
                                client_id w))
          (snd (get_ib_ticks_multiple_try cfg symbols timeframes vb sb h p c w3))"
    by (simp add: a(1) same_world_refl)
  then have e: "calls (snd (get_ib_ticks_multiple cfg env symbols timeframes vb sb host port
                                client_id w))
          = calls (snd (get_ib_ticks_multiple_try cfg symbols timeframes vb sb h p c w3))"
    by (simp add: same_world_def)
  have w3: "calls w3 = calls w" using a(5) by (simp add: same_world_def)
  have sl: "session_list cfg vb sb h p c (List.product symbols timeframes) w3
            = session_list cfg vb sb host port client_id (List.product symbols timeframes) w"
    by (rule session_list_same[OF a(2-5)])
  show ?thesis
    by (simp add: e get_ib_ticks_multiple_try_sessions w3 sl)
qed

lemma feeds_sleep: "feeds (snd (sleep d a w)) = feeds w"
  by (cases "deliver (takeWhile (\<lambda>tev. fst tev \<le> clock w + d) (inbox a))
               (a\<lparr>inbox := dropWhile (\<lambda>tev. fst tev \<le> clock w + d) (inbox a)\<rparr>)")
     (simp add: sleep_def Let_def)

lemma feeds_emit: "feeds (emit ls w) = feeds w"
  by (simp add: emit_def)

lemma feeds_wait_done: "feeds (snd (wait_done r st tmo a w)) = feeds w"
proof (induction r st tmo a w rule: wait_done.induct)
  case (1 r st tmo a w)
  show ?case
  proof (cases "\<not> done_get a r \<and> clock w - st < tmo")
    case True
    then have "wait_done r st tmo a w
               = wait_done r st tmo (fst (sleep 100 a w)) (snd (sleep 100 a w))"
      by (simp add: wait_done_step)
    moreover have "(fst (sleep 100 a w), snd (sleep 100 a w)) = sleep 100 a w" by simp
    ultimately show ?thesis
      using "1.IH"[OF True, of "fst (sleep 100 a w)" "snd (sleep 100 a w)"]
      by (simp add: feeds_sleep)
  next
    case False
    then show ?thesis by (simp add: wait_done_stop)
  qed
qed

lemma feeds_wait_connected: "feeds (snd (wait_connected st tmo a w)) = feeds w"
proof (induction st tmo a w rule: wait_connected.induct)
  case (1 st tmo a w)
  show ?case
  proof (cases "\<not> connected a \<and> clock w - st < tmo")
    case True
    then have "wait_connected st tmo a w
               = wait_connected st tmo (fst (sleep 100 a w)) (snd (sleep 100 a w))"
      by (simp add: wait_connected_step)
    moreover have "(fst (sleep 100 a w), snd (sleep 100 a w)) = sleep 100 a w" by simp
    ultimately show ?thesis
      using "1.IH"[OF True, of "fst (sleep 100 a w)" "snd (sleep 100 a w)"]
      by (simp add: feeds_sleep)
  next
    case False
    then show ?thesis by (simp add: wait_connected_stop)
  qed
qed

lemma feeds_await_request: "feeds (snd (await_request contract idx cfg app w)) = feeds w"
  by (cases cfg)
     (simp add: await_request_wait feeds_wait_done issue_request_def Let_def
        reqHistoricalData_def emit_def)

lemma feeds_retrieve_one:
  "feeds (snd (snd (retrieve_one contract idx cfg dataframes app w))) = feeds w"
proof -
  obtain duration bar_size where cfg: "cfg = (duration, bar_size)" by (cases cfg)
  obtain a2 w3 where aw: "await_request contract idx (duration, bar_size) app w = (a2, w3)"
    by (cases "await_request contract idx (duration, bar_size) app w")
  with feeds_await_request[of contract idx "(duration, bar_size)" app w]
  have c: "feeds w3 = feeds w" by simp
  show ?thesis
    unfolding cfg retrieve_one_def
    by (simp add: aw Let_def feeds_emit feeds_sleep c split_beta
          split: option.splits list.splits sum.splits)
qed

lemma feeds_get_historical_data:
  "feeds (snd (snd (get_historical_data symbol [(duration, barsize)] app w))) = feeds w"
  using feeds_retrieve_one[of "stock_contract symbol" 0 "(duration, barsize)" "[]" app w]
  by (simp add: get_historical_data_def Let_def feeds_emit split_beta split: sum.splits)

lemma feeds_open_connection:
  "feeds (snd (open_connection symbol duration barsize vb sb host port client_id w))
   = tl (feeds w)"
  by (simp add: open_connection_def Let_def split_beta feeds_wait_connected start_thread_def
      connect_def feeds_emit)

lemma feeds_retrieve_and_format:
  "feeds (snd (snd (retrieve_and_format symbol duration barsize vb app w))) = feeds w"
  using feeds_get_historical_data[of symbol duration barsize app w]
  by (simp add: retrieve_and_format_def Let_def split_beta feeds_emit
      split: option.splits list.splits)

lemma feeds_get_ib_ticks:
  "feeds (snd (get_ib_ticks cfg symbol duration barsize vb sb host port client_id w))
   = tl (feeds w)"
proof -
  let ?h = "resolve_host cfg host" and ?p = "resolve_port cfg port"
    and ?c = "resolve_client_id cfg client_id"
  obtain app2 w5 where oc: "open_connection symbol duration barsize vb sb ?h ?p ?c w = (app2, w5)"
    by (cases "open_connection symbol duration barsize vb sb ?h ?p ?c w")
  with feeds_open_connection[of symbol duration barsize vb sb ?h ?p ?c w]
  have c5: "feeds w5 = tl (feeds w)" by simp
  have t: "feeds (snd (snd (get_ib_ticks_try symbol duration barsize vb sb ?h ?p ?c w)))
           = tl (feeds w)"
    by (cases "connected app2")
       (simp_all add: get_ib_ticks_try_def oc feeds_emit c5 feeds_retrieve_and_format)
  show ?thesis
    by (simp add: get_ib_ticks_def Let_def split_beta disconnect_def feeds_emit t)
qed

lemma sleep_idle: "inbox a = [] \<Longrightarrow> fst (sleep d a w) = a"
  by (simp add: sleep_def Let_def)

lemma wait_connected_idle:
  "inbox a = [] \<Longrightarrow> \<not> connected a \<Longrightarrow> \<not> connected (fst (wait_connected st tmo a w))"
proof (induction st tmo a w rule: wait_connected.induct)
  case (1 st tmo a w)
  show ?case
  proof (cases "\<not> connected a \<and> clock w - st < tmo")
    case True
    then have "wait_connected st tmo a w
               = wait_connected st tmo (fst (sleep 100 a w)) (snd (sleep 100 a w))"
      by (simp add: wait_connected_step)
    moreover have "(fst (sleep 100 a w), snd (sleep 100 a w)) = sleep 100 a w" by simp
    ultimately show ?thesis
      using "1.IH"[OF True, of "fst (sleep 100 a w)" "snd (sleep 100 a w)"] "1.prems"
      by (simp add: sleep_idle)
  next
    case False
    with "1.prems" show ?thesis by (simp add: wait_connected_stop)
  qed
qed

lemma no_feed_no_connection:
  assumes "feeds w = [] \<or> hd (feeds w) = []"
  shows "\<not> connected (fst (open_connection symbol duration barsize vb sb host port client_id w))"
proof -
  have i: "inbox (fst (connect host port client_id (fst (MarketDataApp_init vb sb)) w')) = []"
    if "feeds w' = feeds w" for w'
    using assms that by (cases "feeds w") (auto simp: connect_def)
  have c: "\<not> connected (fst (connect host port client_id (fst (MarketDataApp_init vb sb)) w'))" for w'
    by (simp add: connect_def MarketDataApp_init_def)
  show ?thesis
    unfolding open_connection_unfold Let_def
    by (rule wait_connected_idle[OF i c]) (simp add: feeds_emit)
qed

lemma example_gateway_connects:
  "connected (fst (open_connection ''SPY'' ''1 M'' ''1 day'' 1 False ''127.0.0.1'' 4001 123
                     example_gateway))"
  by (simp add: open_connection_def example_gateway_def MarketDataApp_init_def connect_def
      start_thread_def emit_def say_def Let_def wait_connected_step wait_connected_stop
      sleep_def connectAck_def nextValidId_def)

subsection \<open>The claims on the orchestrator\<close>

text \<open>
  C8, as amended. Two runs from the same world (the same clock, the same gateway event
  streams, the same calls made so far) that differ in the verbosity level only return
  the same value and leave worlds that differ in the console only: they make the same
  calls to the gateway client, with the same connection parameters, at the same times.
  For \<open>get_ib_ticks\<close> this holds of any two levels and any parameters. For
  \<open>get_ib_ticks_multiple\<close> it holds when the module's constants are those read from the
  environment of the call: at a level below 1 an unspecified parameter is the constant
  read when the module was imported, and from level 1 on it is read again from the
  environment at the call.
\<close>

theorem verbosity_console_only:
  "(fst (get_ib_ticks cfg symbol duration barsize v1 sb host port client_id w)
      = fst (get_ib_ticks cfg symbol duration barsize v2 sb host port client_id w)
    \<and> same_world (snd (get_ib_ticks cfg symbol duration barsize v1 sb host port client_id w))
                 (snd (get_ib_ticks cfg symbol duration barsize v2 sb host port client_id w)))
   \<and> (import_config env = Inr cfg \<longrightarrow>
        fst (get_ib_ticks_multiple cfg env symbols timeframes v1 sb host port client_id w)
          = fst (get_ib_ticks_multiple cfg env symbols timeframes v2 sb host port client_id w)
        \<and> same_world
            (snd (get_ib_ticks_multiple cfg env symbols timeframes v1 sb host port client_id w))
            (snd (get_ib_ticks_multiple cfg env symbols timeframes v2 sb host port client_id w)))"
proof (intro conjI impI)
  show "fst (get_ib_ticks cfg symbol duration barsize v1 sb host port client_id w)
      = fst (get_ib_ticks cfg symbol duration barsize v2 sb host port client_id w)"
    and "same_world (snd (get_ib_ticks cfg symbol duration barsize v1 sb host port client_id w))
                 (snd (get_ib_ticks cfg symbol duration barsize v2 sb host port client_id w))"
    using same_get_ib_ticks[where w = w and u = w and cfg = cfg
        and symbol = symbol and duration = duration and barsize = barsize and ?v1.0 = v1
        and sb = sb and ?v2.0 = v2 and ?h1.0 = host and ?p1.0 = port and ?c1.0 = client_id
        and ?h2.0 = host and ?p2.0 = port and ?c2.0 = client_id,
        OF same_world_refl refl refl refl]
    by simp_all
next
  assume imp: "import_config env = Inr cfg"
  from get_ib_ticks_multiple_resolved[OF imp, of symbols timeframes v1 sb host port client_id w]
  obtain h1 p1 c1 w1 where a:
    "fst (get_ib_ticks_multiple cfg env symbols timeframes v1 sb host port client_id w)
           = (case fst (get_ib_ticks_multiple_try cfg symbols timeframes v1 sb h1 p1 c1 w1) of
                Inr result \<Rightarrow> Inr result | Inl e \<Rightarrow> Inr None)"
    "\<And>u. same_world (snd (get_ib_ticks_multiple cfg env symbols timeframes v1 sb host port
                                client_id w)) u
                = same_world (snd (get_ib_ticks_multiple_try cfg symbols timeframes v1 sb h1 p1 c1 w1)) u"
    "resolve_host cfg h1 = resolve_host cfg host"
    "resolve_port cfg p1 = resolve_port cfg port"
    "resolve_client_id cfg c1 = resolve_client_id cfg client_id"
    "same_world w1 w" by blast
  from get_ib_ticks_multiple_resolved[OF imp, of symbols timeframes v2 sb host port client_id w]
  obtain h2 p2 c2 w2 where b:
    "fst (get_ib_ticks_multiple cfg env symbols timeframes v2 sb host port client_id w)
           = (case fst (get_ib_ticks_multiple_try cfg symbols timeframes v2 sb h2 p2 c2 w2) of
                Inr result \<Rightarrow> Inr result | Inl e \<Rightarrow> Inr None)"
    "\<And>u. same_world (snd (get_ib_ticks_multiple cfg env symbols timeframes v2 sb host port
                                client_id w)) u
                = same_world (snd (get_ib_ticks_multiple_try cfg symbols timeframes v2 sb h2 p2 c2 w2)) u"
    "resolve_host cfg h2 = resolve_host cfg host"
    "resolve_port cfg p2 = resolve_port cfg port"
    "resolve_client_id cfg c2 = resolve_client_id cfg client_id"
    "same_world w2 w" by blast
  have rs: "resolve_host cfg h1 = resolve_host cfg h2" "resolve_port cfg p1 = resolve_port cfg p2"
    "resolve_client_id cfg c1 = resolve_client_id cfg c2"
    using a(3-5) b(3-5) by simp_all
  have ws: "same_world w1 w2"
    using a(6) b(6) same_world_sym same_world_trans by blast
  note t = same_get_ib_ticks_multiple_try[OF rs ws, where symbols = symbols
      and timeframes = timeframes and ?v1.0 = v1 and sb = sb and ?v2.0 = v2]
  from t show "fst (get_ib_ticks_multiple cfg env symbols timeframes v1 sb host port client_id w)
          = fst (get_ib_ticks_multiple cfg env symbols timeframes v2 sb host port client_id w)"
    by (simp add: a(1) b(1))
  have "same_world (snd (get_ib_ticks_multiple_try cfg symbols timeframes v1 sb h1 p1 c1 w1))
          (snd (get_ib_ticks_multiple cfg env symbols timeframes v2 sb host port client_id w))"
    using t b(2) same_world_sym by blast
  then show "same_world
            (snd (get_ib_ticks_multiple cfg env symbols timeframes v1 sb host port client_id w))
            (snd (get_ib_ticks_multiple cfg env symbols timeframes v2 sb host port client_id w))"
    by (simp add: a(2))
qed

theorem verbosity_console_only_witness:
  "import_config Map.empty = Inr example_config
   \<and> fst (get_ib_ticks_multiple example_config Map.empty [''SPY'', ''QQQ''] [(''1 M'', ''1 day'')]
          0 False None None None example_world)
     = fst (get_ib_ticks_multiple example_config Map.empty [''SPY'', ''QQQ''] [(''1 M'', ''1 day'')]
          2 False None None None example_world)
   \<and> same_world
       (snd (get_ib_ticks_multiple example_config Map.empty [''SPY'', ''QQQ''] [(''1 M'', ''1 day'')]
          0 False None None None example_world))
       (snd (get_ib_ticks_multiple example_config Map.empty [''SPY'', ''QQQ''] [(''1 M'', ''1 day'')]
          2 False None None None example_world))"
  using verbosity_console_only[of example_config "''SPY''" "''1 M''" "''1 day''" 0 False None None
      None example_world 2 Map.empty "[''SPY'', ''QQQ'']" "[(''1 M'', ''1 day'')]"]
    import_config_empty
  by simp

text \<open>
  The claim C8 fails when the environment of the call is not the one the module was
  imported in: with the constants of an import under no variable and \<open>IB_PORT\<close> set to
  4002 at the call, the run at level 0 connects to port 4001 and the run at level 1 to
  port 4002.
\<close>

theorem verbosity_changes_port:
  "import_config Map.empty = Inr example_config
   \<and> filter is_connect (calls (snd (get_ib_ticks_multiple example_config [''IB_PORT'' \<mapsto> ''4002'']
        [''SPY''] [(''1 M'', ''1 day'')] 0 False None None None example_world)))
     = [Connect ''127.0.0.1'' 4001 123]
   \<and> filter is_connect (calls (snd (get_ib_ticks_multiple example_config [''IB_PORT'' \<mapsto> ''4002'']
        [''SPY''] [(''1 M'', ''1 day'')] 1 False None None None example_world)))
     = [Connect ''127.0.0.1'' 4002 123]"
proof -
  have q: "filter is_connect (calls (snd (get_ib_ticks_multiple example_config [''IB_PORT'' \<mapsto> ''4002'']
        [''SPY''] [(''1 M'', ''1 day'')] 0 False None None None example_world)))
     = [Connect ''127.0.0.1'' 4001 123]"
    by (simp add: get_ib_ticks_multiple_def wrapped_try connects_get_ib_ticks_multiple_try
        example_world_def example_config_def resolve_host_def resolve_port_def
        resolve_client_id_def)
  have l: "filter is_connect (calls (snd (get_ib_ticks_multiple example_config [''IB_PORT'' \<mapsto> ''4002'']
        [''SPY''] [(''1 M'', ''1 day'')] 1 False None None None example_world)))
     = [Connect ''127.0.0.1'' 4002 123]"
    by (simp add: get_ib_ticks_multiple_def wrapped_try connects_get_ib_ticks_multiple_try
        example_world_def example_config_def resolve_host_def resolve_port_def
        resolve_client_id_def getenv_def DEFAULT_CONFIG_def calls_emit Let_def
        py_int_def strip_def isspace_def isdigit_def digit_val_def)
  from import_config_empty q l show ?thesis by simp
qed

text \<open>
  C9, as amended. One call of \<open>get_ib_ticks\<close> is one session: it opens a connection of
  its own, starts its thread, sends the one request of its pair of a symbol and a
  (duration, barSize) configuration exactly when that connection came up, and
  disconnects. A run of \<open>get_ib_ticks_multiple\<close> is the sequence of these sessions, one
  for each pair, in the order of the two nested loops, each starting from the world the
  one before has left, so that a connection is closed before the next one is opened; the
  number of sessions, and of connections opened, is the number of symbols times the
  number of configurations. This holds of the body of the function for any parameters,
  and of the function itself when the module's constants are those read from the
  environment of the call.
\<close>

theorem one_connection_per_request:
  "calls (snd (get_ib_ticks cfg symbol duration barsize vb sb host port client_id w))
     = calls w
       @ session_calls (resolve_host cfg host) (resolve_port cfg port)
           (resolve_client_id cfg client_id) symbol duration barsize
           (connected (fst (open_connection symbol duration barsize vb sb (resolve_host cfg host)
                              (resolve_port cfg port) (resolve_client_id cfg client_id) w)))
   \<and> calls (snd (get_ib_ticks_multiple_try cfg symbols timeframes vb sb host port client_id w))
       = calls w @ concat (session_list cfg vb sb host port client_id
                             (List.product symbols timeframes) w)
   \<and> length (session_list cfg vb sb host port client_id (List.product symbols timeframes) w)
       = length symbols * length timeframes
   \<and> filter is_connect
         (concat (session_list cfg vb sb host port client_id (List.product symbols timeframes) w))
       = replicate (length symbols * length timeframes)
           (Connect (resolve_host cfg host) (resolve_port cfg port)
              (resolve_client_id cfg client_id))
   \<and> (import_config env = Inr cfg \<longrightarrow>
        calls (snd (get_ib_ticks_multiple cfg env symbols timeframes vb sb host port client_id w))
          = calls w @ concat (session_list cfg vb sb host port client_id
                                (List.product symbols timeframes) w))"
  using calls_get_ib_ticks_exact[of cfg symbol duration barsize vb sb host port client_id w]
    get_ib_ticks_multiple_try_sessions[of cfg symbols timeframes vb sb host port client_id w]
    get_ib_ticks_multiple_sessions[of env cfg symbols timeframes vb sb host port client_id w]
  by (simp add: length_session_list connects_session_list length_product)

theorem one_connection_per_request_witness:
  "import_config Map.empty = Inr example_config
   \<and> calls (snd (get_ib_ticks_multiple example_config Map.empty [''SPY'', ''QQQ'']
                   [(''1 M'', ''1 day'')] 1 False None None None example_gateway))
     = [Connect ''127.0.0.1'' 4001 123, Run,
        ReqHistoricalData 1 (stock_contract ''SPY'') ''1 M'' ''1 day'', Disconnect,
        Connect ''127.0.0.1'' 4001 123, Run, Disconnect]"
proof -
  have r: "resolve_host example_config None = ''127.0.0.1''"
    "resolve_port example_config None = 4001"
    "resolve_client_id example_config None = 123"
    by (simp_all add: example_config_def resolve_host_def resolve_port_def resolve_client_id_def)
  have c: "calls example_gateway = []" by (simp add: example_gateway_def)
  have f: "feeds (snd (get_ib_ticks example_config ''SPY'' ''1 M'' ''1 day'' 1 False None None None
                         example_gateway)) = [[]]"
    by (simp add: feeds_get_ib_ticks example_gateway_def)
  have n: "\<not> connected (fst (open_connection ''QQQ'' ''1 M'' ''1 day'' 1 False ''127.0.0.1'' 4001 123
             (snd (get_ib_ticks example_config ''SPY'' ''1 M'' ''1 day'' 1 False None None None
                     example_gateway))))"
    by (rule no_feed_no_connection) (simp add: f)
  have s: "session_list example_config 1 False None None None
             (List.product [''SPY'', ''QQQ''] [(''1 M'', ''1 day'')]) example_gateway
           = [[Connect ''127.0.0.1'' 4001 123, Run,
               ReqHistoricalData 1 (stock_contract ''SPY'') ''1 M'' ''1 day'', Disconnect],
              [Connect ''127.0.0.1'' 4001 123, Run, Disconnect]]"
    by (simp add: r n example_gateway_connects session_calls_def)
  from one_connection_per_request[where cfg = example_config and env = Map.empty
      and symbols = "[''SPY'', ''QQQ'']" and timeframes = "[(''1 M'', ''1 day'')]" and vb = 1
      and sb = False and host = None and port = None and client_id = None
      and w = example_gateway and symbol = "''SPY''" and duration = "''1 M''"
      and barsize = "''1 day''"]
    import_config_empty
  show ?thesis
    by (simp add: c r n example_gateway_connects session_calls_def)
qed

text \<open>
  The claim C9 fails on one symbol with two configurations: the run opens a connection
  for the first configuration, sends its request and disconnects, and then opens a second
  connection for the same symbol, on which the gateway sends nothing, and disconnects.
\<close>

theorem two_connections_for_one_symbol:
  "calls (snd (get_ib_ticks_multiple example_config Map.empty [''SPY'']
                 [(''1 M'', ''1 day''), (''1 Y'', ''1 week'')] 0 False None None None
                 example_gateway))
   = [Connect ''127.0.0.1'' 4001 123, Run,
      ReqHistoricalData 1 (stock_contract ''SPY'') ''1 M'' ''1 day'', Disconnect,
      Connect ''127.0.0.1'' 4001 123, Run, Disconnect]"
proof -
  have r: "resolve_host example_config None = ''127.0.0.1''"
    "resolve_port example_config None = 4001"
    "resolve_client_id example_config None = 123"
    by (simp_all add: example_config_def resolve_host_def resolve_port_def resolve_client_id_def)
  have c: "calls example_gateway = []" by (simp add: example_gateway_def)
  have f: "feeds (snd (get_ib_ticks example_config ''SPY'' ''1 M'' ''1 day'' 0 False None None None
                         example_gateway)) = [[]]"
    by (simp add: feeds_get_ib_ticks example_gateway_def)
  have n: "\<not> connected (fst (open_connection ''SPY'' ''1 Y'' ''1 week'' 0 False ''127.0.0.1'' 4001 123
             (snd (get_ib_ticks example_config ''SPY'' ''1 M'' ''1 day'' 0 False None None None
                     example_gateway))))"
    by (rule no_feed_no_connection) (simp add: f)
  have y: "connected (fst (open_connection ''SPY'' ''1 M'' ''1 day'' 0 False ''127.0.0.1'' 4001 123
                     example_gateway))"
    using connected_open_connection_same[OF same_world_refl, of "''SPY''" "''1 M''" "''1 day''"]
      same_open_connection[OF same_world_refl, of "''SPY''" "''1 M''" "''1 day''" 0 False
        "''127.0.0.1''" 4001 123 example_gateway 1]
      example_gateway_connects
    by (simp add: same_app_def)
  show ?thesis
    by (simp add: get_ib_ticks_multiple_sessions[OF import_config_empty] c r n y
        session_calls_def)
qed

end
